theory Spec2Isabelle
  imports Main "HOL-Library.AList"
begin

section \<open>The browser platform\<close>

text \<open>
  The call core of the application is written against two platforms: the browser's WebRTC
  and media API, and the Firestore document store.  Both are modelled here as explicit
  state, with every exception the platform can raise as a value of type \<open>js_error\<close>.
  Objects with identity (peer connections, media tracks) live in a store indexed by
  references, since the source keeps several references to one object (the connection
  table, the value returned by \<open>createPeerConnection\<close>, the sender list of a connection).

  Every handler of the source is \<open>async\<close>; the application runs on a single event loop and
  the model executes each handler as one atomic step, in the order of its statements.
\<close>

datatype js_error = JsError (errName: string) (errMessage: string)

definition InvalidStateError :: js_error where
  "InvalidStateError = JsError ''InvalidStateError'' ''''"

definition InvalidAccessError :: js_error where
  "InvalidAccessError = JsError ''InvalidAccessError'' ''''"

definition TypeError :: js_error where
  "TypeError = JsError ''TypeError'' ''''"

datatype log_level = LOG | WARN | ERROR

type_synonym console_line = "log_level \<times> string"

subsection \<open>Media tracks\<close>

datatype track_kind = Audio | Video

datatype track_ready_state = TrackLive | TrackEnded

record MediaStreamTrack =
  kind :: track_kind
  enabled :: bool
  readyState :: track_ready_state

definition kindName :: "track_kind \<Rightarrow> string" where
  "kindName k = (case k of Audio \<Rightarrow> ''audio'' | Video \<Rightarrow> ''video'')"

text \<open>\<open>track.stop()\<close>: the track ends; stopping an ended track changes nothing.\<close>

definition track_stop :: "MediaStreamTrack \<Rightarrow> MediaStreamTrack" where
  "track_stop t = t\<lparr>readyState := TrackEnded\<rparr>"

subsection \<open>RTCPeerConnection\<close>

datatype RTCSdpType = Offer | Answer | Pranswer | Rollback

record RTCSessionDescriptionInit =
  sdpType :: RTCSdpType
  sdp :: string

record RTCIceCandidateInit =
  candidate :: string
  sdpMid :: "string option"
  sdpMLineIndex :: "nat option"

datatype RTCSignalingState =
  Stable | HaveLocalOffer | HaveRemoteOffer | HaveLocalPranswer | HaveRemotePranswer | SigClosed

datatype RTCPeerConnectionState =
  ConnNew | Connecting | Connected | Disconnected | Failed | ConnClosed

definition signalingStateName :: "RTCSignalingState \<Rightarrow> string" where
  "signalingStateName s = (case s of
       Stable \<Rightarrow> ''stable''
     | HaveLocalOffer \<Rightarrow> ''have-local-offer''
     | HaveRemoteOffer \<Rightarrow> ''have-remote-offer''
     | HaveLocalPranswer \<Rightarrow> ''have-local-pranswer''
     | HaveRemotePranswer \<Rightarrow> ''have-remote-pranswer''
     | SigClosed \<Rightarrow> ''closed'')"

text \<open>
  The state of one \<open>RTCPeerConnection\<close> that the source reads or changes: the two state
  attributes, the pending and current descriptions of each side, the tracks that have a
  sender (track references, in the order of \<open>addTrack\<close>), the remote candidates accepted by
  \<open>addIceCandidate\<close> (in the order of acceptance), and whether an \<open>ontrack\<close> handler is set.
\<close>

record RTCPeerConnection =
  signalingState :: RTCSignalingState
  connectionState :: RTCPeerConnectionState
  pendingLocalDescription :: "RTCSessionDescriptionInit option"
  currentLocalDescription :: "RTCSessionDescriptionInit option"
  pendingRemoteDescription :: "RTCSessionDescriptionInit option"
  currentRemoteDescription :: "RTCSessionDescriptionInit option"
  senders :: "nat list"
  remoteCandidates :: "RTCIceCandidateInit list"
  ontrack :: bool

text \<open>The attributes \<open>localDescription\<close> and \<open>remoteDescription\<close>: pending if there is one, else current.\<close>

definition localDescription :: "RTCPeerConnection \<Rightarrow> RTCSessionDescriptionInit option" where
  "localDescription c =
     (case pendingLocalDescription c of Some d \<Rightarrow> Some d | None \<Rightarrow> currentLocalDescription c)"

definition remoteDescription :: "RTCPeerConnection \<Rightarrow> RTCSessionDescriptionInit option" where
  "remoteDescription c =
     (case pendingRemoteDescription c of Some d \<Rightarrow> Some d | None \<Rightarrow> currentRemoteDescription c)"

text \<open>\<open>new RTCPeerConnection(ICE_SERVERS)\<close>.\<close>

definition newRTCPeerConnection :: RTCPeerConnection where
  "newRTCPeerConnection =
     \<lparr> signalingState = Stable, connectionState = ConnNew,
       pendingLocalDescription = None, currentLocalDescription = None,
       pendingRemoteDescription = None, currentRemoteDescription = None,
       senders = [], remoteCandidates = [], ontrack = False \<rparr>"

text \<open>\<open>close()\<close> never raises; both state attributes become closed.\<close>

definition pc_close :: "RTCPeerConnection \<Rightarrow> RTCPeerConnection" where
  "pc_close c = c\<lparr>signalingState := SigClosed, connectionState := ConnClosed\<rparr>"

text \<open>\<open>addTrack(track, stream)\<close>: refused on a closed connection and for a track that has a sender.\<close>

definition pc_addTrack :: "nat \<Rightarrow> RTCPeerConnection \<Rightarrow> js_error + RTCPeerConnection" where
  "pc_addTrack t c =
     (if signalingState c = SigClosed then Inl InvalidStateError
      else if t \<in> set (senders c) then Inl InvalidAccessError
      else Inr (c\<lparr>senders := senders c @ [t]\<rparr>))"

text \<open>
  \<open>setLocalDescription\<close> and \<open>setRemoteDescription\<close> follow the signalling state machine of
  the WebRTC standard: a description is accepted only in the states that admit its type,
  and anything else is rejected with \<open>InvalidStateError\<close>.  A remote offer that arrives
  while a local offer is pending rolls the local offer back first, and a rollback is
  accepted while an offer of either side is pending.

  A remote description that is admitted by the state can still be rejected for its
  content (text that does not parse, or that does not fit the connection), and so can a
  remote candidate.  The program cannot compute that verdict: it is a parameter of the
  model, a function that gives the exception the browser raises for a description or a
  candidate at a connection, or \<open>None\<close> when the browser accepts it.
\<close>

type_synonym description_verdict =
  "RTCSessionDescriptionInit \<Rightarrow> RTCPeerConnection \<Rightarrow> js_error option"

type_synonym candidate_verdict =
  "RTCIceCandidateInit \<Rightarrow> RTCPeerConnection \<Rightarrow> js_error option"

definition contentChecked :: "js_error option \<Rightarrow> RTCPeerConnection \<Rightarrow> js_error + RTCPeerConnection" where
  "contentChecked verdict c' = (case verdict of Some err \<Rightarrow> Inl err | None \<Rightarrow> Inr c')"

definition pc_setLocalDescription ::
  "RTCSessionDescriptionInit \<Rightarrow> RTCPeerConnection \<Rightarrow> js_error + RTCPeerConnection" where
  "pc_setLocalDescription d c =
     (let st = signalingState c in
      case sdpType d of
        Offer \<Rightarrow>
          if st = Stable \<or> st = HaveLocalOffer
          then Inr (c\<lparr>pendingLocalDescription := Some d, signalingState := HaveLocalOffer\<rparr>)
          else Inl InvalidStateError
      | Answer \<Rightarrow>
          if st = HaveRemoteOffer \<or> st = HaveLocalPranswer
          then Inr (c\<lparr>currentLocalDescription := Some d,
                      currentRemoteDescription := pendingRemoteDescription c,
                      pendingLocalDescription := None, pendingRemoteDescription := None,
                      signalingState := Stable\<rparr>)
          else Inl InvalidStateError
      | Pranswer \<Rightarrow>
          if st = HaveRemoteOffer \<or> st = HaveLocalPranswer
          then Inr (c\<lparr>pendingLocalDescription := Some d, signalingState := HaveLocalPranswer\<rparr>)
          else Inl InvalidStateError
      | Rollback \<Rightarrow>
          if st = HaveLocalOffer \<or> st = HaveRemoteOffer
          then Inr (c\<lparr>pendingLocalDescription := None, pendingRemoteDescription := None,
                      signalingState := Stable\<rparr>)
          else Inl InvalidStateError)"

definition pc_setRemoteDescription ::
  "description_verdict \<Rightarrow> RTCSessionDescriptionInit \<Rightarrow> RTCPeerConnection
     \<Rightarrow> js_error + RTCPeerConnection" where
  "pc_setRemoteDescription verdict d c =
     (let st = signalingState c in
      case sdpType d of
        Offer \<Rightarrow>
          if st = Stable \<or> st = HaveRemoteOffer
          then contentChecked (verdict d c)
                 (c\<lparr>pendingRemoteDescription := Some d, signalingState := HaveRemoteOffer\<rparr>)
          else if st = HaveLocalOffer
          then contentChecked (verdict d c)
                 (c\<lparr>pendingLocalDescription := None, pendingRemoteDescription := Some d,
                    signalingState := HaveRemoteOffer\<rparr>)
          else Inl InvalidStateError
      | Answer \<Rightarrow>
          if st = HaveLocalOffer \<or> st = HaveRemotePranswer
          then contentChecked (verdict d c)
                 (c\<lparr>currentRemoteDescription := Some d,
                    currentLocalDescription := pendingLocalDescription c,
                    pendingLocalDescription := None, pendingRemoteDescription := None,
                    signalingState := Stable\<rparr>)
          else Inl InvalidStateError
      | Pranswer \<Rightarrow>
          if st = HaveLocalOffer \<or> st = HaveRemotePranswer
          then contentChecked (verdict d c)
                 (c\<lparr>pendingRemoteDescription := Some d, signalingState := HaveRemotePranswer\<rparr>)
          else Inl InvalidStateError
      | Rollback \<Rightarrow>
          if st = HaveLocalOffer \<or> st = HaveRemoteOffer
          then Inr (c\<lparr>pendingLocalDescription := None, pendingRemoteDescription := None,
                      signalingState := Stable\<rparr>)
          else Inl InvalidStateError)"

text \<open>
  \<open>createOffer\<close> and \<open>createAnswer\<close> produce a description whose text is chosen by the
  browser; the text is a parameter \<open>gen\<close> of the model (a function of the connection).
  \<open>createOffer\<close> is refused unless the state is stable or have-local-offer, \<open>createAnswer\<close>
  unless it is have-remote-offer or have-local-pranswer.
\<close>

type_synonym sdp_gen = "RTCPeerConnection \<Rightarrow> string"

definition pc_createOffer :: "sdp_gen \<Rightarrow> RTCPeerConnection \<Rightarrow> js_error + RTCSessionDescriptionInit" where
  "pc_createOffer gen c =
     (if signalingState c = Stable \<or> signalingState c = HaveLocalOffer
      then Inr \<lparr>sdpType = Offer, sdp = gen c\<rparr>
      else Inl InvalidStateError)"

definition pc_createAnswer :: "sdp_gen \<Rightarrow> RTCPeerConnection \<Rightarrow> js_error + RTCSessionDescriptionInit" where
  "pc_createAnswer gen c =
     (if signalingState c = HaveRemoteOffer \<or> signalingState c = HaveLocalPranswer
      then Inr \<lparr>sdpType = Answer, sdp = gen c\<rparr>
      else Inl InvalidStateError)"

text \<open>
  \<open>new RTCIceCandidate(init)\<close> raises \<open>TypeError\<close> when both \<open>sdpMid\<close> and \<open>sdpMLineIndex\<close>
  are missing.  \<open>addIceCandidate\<close> is refused on a closed connection and on a connection
  without a remote description, and otherwise refuses a candidate for its content (a line
  that does not parse, an \<open>sdpMid\<close> that matches no media section) as the verdict says.
\<close>

definition newRTCIceCandidate :: "RTCIceCandidateInit \<Rightarrow> js_error + RTCIceCandidateInit" where
  "newRTCIceCandidate i =
     (if sdpMid i = None \<and> sdpMLineIndex i = None then Inl TypeError else Inr i)"

definition pc_addIceCandidate ::
  "candidate_verdict \<Rightarrow> RTCIceCandidateInit \<Rightarrow> RTCPeerConnection
     \<Rightarrow> js_error + RTCPeerConnection" where
  "pc_addIceCandidate verdict i c =
     (if signalingState c = SigClosed then Inl InvalidStateError
      else if remoteDescription c = None then Inl InvalidStateError
      else contentChecked (verdict i c) (c\<lparr>remoteCandidates := remoteCandidates c @ [i]\<rparr>))"

subsection \<open>The page: object stores, console, alerts, timers\<close>

text \<open>
  \<open>pcs\<close> and \<open>trackStore\<close> hold the peer connections and tracks created so far, at the
  references below \<open>nextPc\<close> and \<open>nextTrack\<close>.  \<open>timers\<close> holds the pending \<open>setTimeout\<close>
  callbacks of \<open>startCall\<close>, each identified by the call document it will update.
  \<open>descriptionError\<close> and \<open>candidateError\<close> are the verdicts of this browser on remote
  descriptions and remote candidates; no operation of the program changes them.
\<close>

record browser =
  pcs :: "nat \<Rightarrow> RTCPeerConnection"
  nextPc :: nat
  trackStore :: "nat \<Rightarrow> MediaStreamTrack"
  nextTrack :: nat
  console :: "console_line list"
  alerts :: "string list"
  timers :: "string list"
  descriptionError :: description_verdict
  candidateError :: candidate_verdict

definition console_write :: "log_level \<Rightarrow> string \<Rightarrow> browser \<Rightarrow> browser" where
  "console_write l m b = b\<lparr>console := console b @ [(l, m)]\<rparr>"

definition pc_update :: "nat \<Rightarrow> RTCPeerConnection \<Rightarrow> browser \<Rightarrow> browser" where
  "pc_update p c b = b\<lparr>pcs := (pcs b)(p := c)\<rparr>"

section \<open>WebRTCService\<close>

text \<open>
  The entry of the connection table (interface \<open>PeerConnection\<close>; its field \<open>userId\<close> is
  \<open>peerUserId\<close> here, \<open>connection\<close> is a reference into \<open>pcs\<close>).
\<close>

record PeerConnection =
  peerUserId :: string
  connection :: nat
  stream :: "nat list option"

text \<open>
  The fields of class \<open>WebRTCService\<close>.  The connection table is a JavaScript \<open>Map\<close>,
  which keeps its entries in insertion order: an association list, read with \<open>map_of\<close>,
  written with \<open>AList.update\<close> and \<open>AList.delete\<close>.  \<open>localStream\<close> is the list of the
  stream's track references, or \<open>None\<close> for \<open>null\<close>; \<open>unsubscribes\<close> records each
  candidate listener by the call and the remote user it listens to.
\<close>

record WebRTCService =
  peerConnections :: "(string \<times> PeerConnection) list"
  localStream :: "nat list option"
  callId :: "string option"
  userId :: string
  unsubscribes :: "(string \<times> string) list"

definition newWebRTCService :: "string \<Rightarrow> WebRTCService" where
  "newWebRTCService uid =
     \<lparr> peerConnections = [], localStream = None, callId = None, userId = uid,
       unsubscribes = [] \<rparr>"

subsection \<open>Local media\<close>

text \<open>
  What \<open>initializeLocalStream\<close> finds in its environment: whether
  \<open>navigator.mediaDevices.getUserMedia\<close> exists, whether the page is served over HTTPS or
  from localhost, and the exception \<open>getUserMedia\<close> rejects with, if it does.
\<close>

record media_env =
  mediaDevicesSupported :: bool
  secureOrigin :: bool
  getUserMediaError :: "js_error option"

definition stopTracks :: "nat list \<Rightarrow> browser \<Rightarrow> browser" where
  "stopTracks ts b =
     b\<lparr>trackStore := fold (\<lambda>t st. st(t := track_stop (st t))) ts (trackStore b)\<rparr>"

text \<open>A successful \<open>getUserMedia\<close> returns new live tracks, one for each requested kind.\<close>

fun newTracks :: "track_kind list \<Rightarrow> browser \<Rightarrow> nat list \<times> browser" where
  "newTracks [] b = ([], b)"
| "newTracks (k # ks) b =
     (let t = nextTrack b;
          b1 = b\<lparr>trackStore := (trackStore b)(t := \<lparr>kind = k, enabled = True, readyState = TrackLive\<rparr>),
                 nextTrack := Suc t\<rparr>;
          (ts, b2) = newTracks ks b1
      in (t # ts, b2))"

text \<open>The \<open>catch\<close> block of \<open>initializeLocalStream\<close>: the error that is thrown to the caller.\<close>

definition mediaErrorFor :: "js_error \<Rightarrow> js_error" where
  "mediaErrorFor error =
     (if errName error = ''NotAllowedError'' \<or> errName error = ''PermissionDeniedError''
      then JsError ''Error'' ''Camera/microphone access was denied. Please allow access in your browser settings and try again.''
      else if errName error = ''NotFoundError'' \<or> errName error = ''DevicesNotFoundError''
      then JsError ''Error'' ''No camera or microphone found. Please connect a camera/microphone and try again.''
      else if errName error = ''NotReadableError'' \<or> errName error = ''TrackStartError''
      then JsError ''Error'' ''Camera or microphone is already in use by another application. Please close other apps and try again.''
      else if errName error = ''OverconstrainedError''
      then JsError ''Error'' ''Camera/microphone settings are not supported by your device. Trying with basic settings...''
      else if errName error = ''SecurityError''
      then JsError ''Error'' ''Security error: WebRTC requires HTTPS. Please access the app using https:// or localhost.''
      else if errMessage error \<noteq> []
      then error
      else JsError ''Error'' ''Failed to access camera/microphone. Please check your browser permissions and try again.'')"

definition mediaCatch ::
  "js_error \<Rightarrow> WebRTCService \<Rightarrow> browser \<Rightarrow> (js_error + nat list) \<times> WebRTCService \<times> browser" where
  "mediaCatch error svc b =
     (Inl (mediaErrorFor error), svc, console_write ERROR ''Error accessing media devices:'' b)"

text \<open>\<open>initializeLocalStream(audioOnly)\<close>.\<close>

definition initializeLocalStream ::
  "media_env \<Rightarrow> bool \<Rightarrow> WebRTCService \<Rightarrow> browser \<Rightarrow> (js_error + nat list) \<times> WebRTCService \<times> browser" where
  "initializeLocalStream env audioOnly svc b =
     (if \<not> mediaDevicesSupported env
      then mediaCatch (JsError ''Error'' ''Your browser does not support camera/microphone access. Please use a modern browser like Chrome, Firefox, or Safari.'') svc b
      else if \<not> secureOrigin env
      then mediaCatch (JsError ''Error'' ''Camera and microphone access requires HTTPS. Please use https:// or test on localhost.'') svc b
      else
        (let b1 = (case localStream svc of Some ts \<Rightarrow> stopTracks ts b | None \<Rightarrow> b) in
         case getUserMediaError env of
           Some error \<Rightarrow> mediaCatch error svc b1
         | None \<Rightarrow>
             (let (ts, b2) = newTracks (if audioOnly then [Audio] else [Audio, Video]) b1
              in (Inr ts, svc\<lparr>localStream := Some ts\<rparr>, b2))))"

subsection \<open>The connection table\<close>

text \<open>\<open>closePeerConnection(userId)\<close>.\<close>

definition closePeerConnection :: "string \<Rightarrow> WebRTCService \<Rightarrow> browser \<Rightarrow> WebRTCService \<times> browser" where
  "closePeerConnection uid svc b =
     (case map_of (peerConnections svc) uid of
        None \<Rightarrow> (svc, b)
      | Some peerConnectionData \<Rightarrow>
          (svc\<lparr>peerConnections := AList.delete uid (peerConnections svc)\<rparr>,
           console_write LOG (''Closed peer connection for '' @ uid)
             (pc_update (connection peerConnectionData)
                (pc_close (pcs b (connection peerConnectionData))) b)))"

text \<open>
  The body of the \<open>forEach\<close> over the local tracks in \<open>createPeerConnection\<close>: a track
  that has no sender on connection \<open>p\<close> is added, and an exception of \<open>addTrack\<close> is logged.
\<close>

definition addLocalTrack :: "nat \<Rightarrow> nat \<Rightarrow> browser \<Rightarrow> browser" where
  "addLocalTrack p track b =
     (let peerConnection = pcs b p;
          trackAlreadyAdded = (track \<in> set (senders peerConnection)) in
      if \<not> trackAlreadyAdded
      then (case pc_addTrack track peerConnection of
              Inr c' \<Rightarrow>
                console_write LOG
                  (''Added '' @ kindName (kind (trackStore b track)) @ '' track to peer connection'')
                  (pc_update p c' b)
            | Inl e \<Rightarrow> console_write ERROR ''Error adding track:'' b)
      else b)"

text \<open>
  The part of \<open>createPeerConnection\<close> after the look-up: a new connection gets every local
  track and is stored in the table under the remote user.
\<close>

definition constructPeerConnection ::
  "string \<Rightarrow> WebRTCService \<Rightarrow> browser \<Rightarrow> nat \<times> WebRTCService \<times> browser" where
  "constructPeerConnection remoteUserId svc b =
     (let p = nextPc b;
          b1 = b\<lparr>pcs := (pcs b)(p := newRTCPeerConnection), nextPc := Suc p\<rparr>;
          b2 = (case localStream svc of Some ts \<Rightarrow> fold (addLocalTrack p) ts b1 | None \<Rightarrow> b1)
      in (p,
          svc\<lparr>peerConnections :=
                AList.update remoteUserId
                  \<lparr>peerUserId = remoteUserId, connection = p, stream = None\<rparr>
                  (peerConnections svc)\<rparr>,
          b2))"

text \<open>\<open>createPeerConnection(remoteUserId)\<close>; the result is the reference of the connection.\<close>

definition createPeerConnection ::
  "string \<Rightarrow> WebRTCService \<Rightarrow> browser \<Rightarrow> nat \<times> WebRTCService \<times> browser" where
  "createPeerConnection remoteUserId svc b =
     (case map_of (peerConnections svc) remoteUserId of
        Some existing \<Rightarrow>
          if connectionState (pcs b (connection existing)) \<noteq> ConnClosed
          then (connection existing, svc,
                console_write LOG (''Using existing peer connection for '' @ remoteUserId) b)
          else (let (svc1, b1) = closePeerConnection remoteUserId svc b
                in constructPeerConnection remoteUserId svc1 b1)
      | None \<Rightarrow> constructPeerConnection remoteUserId svc b)"

subsection \<open>Offer, answer and candidates\<close>

text \<open>\<open>createOffer(remoteUserId)\<close>: an exception is logged and thrown again.\<close>

definition createOffer ::
  "sdp_gen \<Rightarrow> string \<Rightarrow> WebRTCService \<Rightarrow> browser
     \<Rightarrow> (js_error + RTCSessionDescriptionInit) \<times> WebRTCService \<times> browser" where
  "createOffer gen remoteUserId svc b =
     (let (p, svc1, b1) = createPeerConnection remoteUserId svc b in
      case pc_createOffer gen (pcs b1 p) of
        Inl e \<Rightarrow> (Inl e, svc1, console_write ERROR ''Error creating offer:'' b1)
      | Inr offer \<Rightarrow>
          (case pc_setLocalDescription offer (pcs b1 p) of
             Inl e \<Rightarrow> (Inl e, svc1, console_write ERROR ''Error creating offer:'' b1)
           | Inr c' \<Rightarrow> (Inr offer, svc1, pc_update p c' b1)))"

text \<open>\<open>createAnswer(remoteUserId, offer)\<close>.\<close>

definition createAnswer ::
  "sdp_gen \<Rightarrow> string \<Rightarrow> RTCSessionDescriptionInit \<Rightarrow> WebRTCService \<Rightarrow> browser
     \<Rightarrow> (js_error + RTCSessionDescriptionInit) \<times> WebRTCService \<times> browser" where
  "createAnswer gen remoteUserId offer svc b =
     (let (p, svc1, b1) = createPeerConnection remoteUserId svc b in
      case pc_setRemoteDescription (descriptionError b1) offer (pcs b1 p) of
        Inl e \<Rightarrow> (Inl e, svc1, console_write ERROR ''Error creating answer:'' b1)
      | Inr c1 \<Rightarrow>
          (let b2 = pc_update p c1 b1 in
           case pc_createAnswer gen c1 of
             Inl e \<Rightarrow> (Inl e, svc1, console_write ERROR ''Error creating answer:'' b2)
           | Inr answer \<Rightarrow>
               (case pc_setLocalDescription answer c1 of
                  Inl e \<Rightarrow> (Inl e, svc1, console_write ERROR ''Error creating answer:'' b2)
                | Inr c2 \<Rightarrow> (Inr answer, svc1, pc_update p c2 b2))))"

text \<open>
  \<open>handleAnswer(remoteUserId, answer)\<close>.  The \<open>try\<close> block covers every call that can raise
  and its \<open>catch\<close> only logs, so the method has no exceptional result.
\<close>

definition handleAnswer ::
  "string \<Rightarrow> RTCSessionDescriptionInit \<Rightarrow> WebRTCService \<Rightarrow> browser \<Rightarrow> browser" where
  "handleAnswer remoteUserId answer svc b =
     (case map_of (peerConnections svc) remoteUserId of
        None \<Rightarrow> console_write ERROR (''No peer connection found for '' @ remoteUserId) b
      | Some peerConnectionData \<Rightarrow>
          (let p = connection peerConnectionData; peerConnection = pcs b p in
           if signalingState peerConnection = HaveLocalOffer
           then (case pc_setRemoteDescription (descriptionError b) answer peerConnection of
                   Inr c' \<Rightarrow> pc_update p c' b
                 | Inl e \<Rightarrow> console_write ERROR ''Error handling answer:'' b)
           else console_write WARN
                  (''Cannot set remote description in state: ''
                     @ signalingStateName (signalingState peerConnection)) b))"

text \<open>\<open>handleIceCandidate(remoteUserId, candidate)\<close>; again every exception is caught and logged.\<close>

definition handleIceCandidate ::
  "string \<Rightarrow> RTCIceCandidateInit \<Rightarrow> WebRTCService \<Rightarrow> browser \<Rightarrow> browser" where
  "handleIceCandidate remoteUserId cand svc b =
     (case map_of (peerConnections svc) remoteUserId of
        None \<Rightarrow> console_write ERROR (''No peer connection found for '' @ remoteUserId) b
      | Some peerConnectionData \<Rightarrow>
          (let p = connection peerConnectionData; peerConnection = pcs b p in
           if remoteDescription peerConnection \<noteq> None
           then (case newRTCIceCandidate cand of
                   Inl e \<Rightarrow> console_write ERROR ''Error adding ICE candidate:'' b
                 | Inr i \<Rightarrow>
                     (case pc_addIceCandidate (candidateError b) i peerConnection of
                        Inl e \<Rightarrow> console_write ERROR ''Error adding ICE candidate:'' b
                      | Inr c' \<Rightarrow> pc_update p c' b))
           else b))"

text \<open>\<open>setupRemoteStreamListener(remoteUserId, onRemoteStream)\<close> installs the \<open>ontrack\<close> handler.\<close>

definition setupRemoteStreamListener :: "string \<Rightarrow> WebRTCService \<Rightarrow> browser \<Rightarrow> browser" where
  "setupRemoteStreamListener remoteUserId svc b =
     (case map_of (peerConnections svc) remoteUserId of
        None \<Rightarrow> console_write ERROR (''No peer connection found for '' @ remoteUserId) b
      | Some peerConnectionData \<Rightarrow>
          pc_update (connection peerConnectionData)
            ((pcs b (connection peerConnectionData))\<lparr>ontrack := True\<rparr>) b)"

text \<open>
  \<open>listenForCandidates(callId, remoteUserId)\<close> subscribes to the candidates sent by the
  remote user; \<open>onCandidatesSnapshot\<close> is the callback of that subscription, run on every
  batch of document changes.
\<close>

datatype change_type = Added | Modified | Removed

definition listenForCandidates :: "string \<Rightarrow> string \<Rightarrow> WebRTCService \<Rightarrow> WebRTCService" where
  "listenForCandidates cid remoteUserId svc =
     svc\<lparr>unsubscribes := unsubscribes svc @ [(cid, remoteUserId)]\<rparr>"

definition onCandidatesSnapshot ::
  "string \<Rightarrow> (change_type \<times> RTCIceCandidateInit) list \<Rightarrow> WebRTCService \<Rightarrow> browser \<Rightarrow> browser" where
  "onCandidatesSnapshot remoteUserId changes svc b =
     fold (\<lambda>change b'. if fst change = Added
                        then handleIceCandidate remoteUserId (snd change) svc b' else b')
       changes b"

definition setCallId :: "string \<Rightarrow> WebRTCService \<Rightarrow> WebRTCService" where
  "setCallId cid svc = svc\<lparr>callId := Some cid\<rparr>"

text \<open>\<open>cleanup()\<close>: stop the local tracks, close and forget every connection, drop the listeners.\<close>

definition closeEach :: "(string \<times> PeerConnection) list \<Rightarrow> browser \<Rightarrow> browser" where
  "closeEach table b =
     fold (\<lambda>entry b'. pc_update (connection (snd entry))
                         (pc_close (pcs b' (connection (snd entry)))) b')
       table b"

definition cleanup :: "WebRTCService \<Rightarrow> browser \<Rightarrow> WebRTCService \<times> browser" where
  "cleanup svc b =
     (let b1 = (case localStream svc of Some ts \<Rightarrow> stopTracks ts b | None \<Rightarrow> b);
          b2 = closeEach (peerConnections svc) b1
      in (svc\<lparr>localStream := None, peerConnections := [], unsubscribes := [], callId := None\<rparr>,
          b2))"

section \<open>Firestore\<close>

text \<open>
  The documents the call core reads and writes: \<open>calls/{callId}\<close>, its subcollections
  \<open>offers\<close> and \<open>answers\<close> (keyed by call and user), and \<open>users/{uid}\<close>.  The field
  \<open>type\<close> of a call is \<open>callKind\<close> here.  \<open>receiverId\<close> is a string, \<open>null\<close> for a group
  call, or \<open>undefined\<close> (what \<open>receiverIds[0]\<close> gives for an empty array).
\<close>

datatype call_type = VoiceCall | VideoCall

datatype call_status = Ringing | Active | Ended | Missed

datatype js_field = Undefined | Null | Str string

record User =
  uid :: string
  email :: string
  displayName :: string
  photoURL :: string
  isOnline :: bool
  lastSeen :: nat

record Call =
  callerId :: string
  callerName :: string
  callerPhoto :: string
  receiverId :: js_field
  participants :: "string list"
  callKind :: call_type
  status :: call_status
  isGroupCall :: bool
  createdAt :: nat
  startedAt :: "nat option"
  endedAt :: "nat option"

record SignalDoc =
  description :: RTCSessionDescriptionInit
  fromUserId :: string
  toUserId :: string
  timestamp :: nat

record firestore =
  calls :: "string \<rightharpoonup> Call"
  offers :: "string \<times> string \<rightharpoonup> SignalDoc"
  answers :: "string \<times> string \<rightharpoonup> SignalDoc"
  users :: "string \<rightharpoonup> User"

text \<open>
  A Firestore operation can be rejected from outside the program (security rules, a lost
  connection).  Which operations are rejected, and with which exception, is a parameter
  \<open>rej\<close> of the model, given per document.
\<close>

datatype fs_op =
    WriteCall string
  | WriteOffer string string
  | WriteAnswer string string
  | ReadOffer string string
  | ReadUser string

type_synonym fs_rejections = "fs_op \<Rightarrow> js_error option"

definition FirestoreNotFound :: js_error where
  "FirestoreNotFound = JsError ''FirebaseError'' ''not-found''"

definition FirestoreInvalidArgument :: js_error where
  "FirestoreInvalidArgument = JsError ''FirebaseError'' ''invalid-argument''"

text \<open>\<open>updateDoc\<close> on a call document: rejected when the document does not exist.\<close>

definition updateCallDoc ::
  "fs_rejections \<Rightarrow> string \<Rightarrow> (Call \<Rightarrow> Call) \<Rightarrow> firestore \<Rightarrow> js_error + firestore" where
  "updateCallDoc rej cid f db =
     (case rej (WriteCall cid) of
        Some err \<Rightarrow> Inl err
      | None \<Rightarrow>
          (case calls db cid of
             None \<Rightarrow> Inl FirestoreNotFound
           | Some d \<Rightarrow> Inr (db\<lparr>calls := (calls db)(cid \<mapsto> f d)\<rparr>)))"

text \<open>
  \<open>setDoc\<close> on a call document creates or replaces it.  Firestore rejects a field that is
  \<open>undefined\<close> unless the database was initialised with \<open>ignoreUndefinedProperties\<close>; the
  module that initialises it is not part of the sources, so the setting is a parameter.
\<close>

definition setCallDoc ::
  "fs_rejections \<Rightarrow> bool \<Rightarrow> string \<Rightarrow> Call \<Rightarrow> firestore \<Rightarrow> js_error + firestore" where
  "setCallDoc rej ignoreUndefined cid d db =
     (if receiverId d = Undefined \<and> \<not> ignoreUndefined then Inl FirestoreInvalidArgument
      else case rej (WriteCall cid) of
             Some err \<Rightarrow> Inl err
           | None \<Rightarrow> Inr (db\<lparr>calls := (calls db)(cid \<mapsto> d)\<rparr>))"

text \<open>\<open>setDoc\<close> on an offer or an answer document, and the reads of the call core.\<close>

definition setOfferDoc ::
  "fs_rejections \<Rightarrow> string \<Rightarrow> string \<Rightarrow> SignalDoc \<Rightarrow> firestore \<Rightarrow> js_error + firestore" where
  "setOfferDoc rej cid receiver d db =
     (case rej (WriteOffer cid receiver) of
        Some err \<Rightarrow> Inl err
      | None \<Rightarrow> Inr (db\<lparr>offers := (offers db)((cid, receiver) \<mapsto> d)\<rparr>))"

definition setAnswerDoc ::
  "fs_rejections \<Rightarrow> string \<Rightarrow> string \<Rightarrow> SignalDoc \<Rightarrow> firestore \<Rightarrow> js_error + firestore" where
  "setAnswerDoc rej cid answerer d db =
     (case rej (WriteAnswer cid answerer) of
        Some err \<Rightarrow> Inl err
      | None \<Rightarrow> Inr (db\<lparr>answers := (answers db)((cid, answerer) \<mapsto> d)\<rparr>))"

definition getOfferDoc ::
  "fs_rejections \<Rightarrow> string \<Rightarrow> string \<Rightarrow> firestore \<Rightarrow> js_error + SignalDoc option" where
  "getOfferDoc rej cid receiver db =
     (case rej (ReadOffer cid receiver) of
        Some err \<Rightarrow> Inl err
      | None \<Rightarrow> Inr (offers db (cid, receiver)))"

text \<open>
  \<open>Promise.all\<close> over the reads of the user documents: the data of each document
  (\<open>undefined\<close> for a missing one), or the first rejection.
\<close>

fun getUserDocs :: "fs_rejections \<Rightarrow> string list \<Rightarrow> firestore \<Rightarrow> js_error + User option list" where
  "getUserDocs rej [] db = Inr []"
| "getUserDocs rej (i # ids) db =
     (case rej (ReadUser i) of
        Some err \<Rightarrow> Inl err
      | None \<Rightarrow>
          (case getUserDocs rej ids db of
             Inl err \<Rightarrow> Inl err
           | Inr ds \<Rightarrow> Inr (users db i # ds)))"

section \<open>CallProvider\<close>

text \<open>
  The React state of the provider: \<open>callState\<close> (its fields \<open>callId\<close>, \<open>localStream\<close> and
  \<open>participants\<close> carry the prefix \<open>cs_\<close> here), \<open>incomingCall\<close> (a call document with
  its id), the service object, and the calls whose answers the provider listens to.
\<close>

record CallState =
  cs_callId :: "string option"
  isInCall :: bool
  isCalling :: bool
  isReceivingCall :: bool
  callType :: "call_type option"
  cs_localStream :: "nat list option"
  remoteStreams :: "(string \<times> nat list) list"
  cs_participants :: "User option list"
  isMuted :: bool
  isVideoOff :: bool

definition initialCallState :: CallState where
  "initialCallState =
     \<lparr> cs_callId = None, isInCall = False, isCalling = False, isReceivingCall = False,
       callType = None, cs_localStream = None, remoteStreams = [], cs_participants = [],
       isMuted = False, isVideoOff = False \<rparr>"

record client =
  user :: "User option"
  webRTCService :: "WebRTCService option"
  callState :: CallState
  incomingCall :: "(string \<times> Call) option"
  answersListeners :: "string list"

text \<open>
  What one run of a handler takes from outside: the media environment, the text of the
  descriptions the browser generates, the id Firestore gives a new document, the clock
  (\<open>Timestamp.now()\<close>, which does not advance during one handler), the Firestore
  operations that are rejected, and the Firestore setting.
\<close>

record env =
  media :: media_env
  sdpGen :: sdp_gen
  newDocId :: string
  now :: nat
  rejected :: fs_rejections
  ignoreUndefinedProperties :: bool

definition MAX_PARTICIPANTS :: nat where
  "MAX_PARTICIPANTS = 5"

text \<open>
  A handler returns the exception its promise is rejected with (\<open>None\<close> when the promise
  is fulfilled), and the database, provider state and page it leaves behind.
\<close>

type_synonym handler_result = "js_error option \<times> firestore \<times> client \<times> browser"

definition outcome :: "handler_result \<Rightarrow> js_error option" where
  "outcome r = fst r"

definition dbOf :: "handler_result \<Rightarrow> firestore" where
  "dbOf r = fst (snd r)"

definition clientOf :: "handler_result \<Rightarrow> client" where
  "clientOf r = fst (snd (snd r))"

definition browserOf :: "handler_result \<Rightarrow> browser" where
  "browserOf r = snd (snd (snd r))"

subsection \<open>startCall\<close>

text \<open>The \<open>for\<close> loop of \<open>startCall\<close> over the receivers; it stops at the first exception.\<close>

fun publishOffers ::
  "env \<Rightarrow> string \<Rightarrow> string \<Rightarrow> string list \<Rightarrow> firestore \<Rightarrow> WebRTCService \<Rightarrow> browser
     \<Rightarrow> js_error option \<times> firestore \<times> WebRTCService \<times> browser" where
  "publishOffers e me cid [] db svc b = (None, db, svc, b)"
| "publishOffers e me cid (receiver # rest) db svc b =
     (case createOffer (sdpGen e) receiver svc b of
        (Inl err, svc1, b1) \<Rightarrow> (Some err, db, svc1, b1)
      | (Inr offer, svc1, b1) \<Rightarrow>
          (case setOfferDoc (rejected e) cid receiver
                  \<lparr>description = offer, fromUserId = me, toUserId = receiver,
                    timestamp = now e\<rparr> db of
             Inl err \<Rightarrow> (Some err, db, svc1, b1)
           | Inr db1 \<Rightarrow>
               (let svc2 = listenForCandidates cid receiver svc1;
                    b2 = setupRemoteStreamListener receiver svc2 b1
                in publishOffers e me cid rest db1 svc2 b2)))"

text \<open>The \<open>catch\<close> block of \<open>startCall\<close>: log, leave the calling state, throw again.\<close>

definition startCallCatch :: "js_error \<Rightarrow> firestore \<Rightarrow> client \<Rightarrow> browser \<Rightarrow> handler_result" where
  "startCallCatch err db cl b =
     (Some err, db, cl\<lparr>callState := (callState cl)\<lparr>isCalling := False\<rparr>\<rparr>,
      console_write ERROR ''Error starting call:'' b)"

text \<open>The call document that \<open>startCall\<close> writes.\<close>

definition newCallDoc :: "env \<Rightarrow> User \<Rightarrow> string list \<Rightarrow> call_type \<Rightarrow> Call" where
  "newCallDoc e u receiverIds type =
     (let participants1 = uid u # receiverIds;
          isGroupCall1 = (length receiverIds > 1)
      in \<lparr> callerId = uid u, callerName = displayName u, callerPhoto = photoURL u,
           receiverId = (if isGroupCall1 then Null
                         else case receiverIds of [] \<Rightarrow> Undefined | r # _ \<Rightarrow> Str r),
           participants = participants1, callKind = type, status = Ringing,
           isGroupCall = isGroupCall1, createdAt = now e,
           startedAt = None, endedAt = None \<rparr>)"

definition startCall :: "env \<Rightarrow> string list \<Rightarrow> call_type \<Rightarrow> firestore \<Rightarrow> client \<Rightarrow> browser \<Rightarrow> handler_result" where
  "startCall e receiverIds type db cl b =
     (case user cl of
        None \<Rightarrow> (None, db, cl, b)
      | Some u \<Rightarrow>
     (case webRTCService cl of
        None \<Rightarrow> (None, db, cl, b)
      | Some svc \<Rightarrow>
          if length receiverIds + 1 > MAX_PARTICIPANTS
          then (None, db, cl,
                b\<lparr>alerts := alerts b @ [''Maximum 5 participants allowed in a group call'']\<rparr>)
          else
            (let cl1 = cl\<lparr>callState := (callState cl)\<lparr>isCalling := True, callType := Some type\<rparr>\<rparr> in
             case initializeLocalStream (media e) (type = VoiceCall) svc b of
               (Inl err, svc1, b1) \<Rightarrow> startCallCatch err db (cl1\<lparr>webRTCService := Some svc1\<rparr>) b1
             | (Inr stream1, svc1, b1) \<Rightarrow>
                 (let cid = newDocId e
                  in case setCallDoc (rejected e) (ignoreUndefinedProperties e) cid
                            (newCallDoc e u receiverIds type) db of
                       Inl err \<Rightarrow> startCallCatch err db (cl1\<lparr>webRTCService := Some svc1\<rparr>) b1
                     | Inr db1 \<Rightarrow>
                         (case publishOffers e (uid u) cid receiverIds db1 (setCallId cid svc1) b1 of
                            (Some err, db2, svc2, b2) \<Rightarrow>
                              startCallCatch err db2 (cl1\<lparr>webRTCService := Some svc2\<rparr>) b2
                          | (None, db2, svc2, b2) \<Rightarrow>
                              (case getUserDocs (rejected e) receiverIds db2 of
                                 Inl err \<Rightarrow>
                                   startCallCatch err db2 (cl1\<lparr>webRTCService := Some svc2\<rparr>) b2
                               | Inr participantDetails \<Rightarrow>
                                   (None, db2,
                                    cl1\<lparr>webRTCService := Some svc2,
                                        callState := (callState cl1)
                                          \<lparr>cs_callId := Some cid, isInCall := True,
                                           isCalling := False,
                                           cs_localStream := Some stream1,
                                           cs_participants := participantDetails\<rparr>,
                                        answersListeners := answersListeners cl1 @ [cid]\<rparr>,
                                    b2\<lparr>timers := timers b2 @ [cid]\<rparr>)))))))"

text \<open>
  The callback of the answers listener that \<open>startCall\<close> registers, and the callback of
  the timer it sets: two seconds after the call was started the timer writes the status
  \<open>active\<close>.  Nothing waits for the write, so a rejection is lost.
\<close>

definition onAnswersSnapshot ::
  "(change_type \<times> SignalDoc) list \<Rightarrow> WebRTCService \<Rightarrow> browser \<Rightarrow> browser" where
  "onAnswersSnapshot changes svc b =
     fold (\<lambda>change b'. if fst change = Added
                        then handleAnswer (fromUserId (snd change)) (description (snd change)) svc b'
                        else b')
       changes b"

definition ringTimerFired ::
  "fs_rejections \<Rightarrow> string \<Rightarrow> nat \<Rightarrow> firestore \<Rightarrow> browser \<Rightarrow> firestore \<times> browser" where
  "ringTimerFired rej cid t db b =
     (case updateCallDoc rej cid (\<lambda>d. d\<lparr>status := Active, startedAt := Some t\<rparr>) db of
        Inl err \<Rightarrow> db
      | Inr db1 \<Rightarrow> db1,
      b\<lparr>timers := remove1 cid (timers b)\<rparr>)"

subsection \<open>answerCall, declineCall, endCall\<close>

definition answerCallCatch :: "js_error \<Rightarrow> firestore \<Rightarrow> client \<Rightarrow> browser \<Rightarrow> handler_result" where
  "answerCallCatch err db cl b = (Some err, db, cl, console_write ERROR ''Error answering call:'' b)"

text \<open>
  The part of \<open>answerCall\<close> that reads the offer addressed to the local user and, if there
  is one, answers it: one connection to the sender of the offer, one answer document.
\<close>

definition answerOffer ::
  "env \<Rightarrow> string \<Rightarrow> string \<Rightarrow> firestore \<Rightarrow> WebRTCService \<Rightarrow> browser
     \<Rightarrow> js_error option \<times> firestore \<times> WebRTCService \<times> browser" where
  "answerOffer e me cid db svc b =
     (case getOfferDoc (rejected e) cid me db of
        Inl err \<Rightarrow> (Some err, db, svc, b)
      | Inr None \<Rightarrow> (None, db, svc, b)
      | Inr (Some offerData) \<Rightarrow>
          (let caller = fromUserId offerData in
           case createAnswer (sdpGen e) caller (description offerData) svc b of
             (Inl err, svc1, b1) \<Rightarrow> (Some err, db, svc1, b1)
           | (Inr answer, svc1, b1) \<Rightarrow>
               (case setAnswerDoc (rejected e) cid me
                       \<lparr>description = answer, fromUserId = me, toUserId = caller,
                         timestamp = now e\<rparr> db of
                  Inl err \<Rightarrow> (Some err, db, svc1, b1)
                | Inr db1 \<Rightarrow>
                    (let svc2 = listenForCandidates cid caller svc1;
                         b2 = setupRemoteStreamListener caller svc2 b1
                     in (None, db1, svc2, b2)))))"

definition answerCall :: "env \<Rightarrow> string \<Rightarrow> firestore \<Rightarrow> client \<Rightarrow> browser \<Rightarrow> handler_result" where
  "answerCall e cid db cl b =
     (case user cl of
        None \<Rightarrow> (None, db, cl, b)
      | Some u \<Rightarrow>
     (case webRTCService cl of
        None \<Rightarrow> (None, db, cl, b)
      | Some svc \<Rightarrow>
     (case incomingCall cl of
        None \<Rightarrow> (None, db, cl, b)
      | Some incoming \<Rightarrow>
          (case initializeLocalStream (media e) (callKind (snd incoming) = VoiceCall) svc b of
             (Inl err, svc1, b1) \<Rightarrow> answerCallCatch err db (cl\<lparr>webRTCService := Some svc1\<rparr>) b1
           | (Inr stream1, svc1, b1) \<Rightarrow>
               (case answerOffer e (uid u) cid db (setCallId cid svc1) b1 of
                  (Some err, db1, svc3, b2) \<Rightarrow>
                    answerCallCatch err db1 (cl\<lparr>webRTCService := Some svc3\<rparr>) b2
                | (None, db1, svc3, b2) \<Rightarrow>
                    (case updateCallDoc (rejected e) cid
                            (\<lambda>d. d\<lparr>status := Active, startedAt := Some (now e)\<rparr>) db1 of
                       Inl err \<Rightarrow> answerCallCatch err db1 (cl\<lparr>webRTCService := Some svc3\<rparr>) b2
                     | Inr db2 \<Rightarrow>
                         (case getUserDocs (rejected e)
                                 (filter (\<lambda>i. i \<noteq> uid u) (participants (snd incoming))) db2 of
                            Inl err \<Rightarrow>
                              answerCallCatch err db2 (cl\<lparr>webRTCService := Some svc3\<rparr>) b2
                          | Inr participantDetails \<Rightarrow>
                              (None, db2,
                               cl\<lparr>webRTCService := Some svc3,
                                  callState := (callState cl)
                                    \<lparr>cs_callId := Some cid, isInCall := True,
                                     isReceivingCall := False,
                                     callType := Some (callKind (snd incoming)),
                                     cs_localStream := Some stream1,
                                     cs_participants := participantDetails\<rparr>,
                                  incomingCall := None\<rparr>,
                               b2))))))))"

text \<open>\<open>declineCall()\<close>: an exception is logged and not thrown again.\<close>

definition declineCall :: "env \<Rightarrow> firestore \<Rightarrow> client \<Rightarrow> browser \<Rightarrow> handler_result" where
  "declineCall e db cl b =
     (case incomingCall cl of
        None \<Rightarrow> (None, db, cl, b)
      | Some incoming \<Rightarrow>
          (case updateCallDoc (rejected e) (fst incoming)
                  (\<lambda>d. d\<lparr>status := Missed, endedAt := Some (now e)\<rparr>) db of
             Inl err \<Rightarrow> (None, db, cl, console_write ERROR ''Error declining call:'' b)
           | Inr db1 \<Rightarrow>
               (None, db1,
                cl\<lparr>incomingCall := None,
                   callState := (callState cl)\<lparr>isReceivingCall := False\<rparr>\<rparr>,
                b)))"

text \<open>
  \<open>endCall()\<close>: the status write, the cleanup of the service and the reset of the React
  state are the statements of one \<open>try\<close> block, whose \<open>catch\<close> logs the exception.
  The guard \<open>!callState.callId\<close> also holds for the empty string.
\<close>

definition endCall :: "env \<Rightarrow> firestore \<Rightarrow> client \<Rightarrow> browser \<Rightarrow> handler_result" where
  "endCall e db cl b =
     (case cs_callId (callState cl) of
        None \<Rightarrow> (None, db, cl, b)
      | Some cid \<Rightarrow>
     (case webRTCService cl of
        None \<Rightarrow> (None, db, cl, b)
      | Some svc \<Rightarrow>
          if cid = [] then (None, db, cl, b)
          else
          (case updateCallDoc (rejected e) cid
                  (\<lambda>d. d\<lparr>status := Ended, endedAt := Some (now e)\<rparr>) db of
             Inl err \<Rightarrow> (None, db, cl, console_write ERROR ''Error ending call:'' b)
           | Inr db1 \<Rightarrow>
               (let (svc1, b1) = cleanup svc b
                in (None, db1,
                    cl\<lparr>webRTCService := Some svc1, callState := initialCallState,
                       incomingCall := None\<rparr>,
                    b1)))))"

section \<open>The session invariant\<close>

text \<open>
  The invariant of a session record, on the participants array as it is stored: between
  two and five entries, and a group call exactly when there are more than two.
  \<open>allSessions P db\<close> says that every session record of the database satisfies \<open>P\<close>.
\<close>

definition sessionInvariant :: "Call \<Rightarrow> bool" where
  "sessionInvariant d =
     (2 \<le> length (participants d) \<and> length (participants d) \<le> 5
      \<and> isGroupCall d = (2 < length (participants d)))"

definition allSessions :: "(Call \<Rightarrow> bool) \<Rightarrow> firestore \<Rightarrow> bool" where
  "allSessions P db = (\<forall>cid d. calls db cid = Some d \<longrightarrow> P d)"

text \<open>
  A connection table is negotiable when every connection in it is open and in state
  stable or have-local-offer: the states in which \<open>createOffer\<close> can make a new offer.
\<close>

definition linksNegotiable :: "WebRTCService \<Rightarrow> browser \<Rightarrow> bool" where
  "linksNegotiable svc b =
     (\<forall>entry \<in> set (peerConnections svc).
        (signalingState (pcs b (connection (snd entry))) = Stable
           \<or> signalingState (pcs b (connection (snd entry))) = HaveLocalOffer)
        \<and> connectionState (pcs b (connection (snd entry))) \<noteq> ConnClosed)"

text \<open>
  An environment is cooperative when the media devices can be opened and Firestore
  rejects no operation.
\<close>

definition cooperative :: "env \<Rightarrow> bool" where
  "cooperative e =
     (mediaDevicesSupported (media e) \<and> secureOrigin (media e)
      \<and> getUserMediaError (media e) = None \<and> (\<forall>op. rejected e op = None))"

section \<open>Example configurations\<close>

text \<open>
  Concrete users, pages and databases, on which the theorems below are instantiated.
  The page \<open>browser0\<close> and the pages made from it belong to a browser that accepts every
  remote description and candidate; \<open>parseError\<close> is the exception of a browser that
  accepts none, as in \<open>strictOfferingBrowser\<close> and \<open>strictAnsweredBrowser\<close> below.
\<close>

definition parseError :: js_error where
  "parseError = JsError ''OperationError'' ''Failed to parse''"

definition alice :: User where
  "alice = \<lparr>uid = ''alice'', email = ''alice@example.org'', displayName = ''Alice'',
            photoURL = [], isOnline = True, lastSeen = 0\<rparr>"

definition bob :: User where
  "bob = \<lparr>uid = ''bob'', email = ''bob@example.org'', displayName = ''Bob'',
          photoURL = [], isOnline = True, lastSeen = 0\<rparr>"

definition browser0 :: browser where
  "browser0 =
     \<lparr> pcs = (\<lambda>p. newRTCPeerConnection), nextPc = 0,
       trackStore = (\<lambda>t. \<lparr>kind = Audio, enabled = False, readyState = TrackEnded\<rparr>),
       nextTrack = 0, console = [], alerts = [], timers = [],
       descriptionError = (\<lambda>d c. None), candidateError = (\<lambda>i c. None) \<rparr>"

definition env0 :: env where
  "env0 =
     \<lparr> media = \<lparr>mediaDevicesSupported = True, secureOrigin = True, getUserMediaError = None\<rparr>,
       sdpGen = (\<lambda>c. ''v=0''), newDocId = ''call1'', now = 100,
       rejected = (\<lambda>op. None), ignoreUndefinedProperties = False \<rparr>"

definition db0 :: firestore where
  "db0 = \<lparr> calls = Map.empty, offers = Map.empty, answers = Map.empty,
           users = [''alice'' \<mapsto> alice, ''bob'' \<mapsto> bob] \<rparr>"

definition client0 :: "User \<Rightarrow> client" where
  "client0 u =
     \<lparr> user = Some u, webRTCService = Some (newWebRTCService (uid u)),
       callState = initialCallState, incomingCall = None, answersListeners = [] \<rparr>"

text \<open>
  Alice's service with one connection to Bob, at reference 0.  In \<open>offeringBrowser\<close> the
  connection has a pending local offer and no remote description; \<open>answer0\<close> is an answer
  and \<open>cand0\<close>, \<open>cand1\<close> are candidates from Bob.
\<close>

definition offer0 :: RTCSessionDescriptionInit where
  "offer0 = \<lparr>sdpType = Offer, sdp = ''v=0''\<rparr>"

definition answer0 :: RTCSessionDescriptionInit where
  "answer0 = \<lparr>sdpType = Answer, sdp = ''v=0''\<rparr>"

definition cand0 :: RTCIceCandidateInit where
  "cand0 = \<lparr>candidate = ''candidate:0 1 udp 1 192.0.2.1 50000 typ host'',
             sdpMid = Some ''0'', sdpMLineIndex = Some 0\<rparr>"

definition cand1 :: RTCIceCandidateInit where
  "cand1 = \<lparr>candidate = ''candidate:1 1 udp 1 192.0.2.1 50001 typ host'',
             sdpMid = Some ''0'', sdpMLineIndex = Some 0\<rparr>"

definition linkedService :: WebRTCService where
  "linkedService =
     (newWebRTCService ''alice'')
       \<lparr>peerConnections := [(''bob'', \<lparr>peerUserId = ''bob'', connection = 0, stream = None\<rparr>)]\<rparr>"

definition offeringBrowser :: browser where
  "offeringBrowser =
     browser0\<lparr>pcs := (pcs browser0)
                  (0 := newRTCPeerConnection\<lparr>signalingState := HaveLocalOffer,
                                            pendingLocalDescription := Some offer0\<rparr>),
              nextPc := 1\<rparr>"

definition strictOfferingBrowser :: browser where
  "strictOfferingBrowser = offeringBrowser\<lparr>descriptionError := (\<lambda>d c. Some parseError)\<rparr>"

text \<open>The page after Bob's answer has been applied: the connection is stable again.\<close>

definition answeredBrowser :: browser where
  "answeredBrowser =
     browser0\<lparr>pcs := (pcs browser0)
                  (0 := newRTCPeerConnection\<lparr>currentLocalDescription := Some offer0,
                                            currentRemoteDescription := Some answer0\<rparr>),
              nextPc := 1\<rparr>"

definition strictAnsweredBrowser :: browser where
  "strictAnsweredBrowser = answeredBrowser\<lparr>candidateError := (\<lambda>i c. Some parseError)\<rparr>"

text \<open>
  Alice in a call with Bob: the session \<open>call1\<close> is stored under the id \<open>''call1''\<close>, her
  service holds the connection to Bob and one live audio track, and her provider state
  names the call.  In \<open>offlineEnv\<close> Firestore rejects every operation.
\<close>

definition call1 :: Call where
  "call1 =
     \<lparr> callerId = ''alice'', callerName = ''Alice'', callerPhoto = [], receiverId = Str ''bob'',
       participants = [''alice'', ''bob''], callKind = VoiceCall, status = Active,
       isGroupCall = False, createdAt = 90, startedAt = Some 92, endedAt = None \<rparr>"

definition dbWith :: "Call \<Rightarrow> firestore" where
  "dbWith d = db0\<lparr>calls := [''call1'' \<mapsto> d]\<rparr>"

definition inCallClient :: client where
  "inCallClient =
     (client0 alice)
       \<lparr>webRTCService := Some (linkedService\<lparr>localStream := Some [0], callId := Some ''call1''\<rparr>),
        callState := initialCallState
          \<lparr>cs_callId := Some ''call1'', isInCall := True, callType := Some VoiceCall,
           cs_localStream := Some [0]\<rparr>\<rparr>"

definition inCallBrowser :: browser where
  "inCallBrowser =
     answeredBrowser
       \<lparr>trackStore := (trackStore answeredBrowser)
                        (0 := \<lparr>kind = Audio, enabled = True, readyState = TrackLive\<rparr>),
        nextTrack := 1\<rparr>"

definition offlineEnv :: env where
  "offlineEnv = env0\<lparr>rejected := (\<lambda>op. Some (JsError ''FirebaseError'' ''unavailable''))\<rparr>"

text \<open>Bob, called by Alice: his provider shows the incoming call.\<close>

definition ringingClient :: client where
  "ringingClient =
     (client0 bob)
       \<lparr>incomingCall := Some (''call1'', call1\<lparr>status := Ringing, startedAt := None\<rparr>),
        callState := initialCallState\<lparr>isReceivingCall := True\<rparr>\<rparr>"

text \<open>Alice calls Bob from the initial state, and then ends the call.\<close>

definition aliceCalling :: handler_result where
  "aliceCalling = startCall env0 [''bob''] VoiceCall db0 (client0 alice) browser0"

definition aliceHungUp :: handler_result where
  "aliceHungUp = endCall env0 (dbOf aliceCalling) (clientOf aliceCalling) (browserOf aliceCalling)"

text \<open>The session \<open>call1\<close> after it was declined, and after it was ended.\<close>

definition missedCall :: Call where
  "missedCall = call1\<lparr>status := Missed, startedAt := None, endedAt := Some 95\<rparr>"

definition endedCall :: Call where
  "endedCall = call1\<lparr>status := Ended, endedAt := Some 95\<rparr>"

text \<open>Alice starts a group video call to Bob, Carol and Dave.\<close>

definition groupCall :: handler_result where
  "groupCall =
     startCall env0 [''bob'', ''carol'', ''dave''] VideoCall db0 (client0 alice) browser0"

text \<open>A page where the connection to Bob has been closed but is still in the table.\<close>

definition closedBrowser :: browser where
  "closedBrowser =
     browser0\<lparr>pcs := (pcs browser0)(0 := pc_close newRTCPeerConnection), nextPc := 1\<rparr>"

section \<open>Absent links and the answer guard\<close>

lemma linked:
  "map_of (peerConnections linkedService) ''bob''
     = Some \<lparr>peerUserId = ''bob'', connection = 0, stream = None\<rparr>"
  by (simp add: linkedService_def newWebRTCService_def)

lemma offering0:
  "pcs offeringBrowser 0
     = newRTCPeerConnection\<lparr>signalingState := HaveLocalOffer,
                            pendingLocalDescription := Some offer0\<rparr>"
  by (simp add: offeringBrowser_def)


text \<open>
  C10.  For a remote user without an entry in the connection table, \<open>handleAnswer\<close>,
  \<open>handleIceCandidate\<close> and \<open>closePeerConnection\<close> return normally and leave the table,
  every peer connection and every track as they were: the first two only write one error
  line to the console, the third changes nothing at all.
\<close>

theorem unregistered_remote_is_noop:
  assumes "map_of (peerConnections svc) r = None"
  shows "handleAnswer r answer svc b
           = b\<lparr>console := console b @ [(ERROR, ''No peer connection found for '' @ r)]\<rparr>
       \<and> handleIceCandidate r cand svc b
           = b\<lparr>console := console b @ [(ERROR, ''No peer connection found for '' @ r)]\<rparr>
       \<and> closePeerConnection r svc b = (svc, b)"
  using assms
  by (simp add: handleAnswer_def handleIceCandidate_def closePeerConnection_def console_write_def)

theorem unregistered_remote_is_noop_witness:
  "map_of (peerConnections (newWebRTCService ''alice'')) ''bob'' = None
   \<and> closePeerConnection ''bob'' (newWebRTCService ''alice'') browser0
       = (newWebRTCService ''alice'', browser0)
   \<and> pcs (handleAnswer ''bob'' answer0 (newWebRTCService ''alice'') browser0) = pcs browser0
   \<and> pcs (handleIceCandidate ''bob'' cand0 (newWebRTCService ''alice'') browser0) = pcs browser0"
proof -
  have h: "map_of (peerConnections (newWebRTCService ''alice'')) ''bob'' = None"
    by (simp add: newWebRTCService_def)
  show ?thesis
    using h unregistered_remote_is_noop [OF h, of answer0 browser0 cand0] by simp
qed

lemma setRemote_answer:
  "signalingState c = HaveLocalOffer \<Longrightarrow> sdpType a = Answer \<Longrightarrow>
   pc_setRemoteDescription verdict a c =
     contentChecked (verdict a c)
       (c\<lparr>currentRemoteDescription := Some a,
          currentLocalDescription := pendingLocalDescription c,
          pendingLocalDescription := None, pendingRemoteDescription := None,
          signalingState := Stable\<rparr>)"
  by (simp add: pc_setRemoteDescription_def)

lemma handleAnswer_other_state:
  assumes "map_of (peerConnections svc) r = Some link"
    and "signalingState (pcs b (connection link)) \<noteq> HaveLocalOffer"
  shows "handleAnswer r answer svc b
           = b\<lparr>console := console b @
                 [(WARN, ''Cannot set remote description in state: ''
                         @ signalingStateName (signalingState (pcs b (connection link))))]\<rparr>"
  using assms by (simp add: handleAnswer_def console_write_def Let_def)

lemma handleAnswer_accepted:
  assumes "map_of (peerConnections svc) r = Some link"
    and "signalingState (pcs b (connection link)) = HaveLocalOffer"
    and "sdpType answer = Answer"
    and "descriptionError b answer (pcs b (connection link)) = None"
  shows "handleAnswer r answer svc b
           = b\<lparr>pcs := (pcs b)(connection link :=
                  (pcs b (connection link))
                    \<lparr>currentRemoteDescription := Some answer,
                     currentLocalDescription := pendingLocalDescription (pcs b (connection link)),
                     pendingLocalDescription := None, pendingRemoteDescription := None,
                     signalingState := Stable\<rparr>)\<rparr>"
  using assms
  by (simp add: handleAnswer_def setRemote_answer contentChecked_def pc_update_def Let_def)

lemma handleAnswer_rejected:
  assumes "map_of (peerConnections svc) r = Some link"
    and "signalingState (pcs b (connection link)) = HaveLocalOffer"
    and "sdpType answer = Answer"
    and "descriptionError b answer (pcs b (connection link)) = Some err"
  shows "handleAnswer r answer svc b
           = b\<lparr>console := console b @ [(ERROR, ''Error handling answer:'')]\<rparr>"
  using assms
  by (simp add: handleAnswer_def setRemote_answer contentChecked_def console_write_def Let_def)

text \<open>
  C3 (as amended).  For a link in the table and an answer description, no exception
  leaves \<open>handleAnswer\<close> (its result has no error component).  Unless the signalling state
  of the link is have-local-offer, \<open>handleAnswer\<close> changes nothing but the console, where
  it writes one warning.  In have-local-offer, an answer that the browser accepts becomes
  the remote description and the state returns to stable, with nothing logged; an answer
  that the browser rejects leaves the link as it was, still in have-local-offer, and the
  error is logged.  After a first call outside have-local-offer, or with an accepted
  answer, a second \<open>handleAnswer\<close> with any description leaves every connection as the
  first call left it.
\<close>

theorem handleAnswer_guard:
  assumes "map_of (peerConnections svc) r = Some link"
  shows "(signalingState (pcs b (connection link)) \<noteq> HaveLocalOffer \<longrightarrow>
            handleAnswer r answer svc b
              = b\<lparr>console := console b @
                    [(WARN, ''Cannot set remote description in state: ''
                            @ signalingStateName (signalingState (pcs b (connection link))))]\<rparr>)
       \<and> (signalingState (pcs b (connection link)) = HaveLocalOffer \<and> sdpType answer = Answer
            \<and> descriptionError b answer (pcs b (connection link)) = None \<longrightarrow>
            signalingState (pcs (handleAnswer r answer svc b) (connection link)) = Stable
          \<and> remoteDescription (pcs (handleAnswer r answer svc b) (connection link)) = Some answer
          \<and> console (handleAnswer r answer svc b) = console b)
       \<and> (\<forall>err. signalingState (pcs b (connection link)) = HaveLocalOffer \<and> sdpType answer = Answer
            \<and> descriptionError b answer (pcs b (connection link)) = Some err \<longrightarrow>
            handleAnswer r answer svc b
              = b\<lparr>console := console b @ [(ERROR, ''Error handling answer:'')]\<rparr>)
       \<and> (signalingState (pcs b (connection link)) \<noteq> HaveLocalOffer
            \<or> (sdpType answer = Answer
                \<and> descriptionError b answer (pcs b (connection link)) = None) \<longrightarrow>
            pcs (handleAnswer r again svc (handleAnswer r answer svc b))
              = pcs (handleAnswer r answer svc b))"
proof (intro conjI impI allI)
  assume "signalingState (pcs b (connection link)) \<noteq> HaveLocalOffer"
  then show "handleAnswer r answer svc b
              = b\<lparr>console := console b @
                    [(WARN, ''Cannot set remote description in state: ''
                            @ signalingStateName (signalingState (pcs b (connection link))))]\<rparr>"
    by (rule handleAnswer_other_state [OF assms])
next
  assume a: "signalingState (pcs b (connection link)) = HaveLocalOffer \<and> sdpType answer = Answer
            \<and> descriptionError b answer (pcs b (connection link)) = None"
  then have e: "handleAnswer r answer svc b
           = b\<lparr>pcs := (pcs b)(connection link :=
                  (pcs b (connection link))
                    \<lparr>currentRemoteDescription := Some answer,
                     currentLocalDescription := pendingLocalDescription (pcs b (connection link)),
                     pendingLocalDescription := None, pendingRemoteDescription := None,
                     signalingState := Stable\<rparr>)\<rparr>"
    using handleAnswer_accepted [OF assms] by blast
  show "signalingState (pcs (handleAnswer r answer svc b) (connection link)) = Stable"
    by (simp add: e)
  show "remoteDescription (pcs (handleAnswer r answer svc b) (connection link)) = Some answer"
    by (simp add: e remoteDescription_def)
  show "console (handleAnswer r answer svc b) = console b"
    by (simp add: e)
next
  fix err
  assume "signalingState (pcs b (connection link)) = HaveLocalOffer \<and> sdpType answer = Answer
            \<and> descriptionError b answer (pcs b (connection link)) = Some err"
  then show "handleAnswer r answer svc b
              = b\<lparr>console := console b @ [(ERROR, ''Error handling answer:'')]\<rparr>"
    using handleAnswer_rejected [OF assms] by blast
next
  assume a: "signalingState (pcs b (connection link)) \<noteq> HaveLocalOffer
            \<or> (sdpType answer = Answer
                \<and> descriptionError b answer (pcs b (connection link)) = None)"
  let ?b1 = "handleAnswer r answer svc b"
  have "signalingState (pcs ?b1 (connection link)) \<noteq> HaveLocalOffer"
  proof (cases "signalingState (pcs b (connection link)) = HaveLocalOffer")
    case False
    then show ?thesis by (simp add: handleAnswer_other_state [OF assms False])
  next
    case True
    with a have "sdpType answer = Answer"
      "descriptionError b answer (pcs b (connection link)) = None" by blast+
    from handleAnswer_accepted [OF assms True this] show ?thesis by simp
  qed
  from handleAnswer_other_state [OF assms this, of again]
  show "pcs (handleAnswer r again svc ?b1) = pcs ?b1" by simp
qed

theorem handleAnswer_guard_witness:
  "map_of (peerConnections linkedService) ''bob''
     = Some \<lparr>peerUserId = ''bob'', connection = 0, stream = None\<rparr>
   \<and> signalingState (pcs offeringBrowser 0) = HaveLocalOffer
   \<and> sdpType answer0 = Answer
   \<and> descriptionError offeringBrowser answer0 (pcs offeringBrowser 0) = None
   \<and> signalingState (pcs (handleAnswer ''bob'' answer0 linkedService offeringBrowser) 0) = Stable
   \<and> remoteDescription (pcs (handleAnswer ''bob'' answer0 linkedService offeringBrowser) 0)
       = Some answer0
   \<and> pcs (handleAnswer ''bob'' answer0 linkedService
            (handleAnswer ''bob'' answer0 linkedService offeringBrowser))
       = pcs (handleAnswer ''bob'' answer0 linkedService offeringBrowser)
   \<and> signalingState (pcs browser0 0) \<noteq> HaveLocalOffer
   \<and> handleAnswer ''bob'' answer0 linkedService browser0
       = browser0\<lparr>console := [(WARN, ''Cannot set remote description in state: stable'')]\<rparr>
   \<and> signalingState (pcs strictOfferingBrowser 0) = HaveLocalOffer
   \<and> descriptionError strictOfferingBrowser answer0 (pcs strictOfferingBrowser 0)
       = Some parseError
   \<and> handleAnswer ''bob'' answer0 linkedService strictOfferingBrowser
       = strictOfferingBrowser\<lparr>console := [(ERROR, ''Error handling answer:'')]\<rparr>"
proof -
  have s1: "signalingState (pcs offeringBrowser 0) = HaveLocalOffer"
    "descriptionError offeringBrowser answer0 (pcs offeringBrowser 0) = None"
    by (simp_all add: offeringBrowser_def browser0_def)
  have s2: "signalingState (pcs browser0 0) = Stable" "console browser0 = []"
    by (simp_all add: browser0_def newRTCPeerConnection_def)
  have s3: "signalingState (pcs strictOfferingBrowser 0) = HaveLocalOffer"
    "descriptionError strictOfferingBrowser answer0 (pcs strictOfferingBrowser 0)
       = Some parseError"
    "console strictOfferingBrowser = []"
    by (simp_all add: strictOfferingBrowser_def offeringBrowser_def browser0_def)
  have a: "sdpType answer0 = Answer"
    by (simp add: answer0_def)
  show ?thesis
    using linked s1 s2 s3 a
      handleAnswer_guard [OF linked, of offeringBrowser answer0 answer0]
      handleAnswer_guard [OF linked, of browser0 answer0 answer0]
      handleAnswer_guard [OF linked, of strictOfferingBrowser answer0 answer0]
    by (simp add: signalingStateName_def)
qed

text \<open>
  C3 as stated fails: in have-local-offer, an answer that the browser rejects is not
  applied; the link stays in have-local-offer without a remote description, and what is
  logged is an error, not a warning.
\<close>

theorem rejected_answer_is_not_applied:
  "signalingState (pcs strictOfferingBrowser 0) = HaveLocalOffer
   \<and> sdpType answer0 = Answer
   \<and> signalingState (pcs (handleAnswer ''bob'' answer0 linkedService strictOfferingBrowser) 0)
       = HaveLocalOffer
   \<and> remoteDescription (pcs (handleAnswer ''bob'' answer0 linkedService strictOfferingBrowser) 0)
       = None
   \<and> console (handleAnswer ''bob'' answer0 linkedService strictOfferingBrowser)
       = [(ERROR, ''Error handling answer:'')]"
  by (simp add: handleAnswer_def linked strictOfferingBrowser_def offering0 offeringBrowser_def
      browser0_def pc_setRemoteDescription_def contentChecked_def answer0_def console_write_def
      remoteDescription_def newRTCPeerConnection_def)

section \<open>Candidates\<close>

lemma addIce_checked:
  "remoteDescription c \<noteq> None \<Longrightarrow> signalingState c \<noteq> SigClosed \<Longrightarrow>
   pc_addIceCandidate verdict i c
     = contentChecked (verdict i c) (c\<lparr>remoteCandidates := remoteCandidates c @ [i]\<rparr>)"
  by (cases "remoteDescription c") (simp_all add: pc_addIceCandidate_def)

lemma remoteDescription_remoteCandidates:
  "remoteDescription (c\<lparr>remoteCandidates := x\<rparr>) = remoteDescription c"
  by (simp add: remoteDescription_def split: option.split)

lemma handleIceCandidate_applied:
  assumes "map_of (peerConnections svc) r = Some link"
    and "remoteDescription (pcs b (connection link)) \<noteq> None"
    and "signalingState (pcs b (connection link)) \<noteq> SigClosed"
    and "sdpMid cand \<noteq> None \<or> sdpMLineIndex cand \<noteq> None"
    and "candidateError b cand (pcs b (connection link)) = None"
  shows "handleIceCandidate r cand svc b
           = b\<lparr>pcs := (pcs b)(connection link :=
                  (pcs b (connection link))
                    \<lparr>remoteCandidates := remoteCandidates (pcs b (connection link)) @ [cand]\<rparr>)\<rparr>"
  using assms
  by (auto simp add: handleIceCandidate_def newRTCIceCandidate_def addIce_checked
      contentChecked_def pc_update_def Let_def)

lemma handleIceCandidate_rejected:
  assumes "map_of (peerConnections svc) r = Some link"
    and "remoteDescription (pcs b (connection link)) \<noteq> None"
    and "candidateError b cand (pcs b (connection link)) = Some err"
  shows "handleIceCandidate r cand svc b
           = b\<lparr>console := console b @ [(ERROR, ''Error adding ICE candidate:'')]\<rparr>"
  using assms
  by (auto simp add: handleIceCandidate_def newRTCIceCandidate_def pc_addIceCandidate_def
      contentChecked_def console_write_def Let_def)

lemma snapshot_in_order:
  assumes "map_of (peerConnections svc) r = Some link"
  shows "remoteDescription (pcs b (connection link)) \<noteq> None \<Longrightarrow>
    signalingState (pcs b (connection link)) \<noteq> SigClosed \<Longrightarrow>
    \<forall>ch \<in> set changes. fst ch = Added
       \<and> (sdpMid (snd ch) \<noteq> None \<or> sdpMLineIndex (snd ch) \<noteq> None)
       \<and> (\<forall>c. candidateError b (snd ch) c = None) \<Longrightarrow>
    remoteCandidates (pcs (onCandidatesSnapshot r changes svc b) (connection link))
      = remoteCandidates (pcs b (connection link)) @ map snd changes"
proof (induction changes arbitrary: b)
  case Nil
  then show ?case by (simp add: onCandidatesSnapshot_def)
next
  case (Cons ch changes)
  let ?b1 = "handleIceCandidate r (snd ch) svc b"
  have wf: "sdpMid (snd ch) \<noteq> None \<or> sdpMLineIndex (snd ch) \<noteq> None" and ad: "fst ch = Added"
    and acc: "candidateError b (snd ch) (pcs b (connection link)) = None"
    using Cons.prems(3) by auto
  have step: "?b1 = b\<lparr>pcs := (pcs b)(connection link :=
                  (pcs b (connection link))
                    \<lparr>remoteCandidates := remoteCandidates (pcs b (connection link)) @ [snd ch]\<rparr>)\<rparr>"
    by (rule handleIceCandidate_applied [OF assms Cons.prems(1) Cons.prems(2) wf acc])
  have r1: "remoteDescription (pcs ?b1 (connection link)) \<noteq> None"
    using Cons.prems(1) by (simp add: step remoteDescription_remoteCandidates)
  have r2: "signalingState (pcs ?b1 (connection link)) \<noteq> SigClosed"
    using Cons.prems(2) by (simp add: step)
  have r3: "\<forall>ch \<in> set changes. fst ch = Added
       \<and> (sdpMid (snd ch) \<noteq> None \<or> sdpMLineIndex (snd ch) \<noteq> None)
       \<and> (\<forall>c. candidateError ?b1 (snd ch) c = None)"
    using Cons.prems(3) by (simp add: step)
  have unf: "onCandidatesSnapshot r (ch # changes) svc b = onCandidatesSnapshot r changes svc ?b1"
    using ad by (simp add: onCandidatesSnapshot_def)
  show ?case
    unfolding unf using Cons.IH [OF r1 r2 r3] by (simp add: step)
qed

text \<open>
  C1 (as amended).  A candidate delivered while the link has no remote description is
  discarded: \<open>handleIceCandidate\<close> leaves the link and everything else exactly as it was,
  and the service has no queue that could retain the candidate.  A well-formed candidate
  delivered while the link is not closed and has a remote description is applied
  directly, after the candidates applied before it, when the browser accepts it; a batch
  of such candidates is applied in the order received.  A candidate that the browser
  rejects is dropped as well, and the error is logged.
\<close>

theorem candidate_discarded_or_applied:
  assumes "map_of (peerConnections svc) r = Some link"
  shows "(remoteDescription (pcs b (connection link)) = None \<longrightarrow>
            handleIceCandidate r cand svc b = b)
       \<and> (remoteDescription (pcs b (connection link)) \<noteq> None
            \<and> signalingState (pcs b (connection link)) \<noteq> SigClosed
            \<and> (sdpMid cand \<noteq> None \<or> sdpMLineIndex cand \<noteq> None)
            \<and> candidateError b cand (pcs b (connection link)) = None \<longrightarrow>
            handleIceCandidate r cand svc b
              = b\<lparr>pcs := (pcs b)(connection link :=
                     (pcs b (connection link))
                       \<lparr>remoteCandidates := remoteCandidates (pcs b (connection link)) @ [cand]\<rparr>)\<rparr>)
       \<and> (remoteDescription (pcs b (connection link)) \<noteq> None
            \<and> signalingState (pcs b (connection link)) \<noteq> SigClosed
            \<and> (\<forall>ch \<in> set changes. fst ch = Added
                   \<and> (sdpMid (snd ch) \<noteq> None \<or> sdpMLineIndex (snd ch) \<noteq> None)
                   \<and> (\<forall>c. candidateError b (snd ch) c = None)) \<longrightarrow>
            remoteCandidates (pcs (onCandidatesSnapshot r changes svc b) (connection link))
              = remoteCandidates (pcs b (connection link)) @ map snd changes)
       \<and> (\<forall>err. remoteDescription (pcs b (connection link)) \<noteq> None
            \<and> candidateError b cand (pcs b (connection link)) = Some err \<longrightarrow>
            handleIceCandidate r cand svc b
              = b\<lparr>console := console b @ [(ERROR, ''Error adding ICE candidate:'')]\<rparr>)"
proof (intro conjI impI allI)
  assume "remoteDescription (pcs b (connection link)) = None"
  then show "handleIceCandidate r cand svc b = b"
    using assms by (simp add: handleIceCandidate_def Let_def)
next
  assume "remoteDescription (pcs b (connection link)) \<noteq> None
            \<and> signalingState (pcs b (connection link)) \<noteq> SigClosed
            \<and> (sdpMid cand \<noteq> None \<or> sdpMLineIndex cand \<noteq> None)
            \<and> candidateError b cand (pcs b (connection link)) = None"
  then show "handleIceCandidate r cand svc b
              = b\<lparr>pcs := (pcs b)(connection link :=
                     (pcs b (connection link))
                       \<lparr>remoteCandidates := remoteCandidates (pcs b (connection link)) @ [cand]\<rparr>)\<rparr>"
    using handleIceCandidate_applied [OF assms] by blast
next
  assume "remoteDescription (pcs b (connection link)) \<noteq> None
            \<and> signalingState (pcs b (connection link)) \<noteq> SigClosed
            \<and> (\<forall>ch \<in> set changes. fst ch = Added
                   \<and> (sdpMid (snd ch) \<noteq> None \<or> sdpMLineIndex (snd ch) \<noteq> None)
                   \<and> (\<forall>c. candidateError b (snd ch) c = None))"
  then show "remoteCandidates (pcs (onCandidatesSnapshot r changes svc b) (connection link))
              = remoteCandidates (pcs b (connection link)) @ map snd changes"
    using snapshot_in_order [OF assms] by blast
next
  fix err
  assume "remoteDescription (pcs b (connection link)) \<noteq> None
            \<and> candidateError b cand (pcs b (connection link)) = Some err"
  then show "handleIceCandidate r cand svc b
              = b\<lparr>console := console b @ [(ERROR, ''Error adding ICE candidate:'')]\<rparr>"
    using handleIceCandidate_rejected [OF assms] by blast
qed

theorem candidate_discarded_or_applied_witness:
  "map_of (peerConnections linkedService) ''bob''
     = Some \<lparr>peerUserId = ''bob'', connection = 0, stream = None\<rparr>
   \<and> remoteDescription (pcs offeringBrowser 0) = None
   \<and> handleIceCandidate ''bob'' cand0 linkedService offeringBrowser = offeringBrowser
   \<and> remoteDescription (pcs answeredBrowser 0) \<noteq> None
   \<and> signalingState (pcs answeredBrowser 0) \<noteq> SigClosed
   \<and> sdpMid cand0 \<noteq> None \<and> sdpMid cand1 \<noteq> None
   \<and> candidateError answeredBrowser cand0 (pcs answeredBrowser 0) = None
   \<and> remoteCandidates (pcs (handleIceCandidate ''bob'' cand0 linkedService answeredBrowser) 0)
       = [cand0]
   \<and> remoteCandidates
       (pcs (onCandidatesSnapshot ''bob'' [(Added, cand0), (Added, cand1)]
               linkedService answeredBrowser) 0) = [cand0, cand1]
   \<and> remoteDescription (pcs strictAnsweredBrowser 0) \<noteq> None
   \<and> candidateError strictAnsweredBrowser cand0 (pcs strictAnsweredBrowser 0) = Some parseError
   \<and> handleIceCandidate ''bob'' cand0 linkedService strictAnsweredBrowser
       = strictAnsweredBrowser\<lparr>console := [(ERROR, ''Error adding ICE candidate:'')]\<rparr>"
proof -
  have a: "remoteDescription (pcs offeringBrowser 0) = None"
    by (simp add: offering0 remoteDescription_def newRTCPeerConnection_def)
  have b: "remoteDescription (pcs answeredBrowser 0) \<noteq> None"
      "signalingState (pcs answeredBrowser 0) \<noteq> SigClosed"
      "remoteCandidates (pcs answeredBrowser 0) = []"
      "\<And>i c. candidateError answeredBrowser i c = None"
    by (simp_all add: answeredBrowser_def browser0_def remoteDescription_def
        newRTCPeerConnection_def)
  have s: "remoteDescription (pcs strictAnsweredBrowser 0) \<noteq> None"
      "candidateError strictAnsweredBrowser cand0 (pcs strictAnsweredBrowser 0) = Some parseError"
      "console strictAnsweredBrowser = []"
    using b(1)
    by (simp_all add: strictAnsweredBrowser_def answeredBrowser_def browser0_def)
  have c: "sdpMid cand0 \<noteq> None" "sdpMid cand1 \<noteq> None"
    by (simp_all add: cand0_def cand1_def)
  show ?thesis
    using linked a b s c
      candidate_discarded_or_applied [OF linked, of offeringBrowser cand0 "[]"]
      candidate_discarded_or_applied [OF linked, of answeredBrowser cand0
        "[(Added, cand0), (Added, cand1)]"]
      candidate_discarded_or_applied [OF linked, of strictAnsweredBrowser cand0 "[]"]
    by simp
qed

text \<open>
  C1 as stated fails: a candidate that arrives before the remote description is set is
  not retained: the page is exactly as before, and \<open>handleAnswer\<close> afterwards applies no
  candidate, whether the browser accepts the answer or rejects it.
\<close>

theorem early_candidate_is_lost:
  "remoteDescription (pcs offeringBrowser 0) = None
   \<and> handleIceCandidate ''bob'' cand0 linkedService offeringBrowser = offeringBrowser
   \<and> remoteCandidates
       (pcs (handleAnswer ''bob'' answer0 linkedService
               (handleIceCandidate ''bob'' cand0 linkedService offeringBrowser)) 0) = []
   \<and> remoteDescription (pcs strictOfferingBrowser 0) = None
   \<and> handleIceCandidate ''bob'' cand0 linkedService strictOfferingBrowser
       = strictOfferingBrowser
   \<and> remoteCandidates
       (pcs (handleAnswer ''bob'' answer0 linkedService
               (handleIceCandidate ''bob'' cand0 linkedService strictOfferingBrowser)) 0) = []"
  by (simp add: handleIceCandidate_def handleAnswer_def linked offering0 remoteDescription_def
      newRTCPeerConnection_def pc_setRemoteDescription_def contentChecked_def answer0_def
      pc_update_def console_write_def strictOfferingBrowser_def offeringBrowser_def
      browser0_def)

section \<open>Creating and reusing connections\<close>

lemma addLocalTrack_open:
  assumes "signalingState (pcs b p) \<noteq> SigClosed"
  shows "pcs (addLocalTrack p t b)
           = (pcs b)(p := (pcs b p)\<lparr>senders := (if t \<in> set (senders (pcs b p))
                                               then senders (pcs b p)
                                               else senders (pcs b p) @ [t])\<rparr>)"
    and "nextPc (addLocalTrack p t b) = nextPc b"
    and "trackStore (addLocalTrack p t b) = trackStore b"
  using assms
  by (auto simp add: addLocalTrack_def pc_addTrack_def pc_update_def console_write_def Let_def)

lemma fold_addLocalTrack:
  "signalingState (pcs b p) \<noteq> SigClosed \<Longrightarrow>
   (\<exists>ss. pcs (fold (addLocalTrack p) ts b) = (pcs b)(p := (pcs b p)\<lparr>senders := ss\<rparr>)
        \<and> set ss = set (senders (pcs b p)) \<union> set ts
        \<and> (distinct (senders (pcs b p)) \<longrightarrow> distinct ss))
   \<and> nextPc (fold (addLocalTrack p) ts b) = nextPc b"
proof (induction ts arbitrary: b)
  case Nil
  have "pcs (fold (addLocalTrack p) [] b) = (pcs b)(p := (pcs b p)\<lparr>senders := senders (pcs b p)\<rparr>)"
    by simp
  then show ?case by fastforce
next
  case (Cons t ts)
  let ?b1 = "addLocalTrack p t b"
  let ?s1 = "if t \<in> set (senders (pcs b p)) then senders (pcs b p) else senders (pcs b p) @ [t]"
  have p1: "pcs ?b1 = (pcs b)(p := (pcs b p)\<lparr>senders := ?s1\<rparr>)"
    and n1: "nextPc ?b1 = nextPc b"
    using addLocalTrack_open [OF Cons.prems] by blast+
  have o1: "signalingState (pcs ?b1 p) \<noteq> SigClosed"
    using Cons.prems by (simp add: p1)
  from Cons.IH [OF o1] obtain ss where
    ss: "pcs (fold (addLocalTrack p) ts ?b1) = (pcs ?b1)(p := (pcs ?b1 p)\<lparr>senders := ss\<rparr>)"
      "set ss = set (senders (pcs ?b1 p)) \<union> set ts"
      "distinct (senders (pcs ?b1 p)) \<longrightarrow> distinct ss"
    and n2: "nextPc (fold (addLocalTrack p) ts ?b1) = nextPc ?b1"
    by blast
  have s1: "senders (pcs ?b1 p) = ?s1" by (simp add: p1)
  have "pcs (fold (addLocalTrack p) (t # ts) b) = (pcs b)(p := (pcs b p)\<lparr>senders := ss\<rparr>)"
    using ss(1) by (simp add: p1)
  moreover have "set ss = set (senders (pcs b p)) \<union> set (t # ts)"
    using ss(2) unfolding s1 by auto
  moreover have "distinct (senders (pcs b p)) \<longrightarrow> distinct ss"
    using ss(3) unfolding s1 by auto
  moreover have "nextPc (fold (addLocalTrack p) (t # ts) b) = nextPc b"
    using n2 n1 by simp
  ultimately show ?case by blast
qed

lemma constructPeerConnection_result:
  "\<exists>ss b1. constructPeerConnection r svc b =
      (nextPc b,
       svc\<lparr>peerConnections := AList.update r \<lparr>peerUserId = r, connection = nextPc b, stream = None\<rparr>
                                  (peerConnections svc)\<rparr>,
       b1)
    \<and> pcs b1 = (pcs b)(nextPc b := newRTCPeerConnection\<lparr>senders := ss\<rparr>)
    \<and> nextPc b1 = Suc (nextPc b)
    \<and> set ss = (case localStream svc of Some ts \<Rightarrow> set ts | None \<Rightarrow> {})
    \<and> distinct ss"
proof (cases "localStream svc")
  case None
  then show ?thesis
    by (auto simp add: constructPeerConnection_def Let_def newRTCPeerConnection_def
        intro!: exI [of _ "[]"])
next
  case (Some ts)
  let ?b0 = "b\<lparr>pcs := (pcs b)(nextPc b := newRTCPeerConnection), nextPc := Suc (nextPc b)\<rparr>"
  have o: "signalingState (pcs ?b0 (nextPc b)) \<noteq> SigClosed"
    by (simp add: newRTCPeerConnection_def)
  from fold_addLocalTrack [OF o, of ts] obtain ss where
    ss: "pcs (fold (addLocalTrack (nextPc b)) ts ?b0)
           = (pcs ?b0)(nextPc b := (pcs ?b0 (nextPc b))\<lparr>senders := ss\<rparr>)"
      "set ss = set (senders (pcs ?b0 (nextPc b))) \<union> set ts"
      "distinct (senders (pcs ?b0 (nextPc b))) \<longrightarrow> distinct ss"
    and n: "nextPc (fold (addLocalTrack (nextPc b)) ts ?b0) = nextPc ?b0"
    by blast
  show ?thesis
    apply (rule exI [of _ ss])
    apply (rule exI [of _ "fold (addLocalTrack (nextPc b)) ts ?b0"])
    using ss n Some
    by (simp add: constructPeerConnection_def Let_def newRTCPeerConnection_def)
qed


lemma createPeerConnection_existing:
  assumes "map_of (peerConnections svc) r = Some link"
    and "connectionState (pcs b (connection link)) \<noteq> ConnClosed"
  shows "createPeerConnection r svc b
           = (connection link, svc,
              b\<lparr>console := console b @ [(LOG, ''Using existing peer connection for '' @ r)]\<rparr>)"
  using assms by (simp add: createPeerConnection_def console_write_def)

lemma createPeerConnection_closed:
  assumes "map_of (peerConnections svc) r = Some link"
    and "connectionState (pcs b (connection link)) = ConnClosed"
  shows "createPeerConnection r svc b
           = constructPeerConnection r
               (svc\<lparr>peerConnections := AList.delete r (peerConnections svc)\<rparr>)
               (console_write LOG (''Closed peer connection for '' @ r)
                  (pc_update (connection link) (pc_close (pcs b (connection link))) b))"
  using assms by (simp add: createPeerConnection_def closePeerConnection_def)

lemma constructPeerConnection_post:
  assumes "constructPeerConnection r svc b = (p, svc1, b1)"
  shows "p = nextPc b
       \<and> map_of (peerConnections svc1) r = Some \<lparr>peerUserId = r, connection = p, stream = None\<rparr>
       \<and> signalingState (pcs b1 p) = Stable \<and> connectionState (pcs b1 p) = ConnNew
       \<and> set (senders (pcs b1 p)) = (case localStream svc of Some ts \<Rightarrow> set ts | None \<Rightarrow> {})
       \<and> distinct (senders (pcs b1 p))"
proof -
  from constructPeerConnection_result [of r svc b] obtain ss b2 where
    c: "constructPeerConnection r svc b =
      (nextPc b,
       svc\<lparr>peerConnections := AList.update r \<lparr>peerUserId = r, connection = nextPc b, stream = None\<rparr>
                                  (peerConnections svc)\<rparr>,
       b2)"
    and r: "pcs b2 = (pcs b)(nextPc b := newRTCPeerConnection\<lparr>senders := ss\<rparr>)"
      "set ss = (case localStream svc of Some ts \<Rightarrow> set ts | None \<Rightarrow> {})" "distinct ss"
    by blast
  from c assms have e: "p = nextPc b" "b1 = b2"
    "svc1 = svc\<lparr>peerConnections := AList.update r \<lparr>peerUserId = r, connection = nextPc b, stream = None\<rparr>
                                  (peerConnections svc)\<rparr>"
    by simp_all
  show ?thesis
    using r by (simp add: e update_conv' newRTCPeerConnection_def)
qed

lemma createPeerConnection_post:
  assumes "createPeerConnection r svc b = (p, svc1, b1)"
  shows "\<exists>l. map_of (peerConnections svc1) r = Some l \<and> connection l = p
            \<and> connectionState (pcs b1 p) \<noteq> ConnClosed"
proof (cases "map_of (peerConnections svc) r")
  case None
  then have "constructPeerConnection r svc b = (p, svc1, b1)"
    using assms by (simp add: createPeerConnection_def)
  from constructPeerConnection_post [OF this] show ?thesis by auto
next
  case (Some link)
  show ?thesis
  proof (cases "connectionState (pcs b (connection link)) = ConnClosed")
    case True
    from createPeerConnection_closed [OF Some True] assms
    have "constructPeerConnection r
               (svc\<lparr>peerConnections := AList.delete r (peerConnections svc)\<rparr>)
               (console_write LOG (''Closed peer connection for '' @ r)
                  (pc_update (connection link) (pc_close (pcs b (connection link))) b))
            = (p, svc1, b1)" by simp
    from constructPeerConnection_post [OF this] show ?thesis by auto
  next
    case False
    from createPeerConnection_existing [OF Some False] assms
    have "p = connection link" "svc1 = svc"
      "b1 = b\<lparr>console := console b @ [(LOG, ''Using existing peer connection for '' @ r)]\<rparr>"
      by simp_all
    then show ?thesis using Some False by simp
  qed
qed

text \<open>
  C7.  \<open>createPeerConnection\<close> for a remote user whose table entry is not closed returns
  the reference of that entry and changes neither the table nor any connection, so the
  senders of the link are the same (one line is logged).  Invoked a second time for the
  same remote user, right after any first invocation, it returns the same reference and
  leaves the service and every connection as the first invocation left them.  When the
  entry in the table is closed, the entry is replaced by a new connection under a new
  reference, in state stable and new, whose senders are exactly the current local tracks,
  each once.
\<close>

theorem createPeerConnection_idempotent:
  "(\<forall>link. map_of (peerConnections svc) r = Some link
        \<and> connectionState (pcs b (connection link)) \<noteq> ConnClosed \<longrightarrow>
      createPeerConnection r svc b
        = (connection link, svc,
           b\<lparr>console := console b @ [(LOG, ''Using existing peer connection for '' @ r)]\<rparr>))
   \<and> (case createPeerConnection r svc b of
        (p, svc1, b1) \<Rightarrow>
          createPeerConnection r svc1 b1
            = (p, svc1,
               b1\<lparr>console := console b1 @ [(LOG, ''Using existing peer connection for '' @ r)]\<rparr>))
   \<and> (\<forall>link. map_of (peerConnections svc) r = Some link
        \<and> connectionState (pcs b (connection link)) = ConnClosed \<longrightarrow>
      (case createPeerConnection r svc b of
         (p, svc1, b1) \<Rightarrow>
           p = nextPc b
         \<and> map_of (peerConnections svc1) r = Some \<lparr>peerUserId = r, connection = p, stream = None\<rparr>
         \<and> signalingState (pcs b1 p) = Stable \<and> connectionState (pcs b1 p) = ConnNew
         \<and> set (senders (pcs b1 p)) = (case localStream svc of Some ts \<Rightarrow> set ts | None \<Rightarrow> {})
         \<and> distinct (senders (pcs b1 p))))"
proof (intro conjI allI impI)
  fix link
  assume "map_of (peerConnections svc) r = Some link
        \<and> connectionState (pcs b (connection link)) \<noteq> ConnClosed"
  then show "createPeerConnection r svc b
        = (connection link, svc,
           b\<lparr>console := console b @ [(LOG, ''Using existing peer connection for '' @ r)]\<rparr>)"
    using createPeerConnection_existing by blast
next
  obtain p svc1 b1 where c: "createPeerConnection r svc b = (p, svc1, b1)"
    by (cases "createPeerConnection r svc b") auto
  from createPeerConnection_post [OF c] obtain l where
    l: "map_of (peerConnections svc1) r = Some l" "connection l = p"
       "connectionState (pcs b1 p) \<noteq> ConnClosed" by blast
  from createPeerConnection_existing [OF l(1)] l(2,3)
  show "case createPeerConnection r svc b of
        (p, svc1, b1) \<Rightarrow>
          createPeerConnection r svc1 b1
            = (p, svc1,
               b1\<lparr>console := console b1 @ [(LOG, ''Using existing peer connection for '' @ r)]\<rparr>)"
    by (simp add: c)
next
  fix link
  assume a: "map_of (peerConnections svc) r = Some link
        \<and> connectionState (pcs b (connection link)) = ConnClosed"
  obtain p svc1 b1 where c: "createPeerConnection r svc b = (p, svc1, b1)"
    by (cases "createPeerConnection r svc b") auto
  from a createPeerConnection_closed [of svc r link b] c
  have "constructPeerConnection r
               (svc\<lparr>peerConnections := AList.delete r (peerConnections svc)\<rparr>)
               (console_write LOG (''Closed peer connection for '' @ r)
                  (pc_update (connection link) (pc_close (pcs b (connection link))) b))
            = (p, svc1, b1)" by simp
  from constructPeerConnection_post [OF this]
  show "case createPeerConnection r svc b of
         (p, svc1, b1) \<Rightarrow>
           p = nextPc b
         \<and> map_of (peerConnections svc1) r = Some \<lparr>peerUserId = r, connection = p, stream = None\<rparr>
         \<and> signalingState (pcs b1 p) = Stable \<and> connectionState (pcs b1 p) = ConnNew
         \<and> set (senders (pcs b1 p)) = (case localStream svc of Some ts \<Rightarrow> set ts | None \<Rightarrow> {})
         \<and> distinct (senders (pcs b1 p))"
    by (auto simp add: c console_write_def pc_update_def)
qed


theorem createPeerConnection_idempotent_witness:
  "map_of (peerConnections linkedService) ''bob''
     = Some \<lparr>peerUserId = ''bob'', connection = 0, stream = None\<rparr>
   \<and> connectionState (pcs offeringBrowser 0) \<noteq> ConnClosed
   \<and> createPeerConnection ''bob'' linkedService offeringBrowser
       = (0, linkedService,
          offeringBrowser\<lparr>console := [(LOG, ''Using existing peer connection for bob'')]\<rparr>)
   \<and> connectionState (pcs closedBrowser 0) = ConnClosed
   \<and> fst (createPeerConnection ''bob'' (linkedService\<lparr>localStream := Some [0, 1]\<rparr>) closedBrowser) = 1
   \<and> set (senders (pcs (snd (snd (createPeerConnection ''bob''
              (linkedService\<lparr>localStream := Some [0, 1]\<rparr>) closedBrowser))) 1)) = {0, 1}
   \<and> distinct (senders (pcs (snd (snd (createPeerConnection ''bob''
              (linkedService\<lparr>localStream := Some [0, 1]\<rparr>) closedBrowser))) 1))"
proof -
  have h1: "map_of (peerConnections (linkedService\<lparr>localStream := Some [0, 1]\<rparr>)) ''bob''
     = Some \<lparr>peerUserId = ''bob'', connection = 0, stream = None\<rparr>"
    by (simp add: linked)
  have o: "connectionState (pcs offeringBrowser 0) \<noteq> ConnClosed" "console offeringBrowser = []"
    by (simp_all add: offeringBrowser_def browser0_def newRTCPeerConnection_def)
  have c: "connectionState (pcs closedBrowser 0) = ConnClosed" "nextPc closedBrowser = 1"
    by (simp_all add: closedBrowser_def pc_close_def)
  let ?X = "createPeerConnection ''bob'' (linkedService\<lparr>localStream := Some [0, 1]\<rparr>) closedBrowser"
  have reuse: "createPeerConnection ''bob'' linkedService offeringBrowser
       = (0, linkedService,
          offeringBrowser\<lparr>console := [(LOG, ''Using existing peer connection for bob'')]\<rparr>)"
    using linked o createPeerConnection_idempotent [of linkedService "''bob''" offeringBrowser]
    by simp
  let ?svc = "linkedService\<lparr>localStream := Some [0, 1]\<rparr>"
  have c': "connectionState (pcs closedBrowser
              (connection \<lparr>peerUserId = ''bob'', connection = 0, stream = None\<rparr>)) = ConnClosed"
    using c(1) by simp
  have fresh: "fst ?X = nextPc closedBrowser
      \<and> map_of (peerConnections (fst (snd ?X))) ''bob''
          = Some \<lparr>peerUserId = ''bob'', connection = fst ?X, stream = None\<rparr>
      \<and> signalingState (pcs (snd (snd ?X)) (fst ?X)) = Stable
      \<and> connectionState (pcs (snd (snd ?X)) (fst ?X)) = ConnNew
      \<and> set (senders (pcs (snd (snd ?X)) (fst ?X)))
          = (case localStream ?svc of Some ts \<Rightarrow> set ts | None \<Rightarrow> {})
      \<and> distinct (senders (pcs (snd (snd ?X)) (fst ?X)))"
    using h1 c'
      createPeerConnection_idempotent [of ?svc "''bob''" closedBrowser, unfolded case_prod_beta]
    by blast
  then have f: "fst ?X = 1" by (simp add: c(2))
  from fresh have "set (senders (pcs (snd (snd ?X)) (fst ?X)))
          = (case localStream ?svc of Some ts \<Rightarrow> set ts | None \<Rightarrow> {})
      \<and> distinct (senders (pcs (snd (snd ?X)) (fst ?X)))"
    by blast
  then have "set (senders (pcs (snd (snd ?X)) 1)) = {0, 1}
      \<and> distinct (senders (pcs (snd (snd ?X)) 1))"
    unfolding f by (simp add: insert_commute)
  with linked o(1) reuse c(1) f show ?thesis by blast
qed


section \<open>The participant limit\<close>

text \<open>
  C6 (as amended).  With more than four receivers \<open>startCall\<close> refuses the call before any
  side effect: the database (no session record, no offer), the provider state and the
  service (no media, no connection) are unchanged.  It does not raise an error: the
  promise is fulfilled, and the refusal is shown to a signed-in user as an alert.
\<close>

theorem startCall_too_many:
  assumes "length receiverIds + 1 > 5"
  shows "outcome (startCall e receiverIds type db cl b) = None
       \<and> dbOf (startCall e receiverIds type db cl b) = db
       \<and> clientOf (startCall e receiverIds type db cl b) = cl
       \<and> (browserOf (startCall e receiverIds type db cl b) = b
          \<or> browserOf (startCall e receiverIds type db cl b)
              = b\<lparr>alerts := alerts b @ [''Maximum 5 participants allowed in a group call'']\<rparr>)
       \<and> (user cl \<noteq> None \<and> webRTCService cl \<noteq> None \<longrightarrow>
            browserOf (startCall e receiverIds type db cl b)
              = b\<lparr>alerts := alerts b @ [''Maximum 5 participants allowed in a group call'']\<rparr>)"
  using assms
  by (auto simp add: startCall_def MAX_PARTICIPANTS_def outcome_def dbOf_def clientOf_def
      browserOf_def split: option.splits)

theorem startCall_too_many_witness:
  "length [''bob'', ''carol'', ''dave'', ''erin'', ''frank''] + 1 > (5::nat)
   \<and> user (client0 alice) \<noteq> None \<and> webRTCService (client0 alice) \<noteq> None
   \<and> dbOf (startCall env0 [''bob'', ''carol'', ''dave'', ''erin'', ''frank''] VideoCall
             db0 (client0 alice) browser0) = db0
   \<and> clientOf (startCall env0 [''bob'', ''carol'', ''dave'', ''erin'', ''frank''] VideoCall
             db0 (client0 alice) browser0) = client0 alice
   \<and> browserOf (startCall env0 [''bob'', ''carol'', ''dave'', ''erin'', ''frank''] VideoCall
             db0 (client0 alice) browser0)
       = browser0\<lparr>alerts := [''Maximum 5 participants allowed in a group call'']\<rparr>"
proof -
  have l: "length [''bob'', ''carol'', ''dave'', ''erin'', ''frank''] + 1 > (5::nat)" by simp
  have u: "user (client0 alice) \<noteq> None" "webRTCService (client0 alice) \<noteq> None"
    "alerts browser0 = []"
    by (simp_all add: client0_def browser0_def)
  show ?thesis
    using l u startCall_too_many [OF l, of env0 VideoCall db0 "client0 alice" browser0]
    by simp
qed

text \<open>
  C6 as stated fails in one point: with five receivers \<open>startCall\<close> does not fail with an
  error; it returns normally after the alert.
\<close>

theorem oversized_call_raises_nothing:
  "outcome (startCall env0 [''bob'', ''carol'', ''dave'', ''erin'', ''frank''] VideoCall
             db0 (client0 alice) browser0) = None
   \<and> alerts (browserOf (startCall env0 [''bob'', ''carol'', ''dave'', ''erin'', ''frank''] VideoCall
             db0 (client0 alice) browser0))
       = [''Maximum 5 participants allowed in a group call'']"
  by (simp add: startCall_def client0_def MAX_PARTICIPANTS_def outcome_def browserOf_def
      browser0_def)


section \<open>Ending a call\<close>

lemma fold_track_stop:
  "fold (\<lambda>t st. st(t := track_stop (st t))) ts st t
     = (if t \<in> set ts then track_stop (st t) else st t)"
  by (induction ts arbitrary: st) (auto simp add: track_stop_def)

lemma stopTracks_fields:
  "trackStore (stopTracks ts b) t = (if t \<in> set ts then track_stop (trackStore b t) else trackStore b t)"
  "pcs (stopTracks ts b) = pcs b"
  "timers (stopTracks ts b) = timers b"
  "console (stopTracks ts b) = console b"
  "alerts (stopTracks ts b) = alerts b"
  "nextPc (stopTracks ts b) = nextPc b"
  by (simp_all add: stopTracks_def fold_track_stop)

lemma closeEach_Nil: "closeEach [] b = b"
  by (simp add: closeEach_def)

lemma closeEach_Cons:
  "closeEach (entry # table) b
     = closeEach table (pc_update (connection (snd entry)) (pc_close (pcs b (connection (snd entry)))) b)"
  by (simp add: closeEach_def)

lemma closeEach_pcs:
  "pcs (closeEach table b) p
     = (if \<exists>entry \<in> set table. connection (snd entry) = p then pc_close (pcs b p) else pcs b p)"
proof (induction table arbitrary: b)
  case Nil
  show ?case by (simp add: closeEach_Nil)
next
  case (Cons entry table)
  have "pcs (closeEach (entry # table) b) p
          = pcs (closeEach table
                  (pc_update (connection (snd entry)) (pc_close (pcs b (connection (snd entry)))) b)) p"
    by (simp only: closeEach_Cons)
  also have "\<dots> = (if \<exists>entry \<in> set (entry # table). connection (snd entry) = p
                    then pc_close (pcs b p) else pcs b p)"
    by (simp add: Cons.IH pc_update_def pc_close_def)
  finally show ?case .
qed

lemma closeEach_frame:
  "trackStore (closeEach table b) = trackStore b
   \<and> timers (closeEach table b) = timers b
   \<and> console (closeEach table b) = console b
   \<and> alerts (closeEach table b) = alerts b
   \<and> nextPc (closeEach table b) = nextPc b"
proof (induction table arbitrary: b)
  case Nil
  show ?case by (simp add: closeEach_Nil)
next
  case (Cons entry table)
  show ?case
    by (simp only: closeEach_Cons Cons.IH) (simp add: pc_update_def)
qed

lemma cleanup_result:
  assumes "cleanup svc b = (svc1, b1)"
  shows "peerConnections svc1 = [] \<and> localStream svc1 = None \<and> unsubscribes svc1 = []
   \<and> callId svc1 = None \<and> userId svc1 = userId svc
   \<and> (\<forall>entry \<in> set (peerConnections svc).
         signalingState (pcs b1 (connection (snd entry))) = SigClosed
       \<and> connectionState (pcs b1 (connection (snd entry))) = ConnClosed)
   \<and> (\<forall>ts. localStream svc = Some ts \<longrightarrow>
         (\<forall>t \<in> set ts. readyState (trackStore b1 t) = TrackEnded))
   \<and> timers b1 = timers b \<and> console b1 = console b \<and> alerts b1 = alerts b"
proof -
  let ?b0 = "case localStream svc of Some ts \<Rightarrow> stopTracks ts b | None \<Rightarrow> b"
  have s: "svc1 = svc\<lparr>localStream := None, peerConnections := [], unsubscribes := [], callId := None\<rparr>"
    and b1: "b1 = closeEach (peerConnections svc) ?b0"
    using assms by (simp_all add: cleanup_def Let_def)
  have closed: "\<forall>entry \<in> set (peerConnections svc).
         signalingState (pcs b1 (connection (snd entry))) = SigClosed
       \<and> connectionState (pcs b1 (connection (snd entry))) = ConnClosed"
  proof
    fix entry assume m: "entry \<in> set (peerConnections svc)"
    then have "\<exists>x \<in> set (peerConnections svc). connection (snd x) = connection (snd entry)"
      by blast
    then have "pcs b1 (connection (snd entry)) = pc_close (pcs ?b0 (connection (snd entry)))"
      unfolding b1 closeEach_pcs by simp
    then show "signalingState (pcs b1 (connection (snd entry))) = SigClosed
       \<and> connectionState (pcs b1 (connection (snd entry))) = ConnClosed"
      by (simp add: pc_close_def)
  qed
  have stopped: "\<forall>ts. localStream svc = Some ts \<longrightarrow>
         (\<forall>t \<in> set ts. readyState (trackStore b1 t) = TrackEnded)"
    unfolding b1 by (simp add: closeEach_frame stopTracks_fields track_stop_def)
  have frame: "timers b1 = timers b \<and> console b1 = console b \<and> alerts b1 = alerts b"
    unfolding b1 by (simp add: closeEach_frame stopTracks_fields split: option.split)
  show ?thesis using closed stopped frame by (simp add: s)
qed

text \<open>
  C4 (as amended).  \<open>endCall\<close> for the call named in the provider state first writes the
  status.  When that write succeeds the session is ended, every connection in the table
  is closed and the table is emptied, every local track is stopped and the stream is
  released, and the provider state is reset.  The three actions are statements of one
  \<open>try\<close> block, so when the write is rejected (or the document is missing) nothing else
  happens: no connection is closed, no track is stopped, and the error is logged.
\<close>

theorem endCall_cleanup:
  assumes "cs_callId (callState cl) = Some cid" and "cid \<noteq> []"
    and "webRTCService cl = Some svc"
  shows "(\<forall>d. calls db cid = Some d \<and> rejected e (WriteCall cid) = None \<longrightarrow>
            outcome (endCall e db cl b) = None
          \<and> calls (dbOf (endCall e db cl b)) cid
              = Some (d\<lparr>status := Ended, endedAt := Some (now e)\<rparr>)
          \<and> (\<forall>entry \<in> set (peerConnections svc).
                signalingState (pcs (browserOf (endCall e db cl b)) (connection (snd entry)))
                  = SigClosed
              \<and> connectionState (pcs (browserOf (endCall e db cl b)) (connection (snd entry)))
                  = ConnClosed)
          \<and> (\<exists>svc1. webRTCService (clientOf (endCall e db cl b)) = Some svc1
                \<and> peerConnections svc1 = [] \<and> localStream svc1 = None)
          \<and> (\<forall>ts. localStream svc = Some ts \<longrightarrow>
                (\<forall>t \<in> set ts. readyState (trackStore (browserOf (endCall e db cl b)) t)
                                 = TrackEnded))
          \<and> callState (clientOf (endCall e db cl b)) = initialCallState)
       \<and> (calls db cid = None \<or> rejected e (WriteCall cid) \<noteq> None \<longrightarrow>
            endCall e db cl b
              = (None, db, cl, b\<lparr>console := console b @ [(ERROR, ''Error ending call:'')]\<rparr>))"
proof (rule conjI; intro allI impI)
  fix d
  assume a: "calls db cid = Some d \<and> rejected e (WriteCall cid) = None"
  obtain svc1 b1 where c: "cleanup svc b = (svc1, b1)"
    by (cases "cleanup svc b") auto
  have r: "endCall e db cl b
      = (None, db\<lparr>calls := (calls db)(cid \<mapsto> d\<lparr>status := Ended, endedAt := Some (now e)\<rparr>)\<rparr>,
         cl\<lparr>webRTCService := Some svc1, callState := initialCallState, incomingCall := None\<rparr>,
         b1)"
    using assms a c by (simp add: endCall_def updateCallDoc_def)
  note cr = cleanup_result [OF c]
  show "outcome (endCall e db cl b) = None
          \<and> calls (dbOf (endCall e db cl b)) cid
              = Some (d\<lparr>status := Ended, endedAt := Some (now e)\<rparr>)
          \<and> (\<forall>entry \<in> set (peerConnections svc).
                signalingState (pcs (browserOf (endCall e db cl b)) (connection (snd entry)))
                  = SigClosed
              \<and> connectionState (pcs (browserOf (endCall e db cl b)) (connection (snd entry)))
                  = ConnClosed)
          \<and> (\<exists>svc1. webRTCService (clientOf (endCall e db cl b)) = Some svc1
                \<and> peerConnections svc1 = [] \<and> localStream svc1 = None)
          \<and> (\<forall>ts. localStream svc = Some ts \<longrightarrow>
                (\<forall>t \<in> set ts. readyState (trackStore (browserOf (endCall e db cl b)) t)
                                 = TrackEnded))
          \<and> callState (clientOf (endCall e db cl b)) = initialCallState"
    unfolding r using cr by (simp add: outcome_def dbOf_def clientOf_def browserOf_def)
next
  assume "calls db cid = None \<or> rejected e (WriteCall cid) \<noteq> None"
  then show "endCall e db cl b
              = (None, db, cl, b\<lparr>console := console b @ [(ERROR, ''Error ending call:'')]\<rparr>)"
    using assms
    by (auto simp add: endCall_def updateCallDoc_def console_write_def split: option.splits)
qed


lemma inCall_facts:
  "cs_callId (callState inCallClient) = Some ''call1''"
  "webRTCService inCallClient
     = Some (linkedService\<lparr>localStream := Some [0], callId := Some ''call1''\<rparr>)"
  "peerConnections (linkedService\<lparr>localStream := Some [0], callId := Some ''call1''\<rparr>)
     = [(''bob'', \<lparr>peerUserId = ''bob'', connection = 0, stream = None\<rparr>)]"
  "calls (dbWith d) ''call1'' = Some d"
  "rejected env0 op = None"
  "rejected offlineEnv op = Some (JsError ''FirebaseError'' ''unavailable'')"
  "now env0 = 100"
  "console inCallBrowser = []"
  "signalingState (pcs inCallBrowser 0) = Stable"
  "readyState (trackStore inCallBrowser 0) = TrackLive"
  by (simp_all add: inCallClient_def client0_def linkedService_def newWebRTCService_def
      dbWith_def env0_def offlineEnv_def inCallBrowser_def answeredBrowser_def browser0_def
      initialCallState_def newRTCPeerConnection_def)

theorem endCall_cleanup_witness:
  "cs_callId (callState inCallClient) = Some ''call1'' \<and> ''call1'' \<noteq> []
   \<and> webRTCService inCallClient
       = Some (linkedService\<lparr>localStream := Some [0], callId := Some ''call1''\<rparr>)
   \<and> calls (dbWith call1) ''call1'' = Some call1 \<and> rejected env0 (WriteCall ''call1'') = None
   \<and> calls (dbOf (endCall env0 (dbWith call1) inCallClient inCallBrowser)) ''call1''
       = Some (call1\<lparr>status := Ended, endedAt := Some 100\<rparr>)
   \<and> signalingState (pcs (browserOf (endCall env0 (dbWith call1) inCallClient inCallBrowser)) 0)
       = SigClosed
   \<and> readyState (trackStore (browserOf (endCall env0 (dbWith call1) inCallClient inCallBrowser)) 0)
       = TrackEnded
   \<and> callState (clientOf (endCall env0 (dbWith call1) inCallClient inCallBrowser))
       = initialCallState
   \<and> rejected offlineEnv (WriteCall ''call1'') \<noteq> None
   \<and> endCall offlineEnv (dbWith call1) inCallClient inCallBrowser
       = (None, dbWith call1, inCallClient,
          inCallBrowser\<lparr>console := [(ERROR, ''Error ending call:'')]\<rparr>)"
proof -
  have ne: "''call1'' \<noteq> []" by simp
  note t = endCall_cleanup [OF inCall_facts(1) ne inCall_facts(2)]
  show ?thesis
    using t [of "dbWith call1" env0 inCallBrowser] t [of "dbWith call1" offlineEnv inCallBrowser]
    by (simp add: inCall_facts)
qed

text \<open>
  C4 as stated fails: while Firestore rejects the status write of an active session,
  \<open>endCall\<close> closes no connection and stops no track; it only logs the error.
\<close>

theorem endCall_failed_write_skips_cleanup:
  "map_option status (calls (dbWith call1) ''call1'') = Some Active
   \<and> outcome (endCall offlineEnv (dbWith call1) inCallClient inCallBrowser) = None
   \<and> clientOf (endCall offlineEnv (dbWith call1) inCallClient inCallBrowser) = inCallClient
   \<and> signalingState
       (pcs (browserOf (endCall offlineEnv (dbWith call1) inCallClient inCallBrowser)) 0) = Stable
   \<and> readyState
       (trackStore (browserOf (endCall offlineEnv (dbWith call1) inCallClient inCallBrowser)) 0)
       = TrackLive"
  by (simp add: endCall_def updateCallDoc_def inCall_facts console_write_def
      outcome_def clientOf_def browserOf_def call1_def)

section \<open>The ring timer\<close>

lemma timers_console_write: "timers (console_write l m b) = timers b"
  by (simp add: console_write_def)

lemma timers_pc_update: "timers (pc_update p c b) = timers b"
  by (simp add: pc_update_def)

lemma timers_addLocalTrack: "timers (addLocalTrack p t b) = timers b"
  by (simp add: addLocalTrack_def Let_def timers_console_write timers_pc_update split: sum.split)

lemma timers_fold_addLocalTrack: "timers (fold (addLocalTrack p) ts b) = timers b"
  by (induction ts arbitrary: b) (simp_all add: timers_addLocalTrack)

lemma timers_constructPeerConnection:
  "timers (snd (snd (constructPeerConnection r svc b))) = timers b"
  by (simp add: constructPeerConnection_def Let_def timers_fold_addLocalTrack split: option.split)

lemma timers_closePeerConnection: "timers (snd (closePeerConnection r svc b)) = timers b"
  by (simp add: closePeerConnection_def timers_console_write timers_pc_update split: option.split)

lemma timers_createPeerConnection:
  "timers (snd (snd (createPeerConnection r svc b))) = timers b"
proof (cases "closePeerConnection r svc b")
  case (Pair svc1 b1)
  then have "timers b1 = timers b"
    using timers_closePeerConnection [of r svc b] by simp
  then show ?thesis
    using Pair
    by (simp add: createPeerConnection_def timers_console_write timers_constructPeerConnection
        split: option.split)
qed

lemma timers_createOffer: "timers (snd (snd (createOffer gen r svc b))) = timers b"
proof (cases "createPeerConnection r svc b")
  case (fields p svc1 b1)
  then have "timers b1 = timers b"
    using timers_createPeerConnection [of r svc b] by simp
  then show ?thesis
    using fields
    by (simp add: createOffer_def timers_console_write timers_pc_update split: sum.split)
qed

lemma timers_setupRemoteStreamListener: "timers (setupRemoteStreamListener r svc b) = timers b"
  by (simp add: setupRemoteStreamListener_def timers_console_write timers_pc_update
      split: option.split)

lemma timers_publishOffers:
  "timers (snd (snd (snd (publishOffers e me cid rs db svc b)))) = timers b"
proof (induction rs arbitrary: db svc b)
  case Nil
  show ?case by simp
next
  case (Cons r rs)
  obtain res svc1 b1 where c: "createOffer (sdpGen e) r svc b = (res, svc1, b1)"
    by (cases "createOffer (sdpGen e) r svc b") auto
  then have t: "timers b1 = timers b"
    using timers_createOffer [of "sdpGen e" r svc b] by simp
  show ?case
    by (simp add: c t Cons.IH timers_setupRemoteStreamListener Let_def
        split: sum.split)
qed

lemma timers_newTracks: "timers (snd (newTracks ks b)) = timers b"
  by (induction ks arbitrary: b) (simp_all add: Let_def case_prod_beta)


lemma timers_stopTracks: "timers (stopTracks ts b) = timers b"
  by (simp add: stopTracks_def)

lemma timers_initializeLocalStream:
  "timers (snd (snd (initializeLocalStream m audioOnly svc b))) = timers b"
proof -
  let ?b1 = "case localStream svc of Some ts \<Rightarrow> stopTracks ts b | None \<Rightarrow> b"
  have s: "timers ?b1 = timers b"
    by (simp add: timers_stopTracks split: option.split)
  have n: "\<And>ks. timers (snd (newTracks ks ?b1)) = timers b"
    by (simp add: timers_newTracks s)
  show ?thesis
    using s n
    by (simp add: initializeLocalStream_def mediaCatch_def timers_console_write Let_def
        case_prod_beta split: option.split)
qed

lemma startCall_success:
  assumes u: "user cl = Some u" and svc: "webRTCService cl = Some svc"
    and len: "length rs + 1 \<le> 5"
    and ok: "outcome (startCall e rs ty db cl b) = None"
  obtains stream1 svc1 b1 db1 db2 svc2 b2 details where
    "initializeLocalStream (media e) (ty = VoiceCall) svc b = (Inr stream1, svc1, b1)"
    "setCallDoc (rejected e) (ignoreUndefinedProperties e) (newDocId e) (newCallDoc e u rs ty) db
       = Inr db1"
    "publishOffers e (uid u) (newDocId e) rs db1 (setCallId (newDocId e) svc1) b1
       = (None, db2, svc2, b2)"
    "getUserDocs (rejected e) rs db2 = Inr details"
    "startCall e rs ty db cl b
       = (None, db2,
          cl\<lparr>webRTCService := Some svc2,
             callState := (callState cl)
               \<lparr>callType := Some ty, cs_callId := Some (newDocId e),
                isInCall := True, isCalling := False, cs_localStream := Some stream1,
                cs_participants := details\<rparr>,
             answersListeners := answersListeners cl @ [newDocId e]\<rparr>,
          b2\<lparr>timers := timers b2 @ [newDocId e]\<rparr>)"
proof -
  obtain res1 svc1 b1 where m:
    "initializeLocalStream (media e) (ty = VoiceCall) svc b = (res1, svc1, b1)"
    by (cases "initializeLocalStream (media e) (ty = VoiceCall) svc b") auto
  show thesis
  proof (cases res1)
    case (Inl err)
    then have False
      using ok u svc len m
      by (simp add: startCall_def MAX_PARTICIPANTS_def startCallCatch_def outcome_def)
    then show thesis ..
  next
    case (Inr stream1)
    note r1 = this
    show thesis
    proof (cases "setCallDoc (rejected e) (ignoreUndefinedProperties e) (newDocId e)
                    (newCallDoc e u rs ty) db")
      case (Inl err)
      then have False
        using ok u svc len m r1
        by (simp add: startCall_def MAX_PARTICIPANTS_def startCallCatch_def outcome_def Let_def)
      then show thesis ..
    next
      case (Inr db1)
      note r2 = this
      obtain po db2 svc2 b2 where p1:
        "publishOffers e (uid u) (newDocId e) rs db1 (setCallId (newDocId e) svc1) b1
           = (po, db2, svc2, b2)"
        by (cases "publishOffers e (uid u) (newDocId e) rs db1 (setCallId (newDocId e) svc1) b1")
          auto
      show thesis
      proof (cases po)
        case (Some err)
        then have False
          using ok u svc len m r1 r2 p1
          by (simp add: startCall_def MAX_PARTICIPANTS_def startCallCatch_def outcome_def Let_def)
        then show thesis ..
      next
        case None
        note r3 = this
        show thesis
        proof (cases "getUserDocs (rejected e) rs db2")
          case (Inl err)
          then have False
            using ok u svc len m r1 r2 p1 r3
            by (simp add: startCall_def MAX_PARTICIPANTS_def startCallCatch_def outcome_def Let_def)
          then show thesis ..
        next
          case (Inr details)
          show thesis
          proof (rule that [of stream1 svc1 b1 db1 db2 svc2 b2 details])
            show "initializeLocalStream (media e) (ty = VoiceCall) svc b = (Inr stream1, svc1, b1)"
              using m r1 by simp
            show "setCallDoc (rejected e) (ignoreUndefinedProperties e) (newDocId e)
                    (newCallDoc e u rs ty) db = Inr db1" by (rule r2)
            show "publishOffers e (uid u) (newDocId e) rs db1 (setCallId (newDocId e) svc1) b1
                    = (None, db2, svc2, b2)"
              using p1 r3 by simp
            show "getUserDocs (rejected e) rs db2 = Inr details" by (rule Inr)
            show "startCall e rs ty db cl b
               = (None, db2,
                  cl\<lparr>webRTCService := Some svc2,
             callState := (callState cl)
               \<lparr>callType := Some ty, cs_callId := Some (newDocId e),
                isInCall := True, isCalling := False, cs_localStream := Some stream1,
                cs_participants := details\<rparr>,
             answersListeners := answersListeners cl @ [newDocId e]\<rparr>,
                  b2\<lparr>timers := timers b2 @ [newDocId e]\<rparr>)"
              using u svc len m r1 r2 p1 r3 Inr
              by (simp add: startCall_def MAX_PARTICIPANTS_def Let_def)
          qed
        qed
      qed
    qed
  qed
qed

lemma startCall_timers:
  assumes "user cl \<noteq> None" and "webRTCService cl \<noteq> None"
    and "length rs + 1 \<le> 5"
    and "outcome (startCall e rs ty db cl b) = None"
  shows "timers (browserOf (startCall e rs ty db cl b)) = timers b @ [newDocId e]"
proof -
  from assms obtain u svc where u: "user cl = Some u" and svc: "webRTCService cl = Some svc"
    by auto
  show ?thesis
  proof (rule startCall_success [OF u svc assms(3,4)])
    fix stream1 svc1 b1 db1 db2 svc2 b2 details
    assume m: "initializeLocalStream (media e) (ty = VoiceCall) svc b = (Inr stream1, svc1, b1)"
      and p: "publishOffers e (uid u) (newDocId e) rs db1 (setCallId (newDocId e) svc1) b1
                = (None, db2, svc2, b2)"
      and r: "startCall e rs ty db cl b
       = (None, db2,
          cl\<lparr>webRTCService := Some svc2,
             callState := (callState cl)
               \<lparr>callType := Some ty, cs_callId := Some (newDocId e),
                isInCall := True, isCalling := False, cs_localStream := Some stream1,
                cs_participants := details\<rparr>,
             answersListeners := answersListeners cl @ [newDocId e]\<rparr>,
          b2\<lparr>timers := timers b2 @ [newDocId e]\<rparr>)"
    have "timers b1 = timers b"
      using timers_initializeLocalStream [of "media e" "ty = VoiceCall" svc b] m by simp
    moreover have "timers b2 = timers b1"
      using timers_publishOffers [of e "uid u" "newDocId e" rs db1 "setCallId (newDocId e) svc1" b1] p
      by simp
    ultimately show ?thesis by (simp add: r browserOf_def)
  qed
qed


lemma endCall_written:
  assumes "cs_callId (callState cl) = Some cid" and "cid \<noteq> []"
    and "webRTCService cl = Some svc"
    and "calls db cid = Some d" and "rejected e (WriteCall cid) = None"
  shows "outcome (endCall e db cl b) = None
       \<and> calls (dbOf (endCall e db cl b)) cid
           = Some (d\<lparr>status := Ended, endedAt := Some (now e)\<rparr>)"
  using assms
  by (simp add: endCall_def updateCallDoc_def outcome_def dbOf_def case_prod_beta)

lemma endCall_timers: "timers (browserOf (endCall e db cl b)) = timers b"
proof -
  have c: "\<And>svc. timers (snd (cleanup svc b)) = timers b"
    using cleanup_result by (metis prod.collapse)
  show ?thesis
    by (simp add: endCall_def browserOf_def timers_console_write c case_prod_beta
        split: option.split sum.split)
qed

lemma declineCall_timers: "timers (browserOf (declineCall e db cl b)) = timers b"
  by (simp add: declineCall_def browserOf_def timers_console_write
      split: option.split sum.split)

lemma ringTimerFired_status:
  assumes "calls db cid = Some d" and "rej (WriteCall cid) = None"
  shows "calls (fst (ringTimerFired rej cid t db b)) cid
           = Some (d\<lparr>status := Active, startedAt := Some t\<rparr>)"
  using assms by (simp add: ringTimerFired_def updateCallDoc_def)

text \<open>
  C2 (as amended).  The transition scheduled by \<open>startCall\<close> is not cancellable.  A
  successful \<open>startCall\<close> adds the timer of the new call to the pending timers;
  \<open>endCall\<close> and \<open>declineCall\<close> leave the pending timers as they are; and when the timer
  fires, the status of the session becomes active and \<open>startedAt\<close> is set, whatever the
  status was, as long as the document exists and the write is accepted.
\<close>

theorem ring_timer_is_not_cancelled:
  "(user cl \<noteq> None \<and> webRTCService cl \<noteq> None \<and> length rs + 1 \<le> 5
      \<and> outcome (startCall e rs ty db cl b) = None \<longrightarrow>
      timers (browserOf (startCall e rs ty db cl b)) = timers b @ [newDocId e])
   \<and> timers (browserOf (endCall e db cl b)) = timers b
   \<and> timers (browserOf (declineCall e db cl b)) = timers b
   \<and> (\<forall>d. calls db cid = Some d \<and> rej (WriteCall cid) = None \<longrightarrow>
         calls (fst (ringTimerFired rej cid t db b)) cid
           = Some (d\<lparr>status := Active, startedAt := Some t\<rparr>))"
  by (simp add: startCall_timers endCall_timers declineCall_timers ringTimerFired_status)


lemmas run_defs =
  startCall_def newCallDoc_def publishOffers.simps startCallCatch_def initializeLocalStream_def
  createOffer_def createPeerConnection_def constructPeerConnection_def
  addLocalTrack_def pc_addTrack_def newRTCPeerConnection_def console_write_def pc_update_def
  kindName_def pc_createOffer_def pc_setLocalDescription_def setCallDoc_def setOfferDoc_def
  getUserDocs.simps listenForCandidates_def setupRemoteStreamListener_def setCallId_def
  newTracks.simps MAX_PARTICIPANTS_def
  env0_def db0_def client0_def browser0_def newWebRTCService_def alice_def bob_def
  outcome_def dbOf_def clientOf_def browserOf_def Let_def

lemma aliceCalling_facts:
  "outcome aliceCalling = None"
  "timers (browserOf aliceCalling) = [''call1'']"
  "calls (dbOf aliceCalling) ''call1'' = Some (newCallDoc env0 alice [''bob''] VoiceCall)"
  "cs_callId (callState (clientOf aliceCalling)) = Some ''call1''"
  "webRTCService (clientOf aliceCalling) \<noteq> None"
  unfolding aliceCalling_def by (simp_all add: run_defs)

lemma aliceHungUp_facts:
  "timers (browserOf aliceHungUp) = [''call1'']"
  "calls (dbOf aliceHungUp) ''call1''
     = Some ((newCallDoc env0 alice [''bob''] VoiceCall)\<lparr>status := Ended, endedAt := Some 100\<rparr>)"
proof -
  obtain svc where svc: "webRTCService (clientOf aliceCalling) = Some svc"
    using aliceCalling_facts(5) by auto
  show "timers (browserOf aliceHungUp) = [''call1'']"
    unfolding aliceHungUp_def by (simp add: endCall_timers aliceCalling_facts)
  show "calls (dbOf aliceHungUp) ''call1''
     = Some ((newCallDoc env0 alice [''bob''] VoiceCall)\<lparr>status := Ended, endedAt := Some 100\<rparr>)"
    unfolding aliceHungUp_def
    using endCall_written [OF aliceCalling_facts(4) _ svc aliceCalling_facts(3),
        of env0 "browserOf aliceCalling"]
    by (simp add: env0_def)
qed

theorem ring_timer_is_not_cancelled_witness:
  "user (client0 alice) \<noteq> None \<and> webRTCService (client0 alice) \<noteq> None
   \<and> length [''bob''] + 1 \<le> (5::nat)
   \<and> outcome (startCall env0 [''bob''] VoiceCall db0 (client0 alice) browser0) = None
   \<and> timers (browserOf (startCall env0 [''bob''] VoiceCall db0 (client0 alice) browser0))
       = [''call1'']
   \<and> calls (dbWith (call1\<lparr>status := Ended\<rparr>)) ''call1'' = Some (call1\<lparr>status := Ended\<rparr>)
   \<and> rejected env0 (WriteCall ''call1'') = None
   \<and> calls (fst (ringTimerFired (rejected env0) ''call1'' 102
                    (dbWith (call1\<lparr>status := Ended\<rparr>)) browser0)) ''call1''
       = Some (call1\<lparr>status := Active, startedAt := Some 102\<rparr>)"
proof -
  have a: "user (client0 alice) \<noteq> None" "webRTCService (client0 alice) \<noteq> None"
    "length [''bob''] + 1 \<le> (5::nat)" "timers browser0 = []" "newDocId env0 = ''call1''"
    by (simp_all add: client0_def browser0_def env0_def)
  have o: "outcome (startCall env0 [''bob''] VoiceCall db0 (client0 alice) browser0) = None"
    using aliceCalling_facts(1) by (simp add: aliceCalling_def)
  have c: "calls (dbWith (call1\<lparr>status := Ended\<rparr>)) ''call1'' = Some (call1\<lparr>status := Ended\<rparr>)"
    "rejected env0 (WriteCall ''call1'') = None"
    by (simp_all add: inCall_facts)
  show ?thesis
    using a o c
      ring_timer_is_not_cancelled [where cl = "client0 alice" and rs = "[''bob'']" and e = env0
        and ty = VoiceCall and db = db0 and b = browser0]
      ring_timer_is_not_cancelled [where db = "dbWith (call1\<lparr>status := Ended\<rparr>)"
        and cid = "''call1''" and rej = "rejected env0" and t = 102 and b = browser0]
    by simp
qed

text \<open>
  C2 as stated fails: Alice calls Bob and ends the call before the two seconds are over;
  the timer is still pending, and when it fires the ended session becomes active.
\<close>

theorem ring_timer_reactivates_ended_call:
  "map_option status (calls (dbOf aliceCalling) ''call1'') = Some Ringing
   \<and> timers (browserOf aliceCalling) = [''call1'']
   \<and> map_option status (calls (dbOf aliceHungUp) ''call1'') = Some Ended
   \<and> timers (browserOf aliceHungUp) = [''call1'']
   \<and> map_option status
       (calls (fst (ringTimerFired (rejected env0) ''call1'' 102
                      (dbOf aliceHungUp) (browserOf aliceHungUp))) ''call1'') = Some Active"
  by (simp add: aliceCalling_facts aliceHungUp_facts ringTimerFired_def updateCallDoc_def
      newCallDoc_def env0_def)


section \<open>Terminal sessions\<close>

lemma newTracks_frame:
  "pcs (snd (newTracks ks b)) = pcs b \<and> nextPc (snd (newTracks ks b)) = nextPc b"
  by (induction ks arbitrary: b) (simp_all add: Let_def case_prod_beta)

lemma initializeLocalStream_ok:
  assumes "mediaDevicesSupported m" and "secureOrigin m" and "getUserMediaError m = None"
  shows "\<exists>ts b1. initializeLocalStream m audioOnly svc b = (Inr ts, svc\<lparr>localStream := Some ts\<rparr>, b1)
           \<and> pcs b1 = pcs b \<and> nextPc b1 = nextPc b"
proof -
  let ?b0 = "case localStream svc of Some ts \<Rightarrow> stopTracks ts b | None \<Rightarrow> b"
  let ?ks = "if audioOnly then [Audio] else [Audio, Video]"
  have f0: "pcs ?b0 = pcs b \<and> nextPc ?b0 = nextPc b"
    by (simp add: stopTracks_fields split: option.split)
  have "initializeLocalStream m audioOnly svc b
          = (Inr (fst (newTracks ?ks ?b0)), svc\<lparr>localStream := Some (fst (newTracks ?ks ?b0))\<rparr>,
             snd (newTracks ?ks ?b0))"
    using assms by (simp add: initializeLocalStream_def Let_def case_prod_beta)
  moreover have "pcs (snd (newTracks ?ks ?b0)) = pcs b \<and> nextPc (snd (newTracks ?ks ?b0)) = nextPc b"
    using newTracks_frame [of ?ks ?b0] f0 by simp
  ultimately show ?thesis by blast
qed

lemma getUserDocs_ok:
  assumes "\<forall>i. rej (ReadUser i) = None"
  shows "getUserDocs rej ids db = Inr (map (users db) ids)"
  using assms by (induction ids) simp_all

lemma answerOffer_calls: "calls (fst (snd (answerOffer e me cid db svc b))) = calls db"
  by (simp add: answerOffer_def getOfferDoc_def setAnswerDoc_def Let_def
      split: option.split sum.split prod.split)

lemma answerCall_written:
  assumes u: "user cl = Some u" and svc: "webRTCService cl = Some svc"
    and inc: "incomingCall cl = Some inc" and d: "calls db cid = Some d"
    and ok: "outcome (answerCall e cid db cl b) = None"
  shows "calls (dbOf (answerCall e cid db cl b)) cid
           = Some (d\<lparr>status := Active, startedAt := Some (now e)\<rparr>)"
proof -
  obtain res1 svc1 b1 where m:
    "initializeLocalStream (media e) (callKind (snd inc) = VoiceCall) svc b = (res1, svc1, b1)"
    by (cases "initializeLocalStream (media e) (callKind (snd inc) = VoiceCall) svc b") auto
  obtain po db1 svc3 b2 where a:
    "answerOffer e (uid u) cid db (setCallId cid svc1) b1 = (po, db1, svc3, b2)"
    by (cases "answerOffer e (uid u) cid db (setCallId cid svc1) b1") auto
  have c1: "calls db1 cid = Some d"
    using answerOffer_calls [of e "uid u" cid db "setCallId cid svc1" b1] a d by simp
  show ?thesis
    using ok u svc inc m a c1
    by (auto simp add: answerCall_def answerCallCatch_def updateCallDoc_def outcome_def dbOf_def
        split: sum.splits option.splits)
qed

text \<open>
  The status of the session is not an input of \<open>answerCall\<close>: the only statement that
  touches the session document overwrites the status.
\<close>

lemma answerOffer_other_calls:
  "answerOffer e me cid (db\<lparr>calls := c\<rparr>) svc b
     = (case answerOffer e me cid db svc b of
          (r, db1, svc1, b1) \<Rightarrow> (r, db1\<lparr>calls := c\<rparr>, svc1, b1))"
  by (simp add: answerOffer_def getOfferDoc_def setAnswerDoc_def Let_def
      split: option.split sum.split prod.split)

lemma updateCallDoc_other_status:
  assumes "calls db1 cid = Some d"
  shows "updateCallDoc rej cid (\<lambda>d. d\<lparr>status := Active, startedAt := Some t\<rparr>)
           (db1\<lparr>calls := (calls db1)(cid \<mapsto> d\<lparr>status := s\<rparr>)\<rparr>)
         = updateCallDoc rej cid (\<lambda>d. d\<lparr>status := Active, startedAt := Some t\<rparr>) db1"
  using assms by (simp add: updateCallDoc_def split: option.split)

lemma answerCall_other_status:
  assumes d: "calls db cid = Some d"
  shows "outcome (answerCall e cid (db\<lparr>calls := (calls db)(cid \<mapsto> d\<lparr>status := s\<rparr>)\<rparr>) cl b)
           = outcome (answerCall e cid db cl b)
       \<and> clientOf (answerCall e cid (db\<lparr>calls := (calls db)(cid \<mapsto> d\<lparr>status := s\<rparr>)\<rparr>) cl b)
           = clientOf (answerCall e cid db cl b)
       \<and> browserOf (answerCall e cid (db\<lparr>calls := (calls db)(cid \<mapsto> d\<lparr>status := s\<rparr>)\<rparr>) cl b)
           = browserOf (answerCall e cid db cl b)"
proof (cases "user cl")
  case None
  then show ?thesis
    by (simp add: answerCall_def outcome_def clientOf_def browserOf_def)
next
  case u: (Some u)
  show ?thesis
  proof (cases "webRTCService cl")
    case None
    then show ?thesis
      using u by (simp add: answerCall_def outcome_def clientOf_def browserOf_def)
  next
    case svc: (Some svc)
    show ?thesis
    proof (cases "incomingCall cl")
      case None
      then show ?thesis
        using u svc by (simp add: answerCall_def outcome_def clientOf_def browserOf_def)
    next
      case inc: (Some inc)
      let ?db' = "db\<lparr>calls := (calls db)(cid \<mapsto> d\<lparr>status := s\<rparr>)\<rparr>"
      obtain res1 svc1 b1 where m:
        "initializeLocalStream (media e) (callKind (snd inc) = VoiceCall) svc b = (res1, svc1, b1)"
        by (cases "initializeLocalStream (media e) (callKind (snd inc) = VoiceCall) svc b") auto
      show ?thesis
      proof (cases res1)
        case (Inl err)
        then show ?thesis
          using u svc inc m
          by (simp add: answerCall_def answerCallCatch_def outcome_def clientOf_def browserOf_def)
      next
        case (Inr stream1)
        obtain po db1 svc3 b2 where a:
          "answerOffer e (uid u) cid db (setCallId cid svc1) b1 = (po, db1, svc3, b2)"
          by (cases "answerOffer e (uid u) cid db (setCallId cid svc1) b1") auto
        have c1: "calls db1 = calls db"
          using answerOffer_calls [of e "uid u" cid db "setCallId cid svc1" b1] a by simp
        have a': "answerOffer e (uid u) cid ?db' (setCallId cid svc1) b1
                    = (po, db1\<lparr>calls := (calls db1)(cid \<mapsto> d\<lparr>status := s\<rparr>)\<rparr>, svc3, b2)"
          by (simp add: answerOffer_other_calls a c1)
        have d1: "calls db1 cid = Some d" using d c1 by simp
        note w = updateCallDoc_other_status [OF d1, of "rejected e" "now e" s]
        show ?thesis
        proof (cases po)
          case (Some err)
          then show ?thesis
            using u svc inc m Inr a a'
            by (simp add: answerCall_def answerCallCatch_def outcome_def clientOf_def
                browserOf_def)
        next
          case None
          show ?thesis
          proof (cases "updateCallDoc (rejected e) cid
                          (\<lambda>d. d\<lparr>status := Active, startedAt := Some (now e)\<rparr>) db1")
            case (Inl err)
            then show ?thesis
              using u svc inc m Inr a a' None w
              by (simp add: answerCall_def answerCallCatch_def outcome_def clientOf_def
                  browserOf_def)
          next
            case (Inr db2)
            have "answerCall e cid ?db' cl b = answerCall e cid db cl b"
              using u svc inc m \<open>res1 = Inr stream1\<close> a a' None w Inr
              by (simp add: answerCall_def)
            then show ?thesis by simp
          qed
        qed
      qed
    qed
  qed
qed

lemma answerCall_without_offer:
  assumes env: "cooperative e"
    and u: "user cl = Some u" and svc: "webRTCService cl = Some svc"
    and inc: "incomingCall cl = Some inc" and d: "calls db cid = Some d"
    and no: "offers db (cid, uid u) = None"
  shows "outcome (answerCall e cid db cl b) = None"
proof -
  have m: "mediaDevicesSupported (media e)" "secureOrigin (media e)"
      "getUserMediaError (media e) = None"
    and rej: "\<forall>op. rejected e op = None"
    using env by (simp_all add: cooperative_def)
  from initializeLocalStream_ok [OF m, of "callKind (snd inc) = VoiceCall" svc b] obtain ts b1 where
    i: "initializeLocalStream (media e) (callKind (snd inc) = VoiceCall) svc b
          = (Inr ts, svc\<lparr>localStream := Some ts\<rparr>, b1)"
    by blast
  have ao: "answerOffer e (uid u) cid db (setCallId cid (svc\<lparr>localStream := Some ts\<rparr>)) b1
              = (None, db, setCallId cid (svc\<lparr>localStream := Some ts\<rparr>), b1)"
    using rej no by (simp add: answerOffer_def getOfferDoc_def)
  have gu: "\<And>ids db2. getUserDocs (rejected e) ids db2 = Inr (map (users db2) ids)"
    using rej by (simp add: getUserDocs_ok)
  show ?thesis
    using u svc inc i ao d rej
    by (simp add: answerCall_def updateCallDoc_def gu outcome_def)
qed

text \<open>
  C5 (as amended).  \<open>endCall\<close> and \<open>answerCall\<close> do not look at the status of the session
  and never fail with a session-closed error.  Whatever the status was, terminal or not,
  an accepted \<open>endCall\<close> writes the status ended and the time of ending.  The exception
  raised by \<open>answerCall\<close>, if any, the provider state and the page it leaves are the same
  for every status that the session may have; an \<open>answerCall\<close> that completes writes the
  status active and the time of starting; and in a cooperative environment an
  \<open>answerCall\<close> on a session without an offer to the local user completes.
\<close>

theorem terminal_status_is_not_checked:
  "(\<forall>svc d. cs_callId (callState cl) = Some cid \<and> cid \<noteq> [] \<and> webRTCService cl = Some svc
        \<and> calls db cid = Some d \<and> rejected e (WriteCall cid) = None \<longrightarrow>
      outcome (endCall e db cl b) = None
    \<and> calls (dbOf (endCall e db cl b)) cid
        = Some (d\<lparr>status := Ended, endedAt := Some (now e)\<rparr>))
   \<and> (\<forall>d s. calls db aid = Some d \<longrightarrow>
        outcome (answerCall e aid (db\<lparr>calls := (calls db)(aid \<mapsto> d\<lparr>status := s\<rparr>)\<rparr>) cl b)
          = outcome (answerCall e aid db cl b)
      \<and> clientOf (answerCall e aid (db\<lparr>calls := (calls db)(aid \<mapsto> d\<lparr>status := s\<rparr>)\<rparr>) cl b)
          = clientOf (answerCall e aid db cl b)
      \<and> browserOf (answerCall e aid (db\<lparr>calls := (calls db)(aid \<mapsto> d\<lparr>status := s\<rparr>)\<rparr>) cl b)
          = browserOf (answerCall e aid db cl b))
   \<and> (\<forall>u svc inc d. user cl = Some u \<and> webRTCService cl = Some svc
        \<and> incomingCall cl = Some inc \<and> calls db aid = Some d
        \<and> outcome (answerCall e aid db cl b) = None \<longrightarrow>
      calls (dbOf (answerCall e aid db cl b)) aid
        = Some (d\<lparr>status := Active, startedAt := Some (now e)\<rparr>))
   \<and> (\<forall>u svc inc d. cooperative e \<and> user cl = Some u \<and> webRTCService cl = Some svc
        \<and> incomingCall cl = Some inc \<and> calls db aid = Some d
        \<and> offers db (aid, uid u) = None \<longrightarrow>
      outcome (answerCall e aid db cl b) = None)"
proof (intro conjI allI impI)
  fix svc d
  assume "cs_callId (callState cl) = Some cid \<and> cid \<noteq> [] \<and> webRTCService cl = Some svc
        \<and> calls db cid = Some d \<and> rejected e (WriteCall cid) = None"
  then have "outcome (endCall e db cl b) = None
    \<and> calls (dbOf (endCall e db cl b)) cid
        = Some (d\<lparr>status := Ended, endedAt := Some (now e)\<rparr>)"
    using endCall_written [of cl cid svc db d e b] by blast
  then show "outcome (endCall e db cl b) = None"
    and "calls (dbOf (endCall e db cl b)) cid
        = Some (d\<lparr>status := Ended, endedAt := Some (now e)\<rparr>)"
    by blast+
next
  fix d s
  assume d: "calls db aid = Some d"
  note i = answerCall_other_status [OF d, of e s cl b]
  show "outcome (answerCall e aid (db\<lparr>calls := (calls db)(aid \<mapsto> d\<lparr>status := s\<rparr>)\<rparr>) cl b)
          = outcome (answerCall e aid db cl b)"
    using i by blast
  show "clientOf (answerCall e aid (db\<lparr>calls := (calls db)(aid \<mapsto> d\<lparr>status := s\<rparr>)\<rparr>) cl b)
          = clientOf (answerCall e aid db cl b)"
    using i by blast
  show "browserOf (answerCall e aid (db\<lparr>calls := (calls db)(aid \<mapsto> d\<lparr>status := s\<rparr>)\<rparr>) cl b)
          = browserOf (answerCall e aid db cl b)"
    using i by blast
next
  fix u svc inc d
  assume "user cl = Some u \<and> webRTCService cl = Some svc
        \<and> incomingCall cl = Some inc \<and> calls db aid = Some d
        \<and> outcome (answerCall e aid db cl b) = None"
  then show "calls (dbOf (answerCall e aid db cl b)) aid
        = Some (d\<lparr>status := Active, startedAt := Some (now e)\<rparr>)"
    using answerCall_written [of cl u svc inc db aid d e b] by blast
next
  fix u svc inc d
  assume "cooperative e \<and> user cl = Some u \<and> webRTCService cl = Some svc
        \<and> incomingCall cl = Some inc \<and> calls db aid = Some d
        \<and> offers db (aid, uid u) = None"
  then show "outcome (answerCall e aid db cl b) = None"
    using answerCall_without_offer [of e cl u svc inc db aid d b] by blast
qed

lemma ringing_facts:
  "user ringingClient = Some bob"
  "webRTCService ringingClient = Some (newWebRTCService ''bob'')"
  "incomingCall ringingClient = Some (''call1'', call1\<lparr>status := Ringing, startedAt := None\<rparr>)"
  "offers (dbWith d) (''call1'', uid bob) = None"
  "cooperative env0"
  "status endedCall = Ended" "status missedCall = Missed"
  by (simp_all add: ringingClient_def client0_def bob_def dbWith_def db0_def
      endedCall_def missedCall_def cooperative_def env0_def)

theorem terminal_status_is_not_checked_witness:
  "cs_callId (callState inCallClient) = Some ''call1'' \<and> ''call1'' \<noteq> []
   \<and> webRTCService inCallClient
       = Some (linkedService\<lparr>localStream := Some [0], callId := Some ''call1''\<rparr>)
   \<and> calls (dbWith missedCall) ''call1'' = Some missedCall
   \<and> rejected env0 (WriteCall ''call1'') = None
   \<and> status missedCall = Missed
   \<and> outcome (endCall env0 (dbWith missedCall) inCallClient inCallBrowser) = None
   \<and> calls (dbOf (endCall env0 (dbWith missedCall) inCallClient inCallBrowser)) ''call1''
       = Some (missedCall\<lparr>status := Ended, endedAt := Some 100\<rparr>)
   \<and> cooperative env0
   \<and> user ringingClient = Some bob
   \<and> webRTCService ringingClient = Some (newWebRTCService ''bob'')
   \<and> incomingCall ringingClient = Some (''call1'', call1\<lparr>status := Ringing, startedAt := None\<rparr>)
   \<and> calls (dbWith endedCall) ''call1'' = Some endedCall
   \<and> offers (dbWith endedCall) (''call1'', uid bob) = None
   \<and> status endedCall = Ended
   \<and> outcome (answerCall env0 ''call1'' (dbWith endedCall) ringingClient browser0) = None
   \<and> calls (dbOf (answerCall env0 ''call1'' (dbWith endedCall) ringingClient browser0)) ''call1''
       = Some (endedCall\<lparr>status := Active, startedAt := Some 100\<rparr>)
   \<and> outcome (answerCall env0 ''call1''
        ((dbWith endedCall)\<lparr>calls := (calls (dbWith endedCall))
                                       (''call1'' \<mapsto> endedCall\<lparr>status := Ringing\<rparr>)\<rparr>)
        ringingClient browser0) = None
   \<and> clientOf (answerCall env0 ''call1''
        ((dbWith endedCall)\<lparr>calls := (calls (dbWith endedCall))
                                       (''call1'' \<mapsto> endedCall\<lparr>status := Ringing\<rparr>)\<rparr>)
        ringingClient browser0)
       = clientOf (answerCall env0 ''call1'' (dbWith endedCall) ringingClient browser0)
   \<and> browserOf (answerCall env0 ''call1''
        ((dbWith endedCall)\<lparr>calls := (calls (dbWith endedCall))
                                       (''call1'' \<mapsto> endedCall\<lparr>status := Ringing\<rparr>)\<rparr>)
        ringingClient browser0)
       = browserOf (answerCall env0 ''call1'' (dbWith endedCall) ringingClient browser0)"
proof -
  note t = terminal_status_is_not_checked [where cl = ringingClient and aid = "''call1''"
        and db = "dbWith endedCall" and e = env0 and b = browser0]
  have o: "outcome (answerCall env0 ''call1'' (dbWith endedCall) ringingClient browser0) = None"
    using t ringing_facts inCall_facts(4) by blast
  have w: "calls (dbOf (answerCall env0 ''call1'' (dbWith endedCall) ringingClient browser0)) ''call1''
       = Some (endedCall\<lparr>status := Active, startedAt := Some (now env0)\<rparr>)"
    using t o ringing_facts(1-3) inCall_facts(4) by blast
  let ?r = "answerCall env0 ''call1''
        ((dbWith endedCall)\<lparr>calls := (calls (dbWith endedCall))
                                       (''call1'' \<mapsto> endedCall\<lparr>status := Ringing\<rparr>)\<rparr>)
        ringingClient browser0"
  let ?q = "answerCall env0 ''call1'' (dbWith endedCall) ringingClient browser0"
  have i: "outcome ?r = outcome ?q \<and> clientOf ?r = clientOf ?q \<and> browserOf ?r = browserOf ?q"
    using t inCall_facts(4) by blast
  show ?thesis
    using o w i ringing_facts
      terminal_status_is_not_checked [where cl = inCallClient and cid = "''call1''"
        and db = "dbWith missedCall" and e = env0 and b = inCallBrowser]
    by (simp add: inCall_facts)
qed

text \<open>
  C5 as stated fails: \<open>endCall\<close> on a missed session and \<open>answerCall\<close> on an ended session
  both complete without error and change the status of the session.
\<close>

theorem terminal_session_is_mutated:
  "map_option status (calls (dbWith missedCall) ''call1'') = Some Missed
   \<and> outcome (endCall env0 (dbWith missedCall) inCallClient inCallBrowser) = None
   \<and> map_option status
       (calls (dbOf (endCall env0 (dbWith missedCall) inCallClient inCallBrowser)) ''call1'')
       = Some Ended
   \<and> map_option status (calls (dbWith endedCall) ''call1'') = Some Ended
   \<and> outcome (answerCall env0 ''call1'' (dbWith endedCall) ringingClient browser0) = None
   \<and> map_option status
       (calls (dbOf (answerCall env0 ''call1'' (dbWith endedCall) ringingClient browser0))
          ''call1'')
       = Some Active"
proof -
  have ne: "''call1'' \<noteq> []" by simp
  have e: "outcome (endCall env0 (dbWith missedCall) inCallClient inCallBrowser) = None
       \<and> calls (dbOf (endCall env0 (dbWith missedCall) inCallClient inCallBrowser)) ''call1''
           = Some (missedCall\<lparr>status := Ended, endedAt := Some (now env0)\<rparr>)"
    by (rule endCall_written [OF inCall_facts(1) ne inCall_facts(2) inCall_facts(4)
          inCall_facts(5)])
  have o: "outcome (answerCall env0 ''call1'' (dbWith endedCall) ringingClient browser0) = None"
    by (rule answerCall_without_offer [OF ringing_facts(5) ringing_facts(1) ringing_facts(2)
          ringing_facts(3) inCall_facts(4) ringing_facts(4)])
  have a: "calls (dbOf (answerCall env0 ''call1'' (dbWith endedCall) ringingClient browser0))
             ''call1'' = Some (endedCall\<lparr>status := Active, startedAt := Some (now env0)\<rparr>)"
    by (rule answerCall_written [OF ringing_facts(1) ringing_facts(2) ringing_facts(3)
          inCall_facts(4) o])
  show ?thesis
    using e a o
    by (simp add: inCall_facts ringing_facts)
qed


section \<open>The invariant of session records\<close>

lemma setOfferDoc_calls: "setOfferDoc rej cid r d db = Inr db1 \<Longrightarrow> calls db1 = calls db"
  by (auto simp add: setOfferDoc_def split: option.splits)

lemma publishOffers_calls:
  "calls (fst (snd (publishOffers e me cid rs db svc b))) = calls db"
proof (induction rs arbitrary: db svc b)
  case Nil
  show ?case by simp
next
  case (Cons r rs)
  obtain res svc1 b1 where c: "createOffer (sdpGen e) r svc b = (res, svc1, b1)"
    by (cases "createOffer (sdpGen e) r svc b") auto
  show ?case
    by (auto simp add: c Cons.IH Let_def setOfferDoc_calls split: sum.split)
qed

lemma newCallDoc_invariant:
  assumes "rs \<noteq> []" and "length rs + 1 \<le> 5"
  shows "sessionInvariant (newCallDoc e u rs ty)"
  using assms by (cases rs) (auto simp add: sessionInvariant_def newCallDoc_def Let_def)

lemma setCallDoc_cases:
  assumes "setCallDoc rej ign cid d db = Inr db1"
  shows "db1 = db\<lparr>calls := (calls db)(cid \<mapsto> d)\<rparr> \<and> (receiverId d \<noteq> Undefined \<or> ign)"
  using assms by (auto simp add: setCallDoc_def split: if_splits option.splits)

lemma newCallDoc_receiverId:
  "receiverId (newCallDoc e u rs ty) = Undefined \<longleftrightarrow> rs = []"
  by (cases rs) (auto simp add: newCallDoc_def Let_def)

lemma startCall_calls:
  "calls (dbOf (startCall e rs ty db cl b)) = calls db
   \<or> (\<exists>u. user cl = Some u \<and> length rs + 1 \<le> 5 \<and> (rs \<noteq> [] \<or> ignoreUndefinedProperties e)
         \<and> calls (dbOf (startCall e rs ty db cl b))
             = (calls db)(newDocId e \<mapsto> newCallDoc e u rs ty))"
proof (cases "user cl")
  case None
  then show ?thesis by (simp add: startCall_def dbOf_def)
next
  case (Some u)
  note u = this
  show ?thesis
  proof (cases "webRTCService cl")
    case None
    then show ?thesis by (simp add: startCall_def dbOf_def u)
  next
    case (Some svc)
    note svc = this
    show ?thesis
    proof (cases "length rs + 1 \<le> 5")
      case False
      then show ?thesis by (simp add: startCall_def dbOf_def u svc MAX_PARTICIPANTS_def)
    next
      case True
      note len = this
      obtain res1 svc1 b1 where m:
        "initializeLocalStream (media e) (ty = VoiceCall) svc b = (res1, svc1, b1)"
        by (cases "initializeLocalStream (media e) (ty = VoiceCall) svc b") auto
      show ?thesis
      proof (cases res1)
        case (Inl err)
        then show ?thesis
          using u svc len m
          by (simp add: startCall_def MAX_PARTICIPANTS_def startCallCatch_def dbOf_def)
      next
        case (Inr stream1)
        note r1 = this
        show ?thesis
        proof (cases "setCallDoc (rejected e) (ignoreUndefinedProperties e) (newDocId e)
                        (newCallDoc e u rs ty) db")
          case (Inl err)
          then show ?thesis
            using u svc len m r1
            by (simp add: startCall_def MAX_PARTICIPANTS_def startCallCatch_def dbOf_def Let_def)
        next
          case (Inr db1)
          note r2 = this
          from setCallDoc_cases [OF r2]
          have d1: "calls db1 = (calls db)(newDocId e \<mapsto> newCallDoc e u rs ty)"
            and ne: "rs \<noteq> [] \<or> ignoreUndefinedProperties e"
            by (auto simp add: newCallDoc_receiverId)
          obtain po db2 svc2 b2 where p1:
            "publishOffers e (uid u) (newDocId e) rs db1 (setCallId (newDocId e) svc1) b1
               = (po, db2, svc2, b2)"
            by (cases "publishOffers e (uid u) (newDocId e) rs db1 (setCallId (newDocId e) svc1) b1")
              auto
          have d2: "calls db2 = calls db1"
            using publishOffers_calls
              [of e "uid u" "newDocId e" rs db1 "setCallId (newDocId e) svc1" b1] p1
            by simp
          have "calls (dbOf (startCall e rs ty db cl b)) = calls db2"
            using u svc len m r1 r2 p1
            by (simp add: startCall_def MAX_PARTICIPANTS_def startCallCatch_def dbOf_def Let_def
                split: option.split sum.split)
          then show ?thesis using d1 d2 u len ne by simp
        qed
      qed
    qed
  qed
qed

lemma updateCallDoc_allSessions:
  assumes "updateCallDoc rej cid f db = Inr db1"
    and "allSessions sessionInvariant db"
    and "\<And>d. participants (f d) = participants d \<and> isGroupCall (f d) = isGroupCall d"
  shows "allSessions sessionInvariant db1"
proof -
  from assms(1) obtain d where d: "calls db cid = Some d"
    and db1: "db1 = db\<lparr>calls := (calls db)(cid \<mapsto> f d)\<rparr>"
    by (auto simp add: updateCallDoc_def split: option.splits)
  have "sessionInvariant d" using assms(2) d by (simp add: allSessions_def)
  then have "sessionInvariant (f d)" using assms(3) by (simp add: sessionInvariant_def)
  moreover have old: "\<And>k d. calls db k = Some d \<Longrightarrow> sessionInvariant d"
    using assms(2) unfolding allSessions_def by blast
  ultimately show ?thesis
    unfolding allSessions_def db1 by (auto split: if_splits)
qed

lemma startCall_allSessions:
  assumes "allSessions sessionInvariant db" and "rs \<noteq> [] \<or> \<not> ignoreUndefinedProperties e"
  shows "allSessions sessionInvariant (dbOf (startCall e rs ty db cl b))"
proof -
  from startCall_calls [of e rs ty db cl b]
  show ?thesis
  proof
    assume "calls (dbOf (startCall e rs ty db cl b)) = calls db"
    then show ?thesis using assms(1) unfolding allSessions_def by simp
  next
    assume "\<exists>u. user cl = Some u \<and> length rs + 1 \<le> 5 \<and> (rs \<noteq> [] \<or> ignoreUndefinedProperties e)
         \<and> calls (dbOf (startCall e rs ty db cl b))
             = (calls db)(newDocId e \<mapsto> newCallDoc e u rs ty)"
    then obtain u where len: "length rs + 1 \<le> 5" and ne: "rs \<noteq> [] \<or> ignoreUndefinedProperties e"
      and c: "calls (dbOf (startCall e rs ty db cl b))
             = (calls db)(newDocId e \<mapsto> newCallDoc e u rs ty)"
      by blast
    from ne assms(2) have "rs \<noteq> []" by blast
    from newCallDoc_invariant [OF this len, of e u ty]
    have inv: "sessionInvariant (newCallDoc e u rs ty)" .
    have old: "\<And>k d. calls db k = Some d \<Longrightarrow> sessionInvariant d"
      using assms(1) unfolding allSessions_def by blast
    show ?thesis
      unfolding allSessions_def
    proof (intro allI impI)
      fix k d
      assume "calls (dbOf (startCall e rs ty db cl b)) k = Some d"
      then have "d = newCallDoc e u rs ty \<or> calls db k = Some d"
        unfolding c by (cases "k = newDocId e") simp_all
      then show "sessionInvariant d" using inv old by blast
    qed
  qed
qed

lemma endCall_allSessions:
  assumes "allSessions sessionInvariant db"
  shows "allSessions sessionInvariant (dbOf (endCall e db cl b))"
proof (cases "\<exists>cid svc db1. cs_callId (callState cl) = Some cid \<and> webRTCService cl = Some svc
          \<and> cid \<noteq> []
          \<and> updateCallDoc (rejected e) cid (\<lambda>d. d\<lparr>status := Ended, endedAt := Some (now e)\<rparr>) db
              = Inr db1")
  case True
  then obtain cid svc db1 where h: "cs_callId (callState cl) = Some cid"
      "webRTCService cl = Some svc" "cid \<noteq> []"
      "updateCallDoc (rejected e) cid (\<lambda>d. d\<lparr>status := Ended, endedAt := Some (now e)\<rparr>) db
         = Inr db1"
    by blast
  have "dbOf (endCall e db cl b) = db1"
    using h by (simp add: endCall_def dbOf_def case_prod_beta)
  moreover have "allSessions sessionInvariant db1"
    by (rule updateCallDoc_allSessions [OF h(4) assms]) simp
  ultimately show ?thesis by simp
next
  case False
  then have "dbOf (endCall e db cl b) = db"
    by (cases "cs_callId (callState cl)"; cases "webRTCService cl";
        cases "updateCallDoc (rejected e) (the (cs_callId (callState cl)))
                 (\<lambda>d. d\<lparr>status := Ended, endedAt := Some (now e)\<rparr>) db")
      (simp_all add: endCall_def dbOf_def)
  then show ?thesis using assms by simp
qed

lemma declineCall_allSessions:
  assumes "allSessions sessionInvariant db"
  shows "allSessions sessionInvariant (dbOf (declineCall e db cl b))"
proof (cases "incomingCall cl")
  case None
  then show ?thesis using assms by (simp add: declineCall_def dbOf_def)
next
  case (Some inc)
  show ?thesis
  proof (cases "updateCallDoc (rejected e) (fst inc)
                  (\<lambda>d. d\<lparr>status := Missed, endedAt := Some (now e)\<rparr>) db")
    case (Inl err)
    then show ?thesis using assms Some by (simp add: declineCall_def dbOf_def)
  next
    case (Inr db1)
    have "allSessions sessionInvariant db1"
      by (rule updateCallDoc_allSessions [OF Inr assms]) simp
    then show ?thesis using Some Inr by (simp add: declineCall_def dbOf_def)
  qed
qed

lemma ringTimerFired_allSessions:
  assumes "allSessions sessionInvariant db"
  shows "allSessions sessionInvariant (fst (ringTimerFired rej cid t db b))"
proof (cases "updateCallDoc rej cid (\<lambda>d. d\<lparr>status := Active, startedAt := Some t\<rparr>) db")
  case (Inl err)
  then show ?thesis using assms by (simp add: ringTimerFired_def)
next
  case (Inr db1)
  have "allSessions sessionInvariant db1"
    by (rule updateCallDoc_allSessions [OF Inr assms]) simp
  then show ?thesis using Inr by (simp add: ringTimerFired_def)
qed

lemma answerCall_allSessions:
  assumes "allSessions sessionInvariant db"
  shows "allSessions sessionInvariant (dbOf (answerCall e cid db cl b))"
proof (cases "user cl")
  case None
  then show ?thesis using assms by (simp add: answerCall_def dbOf_def)
next
  case (Some u)
  note u = this
  show ?thesis
  proof (cases "webRTCService cl")
    case None
    then show ?thesis using assms by (simp add: answerCall_def dbOf_def u)
  next
    case (Some svc)
    note svc = this
    show ?thesis
    proof (cases "incomingCall cl")
      case None
      then show ?thesis using assms by (simp add: answerCall_def dbOf_def u svc)
    next
      case (Some inc)
      note inc = this
      obtain res1 svc1 b1 where m:
        "initializeLocalStream (media e) (callKind (snd inc) = VoiceCall) svc b = (res1, svc1, b1)"
        by (cases "initializeLocalStream (media e) (callKind (snd inc) = VoiceCall) svc b") auto
      obtain po db1 svc3 b2 where a:
        "answerOffer e (uid u) cid db (setCallId cid svc1) b1 = (po, db1, svc3, b2)"
        by (cases "answerOffer e (uid u) cid db (setCallId cid svc1) b1") auto
      have c1: "calls db1 = calls db"
        using answerOffer_calls [of e "uid u" cid db "setCallId cid svc1" b1] a by simp
      then have i1: "allSessions sessionInvariant db1"
        using assms unfolding allSessions_def by simp
      show ?thesis
      proof (cases "updateCallDoc (rejected e) cid
                      (\<lambda>d. d\<lparr>status := Active, startedAt := Some (now e)\<rparr>) db1")
        case (Inl err)
        then show ?thesis
          using u svc inc m a assms i1
          by (cases res1; cases po) (simp_all add: answerCall_def answerCallCatch_def dbOf_def)
      next
        case (Inr db2)
        have i2: "allSessions sessionInvariant db2"
          by (rule updateCallDoc_allSessions [OF Inr i1]) simp
        show ?thesis
          using u svc inc m a assms i1 i2 Inr
          by (cases res1; cases po;
              cases "getUserDocs (rejected e)
                       (filter (\<lambda>i. i \<noteq> uid u) (participants (snd inc))) db2")
            (simp_all add: answerCall_def answerCallCatch_def dbOf_def)
      qed
    qed
  qed
qed

text \<open>
  C8 (as amended).  The record that \<open>startCall\<close> creates for a non-empty receiver list
  holds the participants array: the caller followed by the receivers as they were given,
  duplicates included.  The array has between two and five entries and \<open>isGroupCall\<close>
  holds exactly when it has more than two; its length is the number of distinct
  participants when the receivers are pairwise distinct and differ from the caller.
  Every operation of the call core preserves this invariant for all session records:
  \<open>startCall\<close> (for a non-empty receiver list, or when Firestore rejects undefined fields),
  \<open>answerCall\<close>, \<open>declineCall\<close>, \<open>endCall\<close> and the ring timer.
\<close>

theorem session_invariant:
  "(\<forall>u svc d. user cl = Some u \<and> webRTCService cl = Some svc \<and> rs \<noteq> []
        \<and> calls db (newDocId e) = None
        \<and> calls (dbOf (startCall e rs ty db cl b)) (newDocId e) = Some d \<longrightarrow>
      participants d = uid u # rs \<and> sessionInvariant d
    \<and> (distinct (uid u # rs) \<longrightarrow> card (set (participants d)) = length (participants d)))
   \<and> (allSessions sessionInvariant db \<and> (rs \<noteq> [] \<or> \<not> ignoreUndefinedProperties e) \<longrightarrow>
        allSessions sessionInvariant (dbOf (startCall e rs ty db cl b)))
   \<and> (allSessions sessionInvariant db \<longrightarrow>
        allSessions sessionInvariant (dbOf (answerCall e cid db cl b))
      \<and> allSessions sessionInvariant (dbOf (declineCall e db cl b))
      \<and> allSessions sessionInvariant (dbOf (endCall e db cl b))
      \<and> allSessions sessionInvariant (fst (ringTimerFired rej cid t db b)))"
proof (intro conjI allI impI)
  fix u svc d
  assume a: "user cl = Some u \<and> webRTCService cl = Some svc \<and> rs \<noteq> []
        \<and> calls db (newDocId e) = None
        \<and> calls (dbOf (startCall e rs ty db cl b)) (newDocId e) = Some d"
  from startCall_calls [of e rs ty db cl b] a
  have len: "length rs + 1 \<le> 5" and d: "d = newCallDoc e u rs ty"
    by auto
  have p: "participants d = uid u # rs"
    by (simp add: d newCallDoc_def Let_def)
  show "participants d = uid u # rs" by (rule p)
  show "sessionInvariant d"
    using a len newCallDoc_invariant [of rs e u ty] d by simp
  assume "distinct (uid u # rs)"
  then show "card (set (participants d)) = length (participants d)"
    unfolding p by (rule distinct_card)
next
  assume "allSessions sessionInvariant db \<and> (rs \<noteq> [] \<or> \<not> ignoreUndefinedProperties e)"
  then show "allSessions sessionInvariant (dbOf (startCall e rs ty db cl b))"
    using startCall_allSessions by blast
next
  assume "allSessions sessionInvariant db"
  then show "allSessions sessionInvariant (dbOf (answerCall e cid db cl b))"
    by (rule answerCall_allSessions)
next
  assume "allSessions sessionInvariant db"
  then show "allSessions sessionInvariant (dbOf (declineCall e db cl b))"
    by (rule declineCall_allSessions)
next
  assume "allSessions sessionInvariant db"
  then show "allSessions sessionInvariant (dbOf (endCall e db cl b))"
    by (rule endCall_allSessions)
next
  assume "allSessions sessionInvariant db"
  then show "allSessions sessionInvariant (fst (ringTimerFired rej cid t db b))"
    by (rule ringTimerFired_allSessions)
qed

theorem session_invariant_witness:
  "user (client0 alice) = Some alice
   \<and> webRTCService (client0 alice) = Some (newWebRTCService ''alice'')
   \<and> [''bob''] \<noteq> []
   \<and> calls db0 (newDocId env0) = None
   \<and> calls (dbOf (startCall env0 [''bob''] VoiceCall db0 (client0 alice) browser0)) (newDocId env0)
       = Some (newCallDoc env0 alice [''bob''] VoiceCall)
   \<and> participants (newCallDoc env0 alice [''bob''] VoiceCall) = [''alice'', ''bob'']
   \<and> sessionInvariant (newCallDoc env0 alice [''bob''] VoiceCall)
   \<and> distinct (uid alice # [''bob''])
   \<and> card (set (participants (newCallDoc env0 alice [''bob''] VoiceCall))) = 2
   \<and> allSessions sessionInvariant db0
   \<and> allSessions sessionInvariant
        (dbOf (startCall env0 [''bob''] VoiceCall db0 (client0 alice) browser0))
   \<and> allSessions sessionInvariant (dbWith call1)
   \<and> allSessions sessionInvariant (dbOf (endCall env0 (dbWith call1) inCallClient inCallBrowser))
   \<and> allSessions sessionInvariant
        (fst (ringTimerFired (rejected env0) ''call1'' 102 (dbWith call1) browser0))"
proof -
  have a: "user (client0 alice) = Some alice"
    "webRTCService (client0 alice) = Some (newWebRTCService ''alice'')"
    "calls db0 (newDocId env0) = None" "uid alice = ''alice''" "newDocId env0 = ''call1''"
    by (simp_all add: client0_def alice_def db0_def env0_def)
  have c: "calls (dbOf (startCall env0 [''bob''] VoiceCall db0 (client0 alice) browser0)) ''call1''
       = Some (newCallDoc env0 alice [''bob''] VoiceCall)"
    using aliceCalling_facts(3) by (simp add: aliceCalling_def)
  have i0: "allSessions sessionInvariant db0"
    by (simp add: allSessions_def db0_def)
  have i1: "allSessions sessionInvariant (dbWith call1)"
    by (simp add: allSessions_def dbWith_def db0_def sessionInvariant_def call1_def)
  show ?thesis
    using a c i0 i1
      session_invariant [where cl = "client0 alice" and rs = "[''bob'']" and e = env0
        and ty = VoiceCall and db = db0 and b = browser0]
      session_invariant [where cl = inCallClient and db = "dbWith call1" and e = env0
        and b = inCallBrowser]
      session_invariant [where db = "dbWith call1" and rej = "rejected env0"
        and cid = "''call1''" and t = 102 and b = browser0]
    by simp
qed

text \<open>
  C8 as stated fails for the set of distinct participants: a receiver named twice is
  stored twice, so a call between two distinct users is recorded as a group call.
\<close>

theorem duplicate_receiver_is_counted_twice:
  "outcome (startCall env0 [''bob'', ''bob''] VideoCall db0 (client0 alice) browser0) = None
   \<and> map_option participants
       (calls (dbOf (startCall env0 [''bob'', ''bob''] VideoCall db0 (client0 alice) browser0))
          ''call1'') = Some [''alice'', ''bob'', ''bob'']
   \<and> map_option isGroupCall
       (calls (dbOf (startCall env0 [''bob'', ''bob''] VideoCall db0 (client0 alice) browser0))
          ''call1'') = Some True
   \<and> card (set [''alice'', ''bob'', ''bob'']) = 2"
  by (simp add: run_defs)


section \<open>The topology of a call\<close>

lemma console_write_fields:
  "pcs (console_write l m b) = pcs b"
  "nextPc (console_write l m b) = nextPc b"
  "trackStore (console_write l m b) = trackStore b"
  by (simp_all add: console_write_def)

lemma pc_update_fields:
  "pcs (pc_update p c b) = (pcs b)(p := c)"
  "nextPc (pc_update p c b) = nextPc b"
  "trackStore (pc_update p c b) = trackStore b"
  by (simp_all add: pc_update_def)

lemma update_fresh_key:
  "k \<notin> fst ` set al \<Longrightarrow> AList.update k v al = al @ [(k, v)]"
  by (induction al) auto

lemma map_of_None_keys: "map_of al k = None \<longleftrightarrow> k \<notin> fst ` set al"
  by (simp add: map_of_eq_None_iff)

lemma createOffer_existing:
  assumes I: "linksNegotiable svc b"
    and l: "map_of (peerConnections svc) r = Some link"
  shows "\<exists>offer b1. createOffer gen r svc b = (Inr offer, svc, b1)
           \<and> sdpType offer = Offer \<and> linksNegotiable svc b1 \<and> nextPc b1 = nextPc b"
proof -
  let ?p = "connection link"
  let ?c = "pcs b ?p"
  have m: "(r, link) \<in> set (peerConnections svc)"
    using l by (rule map_of_SomeD)
  then have st: "signalingState ?c = Stable \<or> signalingState ?c = HaveLocalOffer"
    and cs: "connectionState ?c \<noteq> ConnClosed"
    using I unfolding linksNegotiable_def by force+
  let ?offer = "\<lparr>sdpType = Offer, sdp = gen ?c\<rparr>"
  let ?c' = "?c\<lparr>pendingLocalDescription := Some ?offer, signalingState := HaveLocalOffer\<rparr>"
  let ?b0 = "console_write LOG (''Using existing peer connection for '' @ r) b"
  let ?b1 = "pc_update ?p ?c' ?b0"
  have cp: "createPeerConnection r svc b = (?p, svc, ?b0)"
    using l cs by (simp add: createPeerConnection_def)
  have co: "createOffer gen r svc b = (Inr ?offer, svc, ?b1)"
    using st
    by (auto simp add: createOffer_def cp console_write_fields pc_createOffer_def
        pc_setLocalDescription_def)
  have "linksNegotiable svc ?b1"
    using I cs unfolding linksNegotiable_def
    by (auto simp add: pc_update_fields console_write_fields)
  moreover have "nextPc ?b1 = nextPc b" by (simp add: pc_update_fields console_write_fields)
  ultimately show ?thesis using co by simp
qed

lemma createOffer_fresh:
  assumes I: "linksNegotiable svc b"
    and l: "map_of (peerConnections svc) r = None"
  shows "\<exists>offer svc1 b1. createOffer gen r svc b = (Inr offer, svc1, b1)
           \<and> sdpType offer = Offer \<and> linksNegotiable svc1 b1 \<and> nextPc b1 = Suc (nextPc b)
           \<and> map fst (peerConnections svc1) = map fst (peerConnections svc) @ [r]"
proof -
  let ?p = "nextPc b"
  let ?svc1 = "svc\<lparr>peerConnections := AList.update r \<lparr>peerUserId = r, connection = ?p, stream = None\<rparr>
                                  (peerConnections svc)\<rparr>"
  from constructPeerConnection_result [of r svc b] obtain ss b0 where
    c: "constructPeerConnection r svc b = (?p, ?svc1, b0)"
    and r: "pcs b0 = (pcs b)(?p := newRTCPeerConnection\<lparr>senders := ss\<rparr>)"
       "nextPc b0 = Suc ?p"
    by blast
  let ?c = "newRTCPeerConnection\<lparr>senders := ss\<rparr>"
  let ?offer = "\<lparr>sdpType = Offer, sdp = gen ?c\<rparr>"
  let ?c' = "?c\<lparr>pendingLocalDescription := Some ?offer, signalingState := HaveLocalOffer\<rparr>"
  let ?b1 = "pc_update ?p ?c' b0"
  have cp: "createPeerConnection r svc b = (?p, ?svc1, b0)"
    using l c by (simp add: createPeerConnection_def)
  have co: "createOffer gen r svc b = (Inr ?offer, ?svc1, ?b1)"
    by (simp add: createOffer_def cp r pc_createOffer_def pc_setLocalDescription_def
        newRTCPeerConnection_def)
  have k: "r \<notin> fst ` set (peerConnections svc)"
    using l by (simp add: map_of_None_keys)
  have tbl: "peerConnections ?svc1
               = peerConnections svc @ [(r, \<lparr>peerUserId = r, connection = ?p, stream = None\<rparr>)]"
    using update_fresh_key [OF k] by simp
  have "linksNegotiable ?svc1 ?b1"
    using I unfolding linksNegotiable_def
    by (auto simp add: tbl pc_update_fields r newRTCPeerConnection_def)
  moreover have "nextPc ?b1 = Suc ?p" by (simp add: pc_update_fields r)
  moreover have "map fst (peerConnections ?svc1) = map fst (peerConnections svc) @ [r]"
    by (simp add: tbl)
  ultimately show ?thesis using co by simp
qed

lemma createOffer_ok:
  assumes I: "linksNegotiable svc b"
  shows "\<exists>offer svc1 b1. createOffer gen r svc b = (Inr offer, svc1, b1)
           \<and> sdpType offer = Offer \<and> linksNegotiable svc1 b1
           \<and> nextPc b1 = (if r \<in> fst ` set (peerConnections svc) then nextPc b
                           else Suc (nextPc b))
           \<and> map fst (peerConnections svc1)
               = (if r \<in> fst ` set (peerConnections svc) then map fst (peerConnections svc)
                  else map fst (peerConnections svc) @ [r])"
proof (cases "map_of (peerConnections svc) r")
  case None
  then have k: "r \<notin> fst ` set (peerConnections svc)" by (simp add: map_of_None_keys)
  from createOffer_fresh [OF I None, of gen] show ?thesis using k by auto
next
  case (Some link)
  then have k: "r \<in> fst ` set (peerConnections svc)"
    by (metis map_of_None_keys option.distinct(1))
  from createOffer_existing [OF I Some, of gen] show ?thesis using k by auto
qed

lemma card_step:
  assumes "finite A"
  shows "card (insert r A - K) = (if r \<in> K then 0 else 1) + card (A - insert r K)"
proof (cases "r \<in> K")
  case True
  then have "insert r A - K = A - K" "insert r K = K" by auto
  then show ?thesis using True by simp
next
  case False
  then have e: "insert r A - K = insert r (A - insert r K)" by auto
  have "r \<notin> A - insert r K" by simp
  moreover have "finite (A - insert r K)" using assms by simp
  ultimately have "card (insert r (A - insert r K)) = Suc (card (A - insert r K))"
    by (rule card_insert_disjoint [rotated])
  then show ?thesis using False e by simp
qed

lemma setupRemoteStreamListener_states:
  "signalingState (pcs (setupRemoteStreamListener r svc b) p) = signalingState (pcs b p)"
  "connectionState (pcs (setupRemoteStreamListener r svc b) p) = connectionState (pcs b p)"
  "nextPc (setupRemoteStreamListener r svc b) = nextPc b"
  by (simp_all add: setupRemoteStreamListener_def console_write_fields pc_update_fields
      split: option.split)

lemma setupRemoteStreamListener_negotiable:
  "linksNegotiable svc1 (setupRemoteStreamListener r svc b) = linksNegotiable svc1 b"
  unfolding linksNegotiable_def by (simp add: setupRemoteStreamListener_states)

lemma listenForCandidates_table:
  "peerConnections (listenForCandidates cid r svc) = peerConnections svc"
  by (simp add: listenForCandidates_def)

lemma linksNegotiable_table:
  "peerConnections svc1 = peerConnections svc \<Longrightarrow> linksNegotiable svc1 b = linksNegotiable svc b"
  by (simp add: linksNegotiable_def)

lemma publishOffers_ok:
  assumes rej: "\<forall>r. rejected e (WriteOffer cid r) = None"
  shows "linksNegotiable svc b \<Longrightarrow>
    \<exists>db2 svc2 b2. publishOffers e me cid rs db svc b = (None, db2, svc2, b2)
      \<and> linksNegotiable svc2 b2
      \<and> fst ` set (peerConnections svc2) = fst ` set (peerConnections svc) \<union> set rs
      \<and> (distinct (map fst (peerConnections svc)) \<longrightarrow> distinct (map fst (peerConnections svc2)))
      \<and> nextPc b2 = nextPc b + card (set rs - fst ` set (peerConnections svc))
      \<and> (\<forall>k. k \<notin> Pair cid ` set rs \<longrightarrow> offers db2 k = offers db k)
      \<and> (\<forall>r \<in> set rs. \<exists>d. offers db2 (cid, r) = Some d \<and> fromUserId d = me
              \<and> toUserId d = r \<and> sdpType (description d) = Offer)"
proof (induction rs arbitrary: db svc b)
  case Nil
  then show ?case by simp
next
  case (Cons r rs)
  let ?K = "fst ` set (peerConnections svc)"
  from createOffer_ok [OF Cons.prems, of "sdpGen e" r] obtain offer svc1 b1 where
    co: "createOffer (sdpGen e) r svc b = (Inr offer, svc1, b1)"
    and ty: "sdpType offer = Offer"
    and I1: "linksNegotiable svc1 b1"
    and n1: "nextPc b1 = (if r \<in> ?K then nextPc b else Suc (nextPc b))"
    and k1: "map fst (peerConnections svc1)
               = (if r \<in> ?K then map fst (peerConnections svc)
                  else map fst (peerConnections svc) @ [r])"
    by blast
  let ?doc = "\<lparr>description = offer, fromUserId = me, toUserId = r, timestamp = now e\<rparr>"
  let ?db1 = "db\<lparr>offers := (offers db)((cid, r) \<mapsto> ?doc)\<rparr>"
  let ?svc2 = "listenForCandidates cid r svc1"
  let ?b2 = "setupRemoteStreamListener r ?svc2 b1"
  have sd: "setOfferDoc (rejected e) cid r ?doc db = Inr ?db1"
    using rej by (simp add: setOfferDoc_def)
  have t2: "peerConnections ?svc2 = peerConnections svc1"
    by (rule listenForCandidates_table)
  have I2a: "linksNegotiable ?svc2 b1"
    using I1 linksNegotiable_table [OF t2] by simp
  have I2: "linksNegotiable ?svc2 ?b2"
    using I2a by (simp only: setupRemoteStreamListener_negotiable)
  have n2: "nextPc ?b2 = nextPc b1"
    by (rule setupRemoteStreamListener_states)
  from Cons.IH [OF I2, of ?db1] obtain db3 svc3 b3 where
    po: "publishOffers e me cid rs ?db1 ?svc2 ?b2 = (None, db3, svc3, b3)"
    and I3: "linksNegotiable svc3 b3"
    and k3: "fst ` set (peerConnections svc3) = fst ` set (peerConnections ?svc2) \<union> set rs"
    and d3: "distinct (map fst (peerConnections ?svc2)) \<longrightarrow> distinct (map fst (peerConnections svc3))"
    and n3: "nextPc b3 = nextPc ?b2 + card (set rs - fst ` set (peerConnections ?svc2))"
    and o3: "\<forall>k. k \<notin> Pair cid ` set rs \<longrightarrow> offers db3 k = offers ?db1 k"
    and f3: "\<forall>r \<in> set rs. \<exists>d. offers db3 (cid, r) = Some d \<and> fromUserId d = me
              \<and> toUserId d = r \<and> sdpType (description d) = Offer"
    by blast
  have keys1: "fst ` set (peerConnections svc1) = insert r ?K"
  proof -
    have "set (map fst (peerConnections svc1)) = insert r ?K"
      unfolding k1 by auto
    then show ?thesis by simp
  qed
  have res: "publishOffers e me cid (r # rs) db svc b = (None, db3, svc3, b3)"
    by (simp add: co sd po Let_def)
  have c1: "fst ` set (peerConnections svc3) = ?K \<union> set (r # rs)"
    using k3 keys1 by (simp add: t2)
  have c2: "distinct (map fst (peerConnections svc)) \<longrightarrow> distinct (map fst (peerConnections svc3))"
  proof
    assume "distinct (map fst (peerConnections svc))"
    then have "distinct (map fst (peerConnections svc1))"
      unfolding k1 by auto
    then show "distinct (map fst (peerConnections svc3))"
      using d3 by (simp add: t2)
  qed
  have c3: "nextPc b3 = nextPc b + card (set (r # rs) - ?K)"
  proof -
    have "card (set (r # rs) - ?K) = (if r \<in> ?K then 0 else 1) + card (set rs - insert r ?K)"
      using card_step [of "set rs" r ?K] by simp
    then show ?thesis
      using n3 n2 n1 keys1 by (simp add: t2)
  qed
  have c4: "\<forall>k. k \<notin> Pair cid ` set (r # rs) \<longrightarrow> offers db3 k = offers db k"
    using o3 by auto
  have c5: "\<forall>r' \<in> set (r # rs). \<exists>d. offers db3 (cid, r') = Some d \<and> fromUserId d = me
              \<and> toUserId d = r' \<and> sdpType (description d) = Offer"
  proof
    fix r' assume m: "r' \<in> set (r # rs)"
    show "\<exists>d. offers db3 (cid, r') = Some d \<and> fromUserId d = me
              \<and> toUserId d = r' \<and> sdpType (description d) = Offer"
    proof (cases "r' \<in> set rs")
      case True
      then show ?thesis using f3 by blast
    next
      case False
      then have e: "r' = r" using m by simp
      have "(cid, r) \<notin> Pair cid ` set rs" using False e by auto
      then have "offers db3 (cid, r) = offers ?db1 (cid, r)" using o3 by blast
      then show ?thesis using ty e by simp
    qed
  qed
  show ?case using res I3 c1 c2 c3 c4 c5 by blast
qed

lemma startCall_star:
  assumes env: "cooperative e"
    and u: "user cl = Some u" and svc: "webRTCService cl = Some svc"
    and empty: "peerConnections svc = []" and ne: "rs \<noteq> []" and len: "length rs \<le> 4"
  shows "outcome (startCall e rs ty db cl b) = None
       \<and> (\<exists>svc'. webRTCService (clientOf (startCall e rs ty db cl b)) = Some svc'
             \<and> fst ` set (peerConnections svc') = set rs
             \<and> distinct (map fst (peerConnections svc')))
       \<and> nextPc (browserOf (startCall e rs ty db cl b)) = nextPc b + card (set rs)
       \<and> (\<forall>k. k \<notin> Pair (newDocId e) ` set rs \<longrightarrow>
             offers (dbOf (startCall e rs ty db cl b)) k = offers db k)
       \<and> (\<forall>r \<in> set rs. \<exists>d. offers (dbOf (startCall e rs ty db cl b)) (newDocId e, r) = Some d
             \<and> fromUserId d = uid u \<and> toUserId d = r \<and> sdpType (description d) = Offer)"
proof -
  let ?cid = "newDocId e"
  have m: "mediaDevicesSupported (media e)" "secureOrigin (media e)"
      "getUserMediaError (media e) = None"
    and rej: "\<forall>op. rejected e op = None"
    using env by (simp_all add: cooperative_def)
  from initializeLocalStream_ok [OF m, of "ty = VoiceCall" svc b] obtain ts b1 where
    i: "initializeLocalStream (media e) (ty = VoiceCall) svc b
          = (Inr ts, svc\<lparr>localStream := Some ts\<rparr>, b1)"
    and f1: "pcs b1 = pcs b" "nextPc b1 = nextPc b"
    by blast
  let ?svc1 = "svc\<lparr>localStream := Some ts\<rparr>"
  let ?db1 = "db\<lparr>calls := (calls db)(?cid \<mapsto> newCallDoc e u rs ty)\<rparr>"
  have sc: "setCallDoc (rejected e) (ignoreUndefinedProperties e) ?cid (newCallDoc e u rs ty) db
              = Inr ?db1"
    using ne rej by (simp add: setCallDoc_def newCallDoc_receiverId)
  let ?svcA = "setCallId ?cid ?svc1"
  have tA: "peerConnections ?svcA = []" using empty by (simp add: setCallId_def)
  have IA: "linksNegotiable ?svcA b1" by (simp add: linksNegotiable_def tA)
  have rejO: "\<forall>r. rejected e (WriteOffer ?cid r) = None" using rej by simp
  from publishOffers_ok [OF rejO IA, of "uid u" rs ?db1] obtain db2 svc2 b2 where
    po: "publishOffers e (uid u) ?cid rs ?db1 ?svcA b1 = (None, db2, svc2, b2)"
    and k2: "fst ` set (peerConnections svc2) = fst ` set (peerConnections ?svcA) \<union> set rs"
    and d2: "distinct (map fst (peerConnections ?svcA)) \<longrightarrow> distinct (map fst (peerConnections svc2))"
    and n2: "nextPc b2 = nextPc b1 + card (set rs - fst ` set (peerConnections ?svcA))"
    and o2: "\<forall>k. k \<notin> Pair ?cid ` set rs \<longrightarrow> offers db2 k = offers ?db1 k"
    and g2: "\<forall>r \<in> set rs. \<exists>d. offers db2 (?cid, r) = Some d \<and> fromUserId d = uid u
              \<and> toUserId d = r \<and> sdpType (description d) = Offer"
    by blast
  have gu: "getUserDocs (rejected e) rs db2 = Inr (map (users db2) rs)"
    using rej by (simp add: getUserDocs_ok)
  have res: "startCall e rs ty db cl b
      = (None, db2,
         cl\<lparr>webRTCService := Some svc2,
            callState := (callState cl)
              \<lparr>callType := Some ty, cs_callId := Some ?cid, isInCall := True, isCalling := False,
               cs_localStream := Some ts, cs_participants := map (users db2) rs\<rparr>,
            answersListeners := answersListeners cl @ [?cid]\<rparr>,
         b2\<lparr>timers := timers b2 @ [?cid]\<rparr>)"
    using u svc len i sc po gu
    by (simp add: startCall_def MAX_PARTICIPANTS_def Let_def)
  show ?thesis
    unfolding res using k2 d2 n2 o2 g2 f1
    by (simp add: outcome_def dbOf_def clientOf_def browserOf_def tA)
qed

lemma createAnswer_fresh:
  assumes l: "map_of (peerConnections svc) r = None"
  shows "\<exists>res svc1 b1. createAnswer gen r offer svc b = (res, svc1, b1)
           \<and> peerConnections svc1
               = AList.update r \<lparr>peerUserId = r, connection = nextPc b, stream = None\<rparr>
                   (peerConnections svc)
           \<and> nextPc b1 = Suc (nextPc b)"
proof -
  let ?p = "nextPc b"
  let ?svc1 = "svc\<lparr>peerConnections := AList.update r \<lparr>peerUserId = r, connection = ?p, stream = None\<rparr>
                                  (peerConnections svc)\<rparr>"
  from constructPeerConnection_result [of r svc b] obtain ss b0 where
    c: "constructPeerConnection r svc b = (?p, ?svc1, b0)"
    and r: "nextPc b0 = Suc ?p"
    by blast
  have cp: "createPeerConnection r svc b = (?p, ?svc1, b0)"
    using l c by (simp add: createPeerConnection_def)
  obtain res svcB bB where ca: "createAnswer gen r offer svc b = (res, svcB, bB)"
    by (cases "createAnswer gen r offer svc b") auto
  have "svcB = ?svc1 \<and> nextPc bB = Suc ?p"
    using ca
    by (auto simp add: createAnswer_def cp r Let_def console_write_fields pc_update_fields
        split: sum.splits)
  then show ?thesis using ca by simp
qed

lemma answerCall_star:
  assumes env: "cooperative e"
    and u: "user cl = Some u" and svc: "webRTCService cl = Some svc"
    and empty: "peerConnections svc = []" and inc: "incomingCall cl = Some inc"
    and od: "offers db (cid, uid u) = Some od"
  shows "(\<exists>svc'. webRTCService (clientOf (answerCall e cid db cl b)) = Some svc'
             \<and> map fst (peerConnections svc') = [fromUserId od])
       \<and> nextPc (browserOf (answerCall e cid db cl b)) = Suc (nextPc b)"
proof -
  let ?caller = "fromUserId od"
  have m: "mediaDevicesSupported (media e)" "secureOrigin (media e)"
      "getUserMediaError (media e) = None"
    and rej: "\<forall>op. rejected e op = None"
    using env by (simp_all add: cooperative_def)
  from initializeLocalStream_ok [OF m, of "callKind (snd inc) = VoiceCall" svc b] obtain ts b1 where
    i: "initializeLocalStream (media e) (callKind (snd inc) = VoiceCall) svc b
          = (Inr ts, svc\<lparr>localStream := Some ts\<rparr>, b1)"
    and f1: "pcs b1 = pcs b" "nextPc b1 = nextPc b"
    by blast
  let ?svcA = "setCallId cid (svc\<lparr>localStream := Some ts\<rparr>)"
  have tA: "peerConnections ?svcA = []" using empty by (simp add: setCallId_def)
  have nA: "map_of (peerConnections ?svcA) ?caller = None" by (simp add: tA)
  from createAnswer_fresh [OF nA, of "sdpGen e" "description od" b1] obtain res svcB bB where
    ca: "createAnswer (sdpGen e) ?caller (description od) ?svcA b1 = (res, svcB, bB)"
    and tB: "peerConnections svcB
               = AList.update ?caller \<lparr>peerUserId = ?caller, connection = nextPc b1, stream = None\<rparr>
                   (peerConnections ?svcA)"
    and nB: "nextPc bB = Suc (nextPc b1)"
    by blast
  have tB1: "map fst (peerConnections svcB) = [?caller]"
    by (simp add: tB tA)
  show ?thesis
  proof (cases res)
    case (Inl err)
    have ao: "answerOffer e (uid u) cid db ?svcA b1 = (Some err, db, svcB, bB)"
      using rej od ca Inl by (simp add: answerOffer_def getOfferDoc_def Let_def)
    have "webRTCService (clientOf (answerCall e cid db cl b)) = Some svcB
        \<and> nextPc (browserOf (answerCall e cid db cl b)) = nextPc bB"
      using u svc inc i ao
      by (simp add: answerCall_def answerCallCatch_def clientOf_def browserOf_def
          console_write_fields)
    then show ?thesis using tB1 nB f1 by simp
  next
    case (Inr answer)
    let ?db1 = "db\<lparr>answers := (answers db)((cid, uid u) \<mapsto>
                   \<lparr>description = answer, fromUserId = uid u, toUserId = ?caller,
                     timestamp = now e\<rparr>)\<rparr>"
    let ?svcC = "listenForCandidates cid ?caller svcB"
    let ?bC = "setupRemoteStreamListener ?caller ?svcC bB"
    have ao: "answerOffer e (uid u) cid db ?svcA b1 = (None, ?db1, ?svcC, ?bC)"
      using rej od ca Inr by (simp add: answerOffer_def getOfferDoc_def setAnswerDoc_def Let_def)
    have tC: "map fst (peerConnections ?svcC) = [?caller]"
      by (simp add: listenForCandidates_table tB tA)
    have nC: "nextPc ?bC = Suc (nextPc b)"
      by (simp add: setupRemoteStreamListener_states nB f1)
    have gu: "\<And>ids db2. getUserDocs (rejected e) ids db2 = Inr (map (users db2) ids)"
      using rej by (simp add: getUserDocs_ok)
    have "webRTCService (clientOf (answerCall e cid db cl b)) = Some ?svcC
        \<and> nextPc (browserOf (answerCall e cid db cl b)) = nextPc ?bC"
      using u svc inc i ao
      by (cases "updateCallDoc (rejected e) cid
                   (\<lambda>d. d\<lparr>status := Active, startedAt := Some (now e)\<rparr>) ?db1")
        (simp_all add: answerCall_def answerCallCatch_def gu clientOf_def browserOf_def
          console_write_fields)
    then show ?thesis using tC nC by simp
  qed
qed

text \<open>
  C9.  In a cooperative environment, \<open>startCall\<close> by a caller without connections, to
  between one and four receivers, completes and leaves a connection table with exactly
  one entry per receiver and no other entry; it creates one peer connection per
  receiver, writes for each receiver one offer document from the caller to that
  receiver, and touches no other offer document.  \<open>answerCall\<close> by a receiver without
  connections, on the offer addressed to it, creates exactly one peer connection, and
  its table has the single entry of the sender of the offer, which is the caller.  No
  entry for another receiver arises on either side.
\<close>

theorem star_topology:
  assumes "cooperative e"
  shows "(\<forall>u svc. user cl = Some u \<and> webRTCService cl = Some svc \<and> peerConnections svc = []
             \<and> rs \<noteq> [] \<and> length rs \<le> 4 \<longrightarrow>
            outcome (startCall e rs ty db cl b) = None
          \<and> (\<exists>svc'. webRTCService (clientOf (startCall e rs ty db cl b)) = Some svc'
                \<and> fst ` set (peerConnections svc') = set rs
                \<and> distinct (map fst (peerConnections svc')))
          \<and> nextPc (browserOf (startCall e rs ty db cl b)) = nextPc b + card (set rs)
          \<and> (\<forall>k. k \<notin> Pair (newDocId e) ` set rs \<longrightarrow>
                offers (dbOf (startCall e rs ty db cl b)) k = offers db k)
          \<and> (\<forall>r \<in> set rs. \<exists>d. offers (dbOf (startCall e rs ty db cl b)) (newDocId e, r) = Some d
                \<and> fromUserId d = uid u \<and> toUserId d = r \<and> sdpType (description d) = Offer))
       \<and> (\<forall>u svc inc od. user cl = Some u \<and> webRTCService cl = Some svc
             \<and> peerConnections svc = [] \<and> incomingCall cl = Some inc
             \<and> offers db (cid, uid u) = Some od \<and> sdpType (description od) = Offer \<longrightarrow>
            (\<exists>svc'. webRTCService (clientOf (answerCall e cid db cl b)) = Some svc'
                \<and> map fst (peerConnections svc') = [fromUserId od])
          \<and> nextPc (browserOf (answerCall e cid db cl b)) = Suc (nextPc b))"
proof (rule conjI; intro allI impI)
  fix u svc
  assume "user cl = Some u \<and> webRTCService cl = Some svc \<and> peerConnections svc = []
             \<and> rs \<noteq> [] \<and> length rs \<le> 4"
  then show "outcome (startCall e rs ty db cl b) = None
          \<and> (\<exists>svc'. webRTCService (clientOf (startCall e rs ty db cl b)) = Some svc'
                \<and> fst ` set (peerConnections svc') = set rs
                \<and> distinct (map fst (peerConnections svc')))
          \<and> nextPc (browserOf (startCall e rs ty db cl b)) = nextPc b + card (set rs)
          \<and> (\<forall>k. k \<notin> Pair (newDocId e) ` set rs \<longrightarrow>
                offers (dbOf (startCall e rs ty db cl b)) k = offers db k)
          \<and> (\<forall>r \<in> set rs. \<exists>d. offers (dbOf (startCall e rs ty db cl b)) (newDocId e, r) = Some d
                \<and> fromUserId d = uid u \<and> toUserId d = r \<and> sdpType (description d) = Offer)"
    using startCall_star [OF assms, of cl u svc rs ty db b] by blast
next
  fix u svc inc od
  assume "user cl = Some u \<and> webRTCService cl = Some svc
             \<and> peerConnections svc = [] \<and> incomingCall cl = Some inc
             \<and> offers db (cid, uid u) = Some od \<and> sdpType (description od) = Offer"
  then show "(\<exists>svc'. webRTCService (clientOf (answerCall e cid db cl b)) = Some svc'
                \<and> map fst (peerConnections svc') = [fromUserId od])
          \<and> nextPc (browserOf (answerCall e cid db cl b)) = Suc (nextPc b)"
    using answerCall_star [OF assms, of cl u svc inc db cid od b] by blast
qed

lemma groupCall_offer:
  "offers (dbOf groupCall) (''call1'', ''bob'')
     = Some \<lparr>description = offer0, fromUserId = ''alice'', toUserId = ''bob'', timestamp = 100\<rparr>"
  unfolding groupCall_def by (simp add: run_defs offer0_def)

theorem star_topology_witness:
  "cooperative env0
   \<and> user (client0 alice) = Some alice
   \<and> webRTCService (client0 alice) = Some (newWebRTCService ''alice'')
   \<and> peerConnections (newWebRTCService ''alice'') = []
   \<and> [''bob'', ''carol'', ''dave''] \<noteq> [] \<and> length [''bob'', ''carol'', ''dave''] \<le> (4::nat)
   \<and> outcome groupCall = None
   \<and> map_option (\<lambda>s. fst ` set (peerConnections s)) (webRTCService (clientOf groupCall))
       = Some {''bob'', ''carol'', ''dave''}
   \<and> nextPc (browserOf groupCall) = 3
   \<and> user ringingClient = Some bob
   \<and> webRTCService ringingClient = Some (newWebRTCService ''bob'')
   \<and> peerConnections (newWebRTCService ''bob'') = []
   \<and> incomingCall ringingClient = Some (''call1'', call1\<lparr>status := Ringing, startedAt := None\<rparr>)
   \<and> offers (dbOf groupCall) (''call1'', uid bob)
       = Some \<lparr>description = offer0, fromUserId = ''alice'', toUserId = ''bob'', timestamp = 100\<rparr>
   \<and> sdpType offer0 = Offer
   \<and> map_option (\<lambda>s. map fst (peerConnections s))
        (webRTCService (clientOf (answerCall env0 ''call1'' (dbOf groupCall) ringingClient browser0)))
       = Some [''alice'']
   \<and> nextPc (browserOf (answerCall env0 ''call1'' (dbOf groupCall) ringingClient browser0)) = 1"
proof -
  have c: "cooperative env0" by (simp add: cooperative_def env0_def)
  have a: "user (client0 alice) = Some alice"
    "webRTCService (client0 alice) = Some (newWebRTCService ''alice'')"
    "peerConnections (newWebRTCService ''alice'') = []"
    "peerConnections (newWebRTCService ''bob'') = []"
    "user ringingClient = Some bob"
    "webRTCService ringingClient = Some (newWebRTCService ''bob'')"
    "incomingCall ringingClient = Some (''call1'', call1\<lparr>status := Ringing, startedAt := None\<rparr>)"
    "uid bob = ''bob''" "sdpType offer0 = Offer" "nextPc browser0 = 0"
    by (simp_all add: client0_def newWebRTCService_def ringingClient_def bob_def alice_def
        offer0_def browser0_def)
  have k: "card {''bob'', ''carol'', ''dave''} = 3" by simp
  note caller = star_topology [OF c, where cl = "client0 alice" and rs = "[''bob'', ''carol'', ''dave'']"
        and ty = VideoCall and db = db0 and b = browser0, THEN conjunct1, rule_format,
        of alice "newWebRTCService ''alice''"]
  note callee = star_topology [OF c, where cl = ringingClient and cid = "''call1''"
        and db = "dbOf groupCall" and b = browser0, THEN conjunct2, rule_format,
        of bob "newWebRTCService ''bob''" "(''call1'', call1\<lparr>status := Ringing, startedAt := None\<rparr>)"
           "\<lparr>description = offer0, fromUserId = ''alice'', toUserId = ''bob'', timestamp = 100\<rparr>"]
  have r1: "outcome groupCall = None
     \<and> map_option (\<lambda>s. fst ` set (peerConnections s)) (webRTCService (clientOf groupCall))
         = Some {''bob'', ''carol'', ''dave''}
     \<and> nextPc (browserOf groupCall) = 3"
    using caller a k unfolding groupCall_def by auto
  have r2: "map_option (\<lambda>s. map fst (peerConnections s))
        (webRTCService (clientOf (answerCall env0 ''call1'' (dbOf groupCall) ringingClient browser0)))
       = Some [''alice'']
     \<and> nextPc (browserOf (answerCall env0 ''call1'' (dbOf groupCall) ringingClient browser0)) = 1"
    using callee a groupCall_offer by auto
  show ?thesis using c a r1 r2 groupCall_offer by simp
qed


end
